theory Spec2Isabelle
  imports Complex_Main
begin

section \<open>The interpreter's string and number conversions\<close>

text \<open>
  The wrapper reads every answer of the operator with \<open>input\<close> and converts it with
  \<open>str.lower\<close>, \<open>float\<close> and \<open>int\<close>. These three builtins are modelled here for
  text whose characters are code points below 256: \<open>lower\<close> maps the capital
  letters of that range, and the two number conversions strip the white space of that
  range, which is the ASCII white space and the code points 0x85 and 0xA0. A parsed
  float is kept as the exact rational its decimal literal denotes, together with the two
  infinities and not-a-number, which \<open>float\<close> accepts by name; rounding to a binary
  double is not modelled. The builtin \<open>int\<close> is written \<open>py_int\<close>.
\<close>

datatype pyfloat = Finite rat | Infinity bool | NaN

definition lower_char :: "char \<Rightarrow> char" where
  "lower_char c =
     (case map_of
             (zip (''ABCDEFGHIJKLMNOPQRSTUVWXYZ'' @
                   [CHR 0xC0, CHR 0xC1, CHR 0xC2, CHR 0xC3, CHR 0xC4, CHR 0xC5, CHR 0xC6, CHR 0xC7,
                    CHR 0xC8, CHR 0xC9, CHR 0xCA, CHR 0xCB, CHR 0xCC, CHR 0xCD, CHR 0xCE, CHR 0xCF,
                    CHR 0xD0, CHR 0xD1, CHR 0xD2, CHR 0xD3, CHR 0xD4, CHR 0xD5, CHR 0xD6, CHR 0xD8,
                    CHR 0xD9, CHR 0xDA, CHR 0xDB, CHR 0xDC, CHR 0xDD, CHR 0xDE])
                  (''abcdefghijklmnopqrstuvwxyz'' @
                   [CHR 0xE0, CHR 0xE1, CHR 0xE2, CHR 0xE3, CHR 0xE4, CHR 0xE5, CHR 0xE6, CHR 0xE7,
                    CHR 0xE8, CHR 0xE9, CHR 0xEA, CHR 0xEB, CHR 0xEC, CHR 0xED, CHR 0xEE, CHR 0xEF,
                    CHR 0xF0, CHR 0xF1, CHR 0xF2, CHR 0xF3, CHR 0xF4, CHR 0xF5, CHR 0xF6, CHR 0xF8,
                    CHR 0xF9, CHR 0xFA, CHR 0xFB, CHR 0xFC, CHR 0xFD, CHR 0xFE])) c of
        Some d \<Rightarrow> d
      | None \<Rightarrow> c)"

definition lower :: "string \<Rightarrow> string" where
  "lower s = map lower_char s"

definition is_space :: "char \<Rightarrow> bool" where
  "is_space c = ((of_char c :: nat) \<in> {9, 10, 11, 12, 13, 32, 133, 160})"

definition strip :: "string \<Rightarrow> string" where
  "strip s = rev (dropWhile is_space (rev (dropWhile is_space s)))"

definition is_digit :: "char \<Rightarrow> bool" where
  "is_digit c = (48 \<le> (of_char c :: nat) \<and> (of_char c :: nat) \<le> 57)"

definition digit_val :: "char \<Rightarrow> nat" where
  "digit_val c = (of_char c :: nat) - 48"

text \<open>
  \<open>more_digits v n s\<close> continues a digit part of which \<open>n\<close> digits with value \<open>v\<close>
  have been read: further digits, each optionally preceded by one underscore. It returns
  the value, the number of digits and the unread rest.
\<close>

fun more_digits :: "nat \<Rightarrow> nat \<Rightarrow> string \<Rightarrow> nat \<times> nat \<times> string" where
  "more_digits v n [] = (v, n, [])"
| "more_digits v n [c] =
     (if is_digit c then (10 * v + digit_val c, Suc n, []) else (v, n, [c]))"
| "more_digits v n (c # d # ds) =
     (if is_digit c then more_digits (10 * v + digit_val c) (Suc n) (d # ds)
      else if c = CHR ''_'' \<and> is_digit d then more_digits (10 * v + digit_val d) (Suc n) ds
      else (v, n, c # d # ds))"

fun digitpart :: "string \<Rightarrow> (nat \<times> nat \<times> string) option" where
  "digitpart [] = None"
| "digitpart (c # cs) = (if is_digit c then Some (more_digits (digit_val c) 1 cs) else None)"

fun split_sign :: "string \<Rightarrow> bool \<times> string" where
  "split_sign [] = (False, [])"
| "split_sign (c # cs) =
     (if c = CHR ''-'' then (True, cs) else if c = CHR ''+'' then (False, cs) else (False, c # cs))"

text \<open>The mantissa: \<open>[digitpart] "." digitpart | digitpart ["."]\<close>.\<close>

definition number :: "string \<Rightarrow> (rat \<times> string) option" where
  "number s =
     (case digitpart s of
        Some (i, _, rest) \<Rightarrow>
          (case rest of
             [] \<Rightarrow> Some (of_nat i, [])
           | c # r2 \<Rightarrow>
               if c = CHR ''.'' then
                 (case digitpart r2 of
                    Some (f, k, r3) \<Rightarrow> Some (of_nat i + of_nat f / 10 ^ k, r3)
                  | None \<Rightarrow> Some (of_nat i, r2))
               else Some (of_nat i, c # r2))
      | None \<Rightarrow>
          (case s of
             [] \<Rightarrow> None
           | c # r2 \<Rightarrow>
               if c = CHR ''.'' then
                 (case digitpart r2 of
                    Some (f, k, r3) \<Rightarrow> Some (of_nat f / 10 ^ k, r3)
                  | None \<Rightarrow> None)
               else None))"

text \<open>The exponent: nothing, or \<open>("e" | "E") [sign] digitpart\<close> up to the end.\<close>

definition exponent :: "string \<Rightarrow> (bool \<times> nat) option" where
  "exponent s =
     (case s of
        [] \<Rightarrow> Some (False, 0)
      | c # cs \<Rightarrow>
          if c = CHR ''e'' \<or> c = CHR ''E'' then
            (case split_sign cs of
               (neg, ds) \<Rightarrow>
                 (case digitpart ds of
                    Some (e, _, []) \<Rightarrow> Some (neg, e)
                  | _ \<Rightarrow> None))
          else None)"

definition float :: "string \<Rightarrow> pyfloat option" where
  "float s =
     (case split_sign (strip s) of
        (neg, body) \<Rightarrow>
          if lower body = ''inf'' \<or> lower body = ''infinity'' then Some (Infinity neg)
          else if lower body = ''nan'' then Some NaN
          else
            (case number body of
               None \<Rightarrow> None
             | Some (m, rest) \<Rightarrow>
                 (case exponent rest of
                    None \<Rightarrow> None
                  | Some (eneg, e) \<Rightarrow>
                      Some (Finite ((if neg then - m else m) *
                                    (if eneg then 1 / 10 ^ e else 10 ^ e))))))"

definition py_int :: "string \<Rightarrow> int option" where
  "py_int s =
     (case split_sign (strip s) of
        (neg, body) \<Rightarrow>
          (case digitpart body of
             Some (v, _, []) \<Rightarrow> Some (if neg then - int v else int v)
           | _ \<Rightarrow> None))"

section \<open>Data model\<close>

text \<open>
  A numpy table is a list of rows, a one-dimensional array a list; the entries are
  taken as exact rationals. \<open>shape[0]\<close> of a table is its number of rows and
  \<open>np.ravel\<close> flattens it row by row.
\<close>

type_synonym array1 = "rat list"
type_synonym array2 = "rat list list"

definition ravel :: "array2 \<Rightarrow> array1" where
  "ravel t = concat t"

text \<open>The keyword arguments of the library's \<open>LogisticRegression\<close> constructor.\<close>

record hyperparams =
  penalty :: string
  dual :: bool
  tol :: pyfloat
  C :: pyfloat
  fit_intercept :: bool
  intercept_scaling :: pyfloat
  class_weight :: "string option"
  random_state :: "int option"
  solver :: string
  max_iter :: int
  multi_class :: string
  verbose :: int
  warm_start :: bool
  n_jobs :: "int option"
  l1_ratio :: "pyfloat option"

text \<open>
  What a fitted estimator exposes (\<open>classes_\<close>, \<open>coef_\<close>, \<open>intercept_\<close>,
  \<open>n_iter_\<close>), and the estimator object itself: its parameters and, once fitted, what
  it has learned.
\<close>

record learned =
  est_classes :: array1
  est_coef :: array2
  est_intercept :: array1
  est_n_iter :: "int list"

record estimator =
  params :: hyperparams
  fitted :: "learned option"

text \<open>
  Exceptions. The faults of the library are instances of \<open>Exception\<close> and carry a
  message; \<open>EOFError\<close> is what \<open>input\<close> raises when standard input is exhausted.
\<close>

datatype exn =
    EOFError
  | AttributeError string
  | IndexError string
  | ValueError string
  | TypeError string
  | NotFittedError string

fun message :: "exn \<Rightarrow> string" where
  "message EOFError = ''EOF when reading a line''"
| "message (AttributeError m) = m"
| "message (IndexError m) = m"
| "message (ValueError m) = m"
| "message (TypeError m) = m"
| "message (NotFittedError m) = m"

text \<open>
  The instance data of a \<open>LogRegression\<close> object. A field assigned in \<open>__init__\<close>
  holds \<open>None\<close> for Python's \<open>None\<close>. The attributes \<open>coefficients\<close> and
  \<open>intercept\<close> are not assigned in \<open>__init__\<close>: \<open>run\<close> creates them, and \<open>None\<close>
  stands for an attribute that does not exist yet. A source name ending in an underscore
  is written with a prime.
\<close>

record LogRegression =
  attributes :: "array2 option"
  labels :: "array2 option"
  test_size :: "pyfloat option"
  cv :: "int option"
  regression :: "estimator option"
  classes_' :: "array1 option"
  coef_' :: "array2 option"
  intercept_' :: "array1 option"
  n_iter_' :: "int list option"
  accuracy :: "rat option"
  precision :: "rat option"
  recall :: "rat option"
  roc_auc :: "rat option"
  cross_val_scores :: "array1 option"
  coefficients :: "array2 option"
  intercept :: "array1 option"

definition init :: "array2 option \<Rightarrow> array2 option \<Rightarrow> LogRegression" where
  "init a l =
     \<lparr>attributes = a, labels = l, test_size = None, cv = None, regression = None,
      classes_' = None, coef_' = None, intercept_' = None, n_iter_' = None,
      accuracy = None, precision = None, recall = None, roc_auc = None,
      cross_val_scores = None, coefficients = None, intercept = None\<rparr>"

section \<open>The external collaborator\<close>

text \<open>
  The numerical library is a parameter of the model: one function for each routine the
  wrapper calls, returning \<open>Inl\<close> of the exception when the routine faults. A routine
  that draws random numbers is represented by one of its possible outcomes.
  \<open>default_params\<close> are the defaults of the constructor's signature, used by
  \<open>LogisticRegression()\<close> without arguments. \<open>fit\<close> yields what the estimator
  learns; \<open>predict\<close> may be given \<open>None\<close> for the data, the default argument of the
  wrapper's \<open>predict\<close>, and is written \<open>predict_est\<close> to keep the name
  \<open>predict\<close> for the wrapper's method. The split and the cross-validation receive the object's
  \<open>attributes\<close>, \<open>labels\<close>, \<open>test_size\<close> and \<open>cv\<close> as they are.
\<close>

record sklearn =
  default_params :: hyperparams
  train_test_split ::
    "array2 option \<Rightarrow> array2 option \<Rightarrow> pyfloat option \<Rightarrow>
     exn + (array2 \<times> array2 \<times> array2 \<times> array2)"
  fit :: "hyperparams \<Rightarrow> array2 \<Rightarrow> array1 \<Rightarrow> exn + learned"
  predict_est :: "estimator \<Rightarrow> array2 option \<Rightarrow> exn + array1"
  predict_proba :: "estimator \<Rightarrow> array2 \<Rightarrow> exn + array2"
  accuracy_score :: "array1 \<Rightarrow> array2 \<Rightarrow> exn + rat"
  roc_auc_score :: "array1 \<Rightarrow> array1 \<Rightarrow> exn + rat"
  cross_val_score ::
    "estimator \<Rightarrow> array2 option \<Rightarrow> array2 option \<Rightarrow> int option \<Rightarrow> exn + array1"

section \<open>Input, output and the trace of a session\<close>

text \<open>
  Everything observable is recorded in order on one trace: a prompt written by
  \<open>input\<close>, a \<open>print\<close> with its arguments, a call of a library routine with its
  arguments. \<open>New_LogisticRegression None\<close> is the constructor called without arguments.
\<close>

datatype prompt =
    Use_defaults | End_of_inputs | End_of_inputs_nl
  | Ask_test_size | Ask_cv | Ask_penalty | Ask_dual | Ask_tol | Ask_C | Ask_fit_intercept
  | Ask_intercept_scaling | Ask_class_weight | Ask_random_state | Ask_solver | Ask_max_iter
  | Ask_multi_class | Ask_verbose | Ask_warm_start | Ask_n_jobs | Ask_l1_ratio

fun prompt_text :: "prompt \<Rightarrow> string" where
  "prompt_text Use_defaults = ''Use default parameters (Y/n)? ''"
| "prompt_text End_of_inputs = ''=======================================================''"
| "prompt_text End_of_inputs_nl =
     ''=======================================================\<newline>''"
| "prompt_text Ask_test_size =
     ''What fraction of the dataset should be the testing set? Input a decimal: ''"
| "prompt_text Ask_cv = ''Input the number of folds for cross validation: ''"
| "prompt_text Ask_penalty =
     ''Enter 1 for 'l1', 2 for 'l2', 3 for 'elasticnet', or 4 for 'none': ''"
| "prompt_text Ask_dual = ''Use dual formulation (y/N)? ''"
| "prompt_text Ask_tol = ''Enter a number for the tolerance for stopping criteria: ''"
| "prompt_text Ask_C =
     ''Enter a positive number for the inverse of regularization strength C: ''"
| "prompt_text Ask_fit_intercept = ''Include a y-intercept in the model (Y/n)? ''"
| "prompt_text Ask_intercept_scaling = ''Enter a number for the intercept scaling factor: ''"
| "prompt_text Ask_class_weight = ''Automatically balance the class weights (y/N)? ''"
| "prompt_text Ask_random_state = ''Input an integer for the random number seed: ''"
| "prompt_text Ask_solver =
     ''Enter 1 for 'newton-cg', 2 for 'lbfgs', 3 for 'liblinear', 4 for 'sag', or 5 for 'saga': ''"
| "prompt_text Ask_max_iter = ''Enter the max number of iterations: ''"
| "prompt_text Ask_multi_class =
     ''Enter 1 for one-vs-rest, 2 for multinomial, or 3 to automatically choose: ''"
| "prompt_text Ask_verbose = ''Enable verbose output during training (y/N)? ''"
| "prompt_text Ask_warm_start =
     ''Enable warm start? This will use the previous solution for fitting (y/N): ''"
| "prompt_text Ask_n_jobs = ''Input the number of jobs for computation: ''"
| "prompt_text Ask_l1_ratio = ''Enter a number for the Elastic-Net mixing parameter: ''"

datatype shown =
    Str string
  | Arr1 array1
  | Arr2 array2
  | Ints "int list"
  | Exn exn
  | Format string "shown list"
  | Num rat

datatype call =
    New_LogisticRegression "hyperparams option"
  | Call_train_test_split "array2 option" "array2 option" "pyfloat option"
  | Call_fit estimator array2 array1
  | Call_predict estimator "array2 option"
  | Call_predict_proba estimator array2
  | Call_accuracy_score array1 array2
  | Call_roc_auc_score array1 array1
  | Call_cross_val_score estimator "array2 option" "array2 option" "int option"

datatype event = Ask prompt | Print "shown list" | Call call

record world =
  self :: LogRegression
  stdin :: "string list"
  trace :: "event list"

definition emit :: "event \<Rightarrow> world \<Rightarrow> world" where
  "emit ev w = w\<lparr>trace := trace w @ [ev]\<rparr>"

definition say :: "string \<Rightarrow> world \<Rightarrow> world" where
  "say s w = emit (Print [Str s]) w"

text \<open>
  \<open>input\<close> writes the prompt and reads one line; with no line left it raises
  \<open>EOFError\<close>, after the prompt has been written.
\<close>

definition input :: "prompt \<Rightarrow> world \<Rightarrow> (exn + string) \<times> world" where
  "input p w =
     (case stdin w of
        [] \<Rightarrow> (Inl EOFError, emit (Ask p) w)
      | u # rest \<Rightarrow> (Inr u, (emit (Ask p) w)\<lparr>stdin := rest\<rparr>))"

definition is_call :: "event \<Rightarrow> bool" where
  "is_call ev = (case ev of Call _ \<Rightarrow> True | _ \<Rightarrow> False)"

section \<open>Collecting the parameters: \<open>_create_model\<close>\<close>

text \<open>
  The body of the \<open>while True\<close> loop runs at most once: it ends in \<open>break\<close>. It is
  written as one function for each prompt, \<open>from_x\<close> being the body from the prompt
  for \<open>x\<close> to the end of the loop, applied to the local variables collected so far; a
  \<open>break\<close> returns them as they are. \<open>self.test_size\<close> and \<open>self.cv\<close> live in
  the object. An \<open>EOFError\<close> of \<open>input\<close> is not handled anywhere and leaves the
  function. The functions are listed from the last prompt back to the first.
\<close>

definition from_l1_ratio :: "hyperparams \<Rightarrow> world \<Rightarrow> (exn + hyperparams) \<times> world" where
  "from_l1_ratio h w =
     (if penalty h = ''elasticnet'' then
        (case input Ask_l1_ratio w of
           (Inl e, w') \<Rightarrow> (Inl e, w')
         | (Inr user_input, w') \<Rightarrow>
             (case float user_input of
                Some x \<Rightarrow> (Inr (h\<lparr>l1_ratio := Some x\<rparr>), w')
              | None \<Rightarrow> (Inr h, w')))
      else (Inr h, w))"

definition from_n_jobs :: "hyperparams \<Rightarrow> world \<Rightarrow> (exn + hyperparams) \<times> world" where
  "from_n_jobs h w =
     (case input Ask_n_jobs w of
        (Inl e, w') \<Rightarrow> (Inl e, w')
      | (Inr user_input, w') \<Rightarrow>
          (case py_int user_input of
             Some n \<Rightarrow> from_l1_ratio (h\<lparr>n_jobs := Some n\<rparr>) w'
           | None \<Rightarrow> if lower user_input = ''q'' then (Inr h, w') else from_l1_ratio h w'))"

definition from_warm_start :: "hyperparams \<Rightarrow> world \<Rightarrow> (exn + hyperparams) \<times> world" where
  "from_warm_start h w =
     (case input Ask_warm_start w of
        (Inl e, w') \<Rightarrow> (Inl e, w')
      | (Inr answer, w') \<Rightarrow>
          (let user_input = lower answer;
               h' = (if user_input = ''y'' then h\<lparr>warm_start := True\<rparr> else h)
           in if user_input = ''q'' then (Inr h', w') else from_n_jobs h' w'))"

definition from_verbose :: "hyperparams \<Rightarrow> world \<Rightarrow> (exn + hyperparams) \<times> world" where
  "from_verbose h w =
     (case input Ask_verbose w of
        (Inl e, w') \<Rightarrow> (Inl e, w')
      | (Inr answer, w') \<Rightarrow>
          (let user_input = lower answer;
               h' = (if user_input = ''y'' then h\<lparr>verbose := 1\<rparr> else h)
           in if user_input = ''q'' then (Inr h', w') else from_warm_start h' w'))"

definition from_multi_class :: "hyperparams \<Rightarrow> world \<Rightarrow> (exn + hyperparams) \<times> world" where
  "from_multi_class h w =
     (case input Ask_multi_class (say ''Please choose a multiclass scheme.'' w) of
        (Inl e, w') \<Rightarrow> (Inl e, w')
      | (Inr user_input, w') \<Rightarrow>
          if lower user_input = ''q'' then (Inr h, w')
          else if user_input = ''1'' then from_verbose (h\<lparr>multi_class := ''ovr''\<rparr>) w'
          else if user_input = ''2'' then from_verbose (h\<lparr>multi_class := ''multinomial''\<rparr>) w'
          else from_verbose h w')"

definition from_max_iter :: "hyperparams \<Rightarrow> world \<Rightarrow> (exn + hyperparams) \<times> world" where
  "from_max_iter h w =
     (case input Ask_max_iter w of
        (Inl e, w') \<Rightarrow> (Inl e, w')
      | (Inr user_input, w') \<Rightarrow>
          (case py_int user_input of
             Some n \<Rightarrow> from_multi_class (h\<lparr>max_iter := n\<rparr>) w'
           | None \<Rightarrow> if lower user_input = ''q'' then (Inr h, w') else from_multi_class h w'))"

definition from_solver :: "hyperparams \<Rightarrow> world \<Rightarrow> (exn + hyperparams) \<times> world" where
  "from_solver h w =
     (case input Ask_solver
             (say ''Which algorithm should be used in the optimization problem?'' w) of
        (Inl e, w') \<Rightarrow> (Inl e, w')
      | (Inr user_input, w') \<Rightarrow>
          if lower user_input = ''q'' then (Inr h, w')
          else if user_input = ''1'' then from_max_iter (h\<lparr>solver := ''newton-cg''\<rparr>) w'
          else if user_input = ''3'' then from_max_iter (h\<lparr>solver := ''liblinear''\<rparr>) w'
          else if user_input = ''4'' then from_max_iter (h\<lparr>solver := ''sag''\<rparr>) w'
          else if user_input = ''5'' then from_max_iter (h\<lparr>solver := ''saga''\<rparr>) w'
          else from_max_iter h w')"

definition from_random_state :: "hyperparams \<Rightarrow> world \<Rightarrow> (exn + hyperparams) \<times> world" where
  "from_random_state h w =
     (case input Ask_random_state w of
        (Inl e, w') \<Rightarrow> (Inl e, w')
      | (Inr user_input, w') \<Rightarrow>
          (case py_int user_input of
             Some n \<Rightarrow> from_solver (h\<lparr>random_state := Some n\<rparr>) w'
           | None \<Rightarrow> if lower user_input = ''q'' then (Inr h, w') else from_solver h w'))"

definition from_class_weight :: "hyperparams \<Rightarrow> world \<Rightarrow> (exn + hyperparams) \<times> world" where
  "from_class_weight h w =
     (case input Ask_class_weight w of
        (Inl e, w') \<Rightarrow> (Inl e, w')
      | (Inr answer, w') \<Rightarrow>
          (let user_input = lower answer;
               h' = (if user_input = ''y'' then h\<lparr>class_weight := Some ''balanced''\<rparr> else h)
           in if user_input = ''q'' then (Inr h', w')
              else from_random_state h'
                     (say (''To set manual weights, call get_regression().set_params() '' @
                           ''to set the class_weight parameter.'') w')))"

definition from_intercept_scaling ::
  "hyperparams \<Rightarrow> world \<Rightarrow> (exn + hyperparams) \<times> world" where
  "from_intercept_scaling h w =
     (if fit_intercept h then
        (case input Ask_intercept_scaling w of
           (Inl e, w') \<Rightarrow> (Inl e, w')
         | (Inr user_input, w') \<Rightarrow>
             (case float user_input of
                Some x \<Rightarrow> from_class_weight (h\<lparr>intercept_scaling := x\<rparr>) w'
              | None \<Rightarrow>
                  if lower user_input = ''q'' then (Inr h, w') else from_class_weight h w'))
      else from_class_weight h w)"

definition from_fit_intercept :: "hyperparams \<Rightarrow> world \<Rightarrow> (exn + hyperparams) \<times> world" where
  "from_fit_intercept h w =
     (case input Ask_fit_intercept w of
        (Inl e, w') \<Rightarrow> (Inl e, w')
      | (Inr answer, w') \<Rightarrow>
          (let user_input = lower answer;
               h' = (if user_input = ''n'' then h\<lparr>fit_intercept := False\<rparr> else h)
           in if user_input = ''q'' then (Inr h', w') else from_intercept_scaling h' w'))"

definition from_C :: "hyperparams \<Rightarrow> world \<Rightarrow> (exn + hyperparams) \<times> world" where
  "from_C h w =
     (case input Ask_C w of
        (Inl e, w') \<Rightarrow> (Inl e, w')
      | (Inr user_input, w') \<Rightarrow>
          (case float user_input of
             Some x \<Rightarrow> from_fit_intercept (h\<lparr>C := x\<rparr>) w'
           | None \<Rightarrow> if lower user_input = ''q'' then (Inr h, w') else from_fit_intercept h w'))"

definition from_tol :: "hyperparams \<Rightarrow> world \<Rightarrow> (exn + hyperparams) \<times> world" where
  "from_tol h w =
     (case input Ask_tol w of
        (Inl e, w') \<Rightarrow> (Inl e, w')
      | (Inr user_input, w') \<Rightarrow>
          (case float user_input of
             Some x \<Rightarrow> from_C (h\<lparr>tol := x\<rparr>) w'
           | None \<Rightarrow> if lower user_input = ''q'' then (Inr h, w') else from_C h w'))"

definition from_dual :: "hyperparams \<Rightarrow> world \<Rightarrow> (exn + hyperparams) \<times> world" where
  "from_dual h w =
     (case input Ask_dual w of
        (Inl e, w') \<Rightarrow> (Inl e, w')
      | (Inr answer, w') \<Rightarrow>
          (let user_input = lower answer;
               h' = (if user_input = ''y'' then h\<lparr>dual := True\<rparr> else h)
           in if user_input = ''q'' then (Inr h', w') else from_tol h' w'))"

definition from_penalty :: "hyperparams \<Rightarrow> world \<Rightarrow> (exn + hyperparams) \<times> world" where
  "from_penalty h w =
     (case input Ask_penalty (say ''Which norm should be used in penalization?'' w) of
        (Inl e, w') \<Rightarrow> (Inl e, w')
      | (Inr user_input, w') \<Rightarrow>
          if lower user_input = ''q'' then (Inr h, w')
          else if user_input = ''1'' then from_dual (h\<lparr>penalty := ''l1''\<rparr>) w'
          else if user_input = ''3'' then from_dual (h\<lparr>penalty := ''elasticnet''\<rparr>) w'
          else if user_input = ''4'' then from_dual (h\<lparr>penalty := ''none''\<rparr>) w'
          else from_dual h w')"

definition set_cv :: "int option \<Rightarrow> world \<Rightarrow> world" where
  "set_cv v w = w\<lparr>self := (self w)\<lparr>cv := v\<rparr>\<rparr>"

definition set_test_size :: "pyfloat option \<Rightarrow> world \<Rightarrow> world" where
  "set_test_size v w = w\<lparr>self := (self w)\<lparr>test_size := v\<rparr>\<rparr>"

definition from_cv :: "hyperparams \<Rightarrow> world \<Rightarrow> (exn + hyperparams) \<times> world" where
  "from_cv h w =
     (case input Ask_cv w of
        (Inl e, w') \<Rightarrow> (Inl e, w')
      | (Inr user_input, w') \<Rightarrow>
          (case py_int user_input of
             Some n \<Rightarrow> from_penalty h (set_cv (Some n) w')
           | None \<Rightarrow> if lower user_input = ''q'' then (Inr h, w') else from_penalty h w'))"

definition from_test_size :: "hyperparams \<Rightarrow> world \<Rightarrow> (exn + hyperparams) \<times> world" where
  "from_test_size h w =
     (case input Ask_test_size w of
        (Inl e, w') \<Rightarrow> (Inl e, w')
      | (Inr user_input, w') \<Rightarrow>
          (case float user_input of
             Some x \<Rightarrow> from_cv h (set_test_size (Some x) w')
           | None \<Rightarrow> if lower user_input = ''q'' then (Inr h, w') else from_cv h w'))"

text \<open>The values assigned under \<open># Set defaults\<close> to the local variables.\<close>

definition local_defaults :: hyperparams where
  "local_defaults =
     \<lparr>penalty = ''l2'', dual = False, tol = Finite (1 / 10000), C = Finite 1,
      fit_intercept = True, intercept_scaling = Finite 1, class_weight = None,
      random_state = None, solver = ''lbfgs'', max_iter = 100, multi_class = ''auto'',
      verbose = 0, warm_start = False, n_jobs = None, l1_ratio = None\<rparr>"

definition new_LogisticRegression ::
  "sklearn \<Rightarrow> hyperparams option \<Rightarrow> world \<Rightarrow> (exn + estimator) \<times> world" where
  "new_LogisticRegression sk kw w =
     (Inr \<lparr>params = (case kw of None \<Rightarrow> default_params sk | Some h \<Rightarrow> h), fitted = None\<rparr>,
      emit (Call (New_LogisticRegression kw)) w)"

definition create_model :: "sklearn \<Rightarrow> world \<Rightarrow> (exn + estimator) \<times> world" where
  "create_model sk w =
     (case input Use_defaults
             (say ''======================================\<newline>''
               (say ''= Parameter inputs for LogRegression =''
                 (say ''\<newline>======================================'' w))) of
        (Inl e, w1) \<Rightarrow> (Inl e, w1)
      | (Inr answer, w1) \<Rightarrow>
          if lower answer \<noteq> ''n'' then
            (case input End_of_inputs
                    (say ''= End of parameter inputs; press any key to continue. =''
                      (say ''\<newline>=======================================================''
                        (set_cv None (set_test_size (Some (Finite (1 / 4))) w1)))) of
               (Inl e, w2) \<Rightarrow> (Inl e, w2)
             | (Inr _, w2) \<Rightarrow> new_LogisticRegression sk None w2)
          else
            (case from_test_size local_defaults
                    (set_cv None (set_test_size (Some (Finite (1 / 4)))
                      (say (''If you finish entering parameters early, '' @
                            ''enter 'q' to skip ahead.\<newline>'')
                        (say (''\<newline>If you are unsure about a parameter, '' @
                              ''press enter to use its default value.'') w1)))) of
               (Inl e, w2) \<Rightarrow> (Inl e, w2)
             | (Inr h, w2) \<Rightarrow>
                 (case input End_of_inputs_nl
                         (say ''= End of parameter inputs; press any key to continue. =''
                           (say ''\<newline>=======================================================''
                             w2)) of
                    (Inl e, w3) \<Rightarrow> (Inl e, w3)
                  | (Inr _, w3) \<Rightarrow> new_LogisticRegression sk (Some h) w3)))"

section \<open>Validation and report: \<open>_check_inputs\<close>, \<open>_output_results\<close>\<close>

definition check_inputs :: "world \<Rightarrow> bool \<times> world" where
  "check_inputs w =
     (case attributes (self w) of
        None \<Rightarrow>
          (False,
           emit (Print [Str (''attributes is missing; call set_attributes(new_attributes) to '' @
                             ''fix this! new_attributes should be a''),
                        Str ''populated numpy array of your independent variables.'']) w)
      | Some a \<Rightarrow>
          (case labels (self w) of
             None \<Rightarrow>
               (False,
                emit (Print [Str (''labels is missing; call set_labels(new_labels) to fix '' @
                                  ''this! new_labels should be a populated numpy''),
                             Str ''array of your dependent variables.'']) w)
           | Some l \<Rightarrow>
               if length a \<noteq> length l then
                 (False,
                  emit (Print [Str (''attributes and labels don't have the same number of '' @
                                    ''rows. Make sure the number of samples in each''),
                               Str ''dataset matches!'']) w)
               else (True, w)))"

definition shown_opt :: "('a \<Rightarrow> shown) \<Rightarrow> 'a option \<Rightarrow> shown" where
  "shown_opt f v = (case v of None \<Rightarrow> Str ''None'' | Some x \<Rightarrow> f x)"

text \<open>
  The report reads the object's fields. Reading an attribute that does not exist raises
  \<open>AttributeError\<close>, and formatting \<open>None\<close> with a width raises \<open>TypeError\<close>.
\<close>

definition no_attribute :: "string \<Rightarrow> exn" where
  "no_attribute name = AttributeError (''LogRegression object has no attribute '' @ name)"

definition output_results :: "world \<Rightarrow> (exn + unit) \<times> world" where
  "output_results w =
     (let s = self w;
          w1 = emit (Print [Str ''Classes:\<newline>'', shown_opt Arr1 (classes_' s)])
                 (say ''=========================\<newline>''
                   (say ''= LogRegression Results =''
                     (say ''\<newline>========================='' w)))
      in case coefficients s of
           None \<Rightarrow> (Inl (no_attribute ''coefficients''), w1)
         | Some c \<Rightarrow>
             (case intercept s of
                None \<Rightarrow>
                  (Inl (no_attribute ''intercept''),
                   emit (Print [Str ''\<newline>Coefficients:\<newline>'', Arr2 c]) w1)
              | Some i \<Rightarrow>
                  (let w2 = emit (Print [Str ''\<newline>Number of Iterations:\<newline>'',
                                         shown_opt Ints (n_iter_' s)])
                              (emit (Print [Str ''\<newline>Intercept:\<newline>'', Arr1 i])
                                (emit (Print [Str ''\<newline>Coefficients:\<newline>'', Arr2 c]) w1))
                   in case accuracy s of
                        None \<Rightarrow> (Inl (TypeError ''unsupported format string''), w2)
                      | Some a \<Rightarrow>
                          (case roc_auc s of
                             None \<Rightarrow>
                               (Inl (TypeError ''unsupported format string''),
                                emit (Print [Format ''\<newline>{:<20} {:<20}''
                                               [Str ''Accuracy:'', Num a]]) w2)
                           | Some r \<Rightarrow>
                               (Inr (),
                                say ''===================\<newline>''
                                 (say ''= End of results. =''
                                   (say ''\<newline>===================''
                                     (say (''\<newline>\<newline>Call predict() to make '' @
                                           ''predictions for new data.'')
                                       (emit (Print [Str ''\<newline>Cross Validation Scores:\<newline>'',
                                                     shown_opt Arr1 (cross_val_scores s)])
                                         (emit (Print [Format ''\<newline>{:<20} {:<20}''
                                                         [Str ''ROC AUC:'', Num r]])
                                           (emit (Print [Format ''\<newline>{:<20} {:<20}''
                                                           [Str ''Accuracy:'', Num a]])
                                             w2)))))))))))"

section \<open>The wrapper: \<open>run\<close> and \<open>predict\<close>\<close>

text \<open>
  \<open>run\<close> is written in the stages its comments name. A library call is recorded on
  the trace and then either yields its result or raises; only the call of \<open>fit\<close> stands
  inside a \<open>try\<close>. The estimator \<open>m\<close> handed from stage to stage is the object that
  \<open>self.regression\<close> refers to. \<open>[::, 1]\<close> takes the second column of the probability
  matrix and raises \<open>IndexError\<close> when there is none.
\<close>

definition update_self :: "(LogRegression \<Rightarrow> LogRegression) \<Rightarrow> world \<Rightarrow> world" where
  "update_self f w = w\<lparr>self := f (self w)\<rparr>"

definition column1 :: "array2 \<Rightarrow> exn + array1" where
  "column1 t =
     (if list_all (\<lambda>row. 1 < length row) t then Inr (map (\<lambda>row. row ! 1) t)
      else Inl (IndexError ''index 1 is out of bounds for axis 1''))"

definition run_metrics ::
  "sklearn \<Rightarrow> estimator \<Rightarrow> array1 \<Rightarrow> array1 \<Rightarrow> array2 \<Rightarrow> world \<Rightarrow> (exn + unit) \<times> world" where
  "run_metrics sk m y_prediction y_pred_probas dataset_y_test w =
     (let w1 = emit (Call (Call_accuracy_score y_prediction dataset_y_test)) w
      in case accuracy_score sk y_prediction dataset_y_test of
           Inl e \<Rightarrow> (Inl e, w1)
         | Inr a \<Rightarrow>
             (let w2 = emit (Call (Call_roc_auc_score y_prediction y_pred_probas))
                         (update_self (\<lambda>s. s\<lparr>accuracy := Some a\<rparr>) w1)
              in case roc_auc_score sk y_prediction y_pred_probas of
                   Inl e \<Rightarrow> (Inl e, w2)
                 | Inr r \<Rightarrow>
                     (let w3 = update_self (\<lambda>s. s\<lparr>roc_auc := Some r\<rparr>) w2;
                          w4 = emit (Call (Call_cross_val_score m (attributes (self w3))
                                             (labels (self w3)) (cv (self w3)))) w3
                      in case cross_val_score sk m (attributes (self w3)) (labels (self w3))
                                (cv (self w3)) of
                           Inl e \<Rightarrow> (Inl e, w4)
                         | Inr scores \<Rightarrow>
                             output_results
                               (update_self (\<lambda>s. s\<lparr>cross_val_scores := Some scores\<rparr>) w4))))"

definition run_predictions ::
  "sklearn \<Rightarrow> estimator \<Rightarrow> array2 \<Rightarrow> array2 \<Rightarrow> world \<Rightarrow> (exn + unit) \<times> world" where
  "run_predictions sk m dataset_X_test dataset_y_test w =
     (let w1 = emit (Call (Call_predict m (Some dataset_X_test))) w
      in case predict_est sk m (Some dataset_X_test) of
           Inl e \<Rightarrow> (Inl e, w1)
         | Inr y_prediction \<Rightarrow>
             (let w2 = emit (Call (Call_predict_proba m dataset_X_test)) w1
              in case predict_proba sk m dataset_X_test of
                   Inl e \<Rightarrow> (Inl e, w2)
                 | Inr probas \<Rightarrow>
                     (case column1 probas of
                        Inl e \<Rightarrow> (Inl e, w2)
                      | Inr y_pred_probas \<Rightarrow>
                          run_metrics sk m y_prediction y_pred_probas dataset_y_test w2)))"

definition run_train ::
  "sklearn \<Rightarrow> estimator \<Rightarrow> array2 \<Rightarrow> array2 \<Rightarrow> array2 \<Rightarrow> array2 \<Rightarrow> world \<Rightarrow>
   (exn + unit) \<times> world" where
  "run_train sk m dataset_X_train dataset_X_test dataset_y_train dataset_y_test w =
     (let w1 = emit (Call (Call_fit m dataset_X_train (ravel dataset_y_train))) w
      in case fit sk (params m) dataset_X_train (ravel dataset_y_train) of
           Inl e \<Rightarrow>
             (Inr (),
              update_self (\<lambda>s. s\<lparr>regression := None\<rparr>)
                (emit (Print [Exn e])
                  (say ''Here is the exception message:''
                    (say (''An exception occurred while training the logistic regression '' @
                          ''model. Check your inputs and try again.'') w1))))
         | Inr l \<Rightarrow>
             (let m' = m\<lparr>fitted := Some l\<rparr>
              in run_predictions sk m' dataset_X_test dataset_y_test
                   (update_self
                      (\<lambda>s. s\<lparr>regression := Some m',
                              classes_' := Some (est_classes l),
                              coefficients := Some (est_coef l),
                              intercept := Some (est_intercept l),
                              n_iter_' := Some (est_n_iter l)\<rparr>) w1)))"

definition run :: "sklearn \<Rightarrow> world \<Rightarrow> (exn + unit) \<times> world" where
  "run sk w =
     (case check_inputs w of
        (False, w1) \<Rightarrow> (Inr (), w1)
      | (True, w1) \<Rightarrow>
          (case create_model sk w1 of
             (Inl e, w2) \<Rightarrow> (Inl e, w2)
           | (Inr m, w2) \<Rightarrow>
               (let w3 = update_self (\<lambda>s. s\<lparr>regression := Some m\<rparr>) w2;
                    w4 = emit (Call (Call_train_test_split (attributes (self w3))
                                       (labels (self w3)) (test_size (self w3)))) w3
                in case train_test_split sk (attributes (self w3)) (labels (self w3))
                          (test_size (self w3)) of
                     Inl e \<Rightarrow> (Inl e, w4)
                   | Inr (dataset_X_train, dataset_X_test, dataset_y_train, dataset_y_test) \<Rightarrow>
                       run_train sk m dataset_X_train dataset_X_test dataset_y_train
                         dataset_y_test w4)))"

text \<open>\<open>predict\<close> returns the predictions, or \<open>None\<close> after a diagnostic.\<close>

definition predict :: "sklearn \<Rightarrow> array2 option \<Rightarrow> world \<Rightarrow> (exn + array1 option) \<times> world" where
  "predict sk dataset_X w =
     (case regression (self w) of
        None \<Rightarrow>
          (Inr None,
           say ''The regression model seems to be missing. Have you called run() yet?'' w)
      | Some m \<Rightarrow>
          (let w1 = emit (Call (Call_predict m dataset_X)) w
           in case predict_est sk m dataset_X of
                Inl e \<Rightarrow>
                  (Inr None,
                   emit (Print [Exn e])
                     (say ''Here is the exception message:''
                       (say ''The model failed to run. Check your inputs and try again.'' w1)))
              | Inr y_prediction \<Rightarrow>
                  (Inr (Some y_prediction),
                   emit (Print [Str ''\<newline>Predictions:\<newline>'', Arr1 y_prediction,
                                Str ''\<newline>'']) w1)))"

section \<open>Accessors and modifiers\<close>

text \<open>
  An accessor reads an attribute by name. The instance dictionary holds the fields set
  in \<open>__init__\<close> and, once \<open>run\<close> has created them, \<open>coefficients\<close> and
  \<open>intercept\<close>; the class itself defines only methods, none of them under a name an
  accessor reads. Reading a name that is not there raises \<open>AttributeError\<close>.
\<close>

datatype pyval =
    PyNone
  | PyTable array2
  | PyArray array1
  | PyFloat pyfloat
  | PyInt int
  | PyInts "int list"
  | PyNum rat
  | PyEstimator estimator

definition py :: "('a \<Rightarrow> pyval) \<Rightarrow> 'a option \<Rightarrow> pyval" where
  "py f v = (case v of None \<Rightarrow> PyNone | Some x \<Rightarrow> f x)"

definition created :: "string \<Rightarrow> ('a \<Rightarrow> pyval) \<Rightarrow> 'a option \<Rightarrow> (string \<times> pyval) list" where
  "created name f v = (case v of None \<Rightarrow> [] | Some x \<Rightarrow> [(name, f x)])"

definition instance_dict :: "LogRegression \<Rightarrow> (string \<times> pyval) list" where
  "instance_dict s =
     [(''attributes'', py PyTable (attributes s)),
      (''labels'', py PyTable (labels s)),
      (''test_size'', py PyFloat (test_size s)),
      (''cv'', py PyInt (cv s)),
      (''regression'', py PyEstimator (regression s)),
      (''classes_'', py PyArray (classes_' s)),
      (''coef_'', py PyTable (coef_' s)),
      (''intercept_'', py PyArray (intercept_' s)),
      (''n_iter_'', py PyInts (n_iter_' s)),
      (''accuracy'', py PyNum (accuracy s)),
      (''precision'', py PyNum (precision s)),
      (''recall'', py PyNum (recall s)),
      (''roc_auc'', py PyNum (roc_auc s)),
      (''cross_val_scores'', py PyArray (cross_val_scores s))]
     @ created ''coefficients'' PyTable (coefficients s)
     @ created ''intercept'' PyArray (intercept s)"

definition getattr :: "LogRegression \<Rightarrow> string \<Rightarrow> exn + pyval" where
  "getattr s name =
     (case map_of (instance_dict s) name of
        None \<Rightarrow> Inl (no_attribute name)
      | Some v \<Rightarrow> Inr v)"

definition get_attributes :: "LogRegression \<Rightarrow> exn + pyval" where
  "get_attributes s = getattr s ''attributes''"

definition get_labels :: "LogRegression \<Rightarrow> exn + pyval" where
  "get_labels s = getattr s ''labels''"

definition get_classes :: "LogRegression \<Rightarrow> exn + pyval" where
  "get_classes s = getattr s ''classes''"

definition get_regression :: "LogRegression \<Rightarrow> exn + pyval" where
  "get_regression s = getattr s ''regression''"

definition get_coefficents :: "LogRegression \<Rightarrow> exn + pyval" where
  "get_coefficents s = getattr s ''coef_''"

definition get_n_iter_' :: "LogRegression \<Rightarrow> exn + pyval" where
  "get_n_iter_' s = getattr s ''n_iter_''"

definition get_accuracy :: "LogRegression \<Rightarrow> exn + pyval" where
  "get_accuracy s = getattr s ''accuracy''"

definition get_roc_auc :: "LogRegression \<Rightarrow> exn + pyval" where
  "get_roc_auc s = getattr s ''roc_auc''"

definition get_cross_val_scores :: "LogRegression \<Rightarrow> exn + pyval" where
  "get_cross_val_scores s = getattr s ''cross_val_scores''"

definition set_attributes :: "array2 option \<Rightarrow> LogRegression \<Rightarrow> LogRegression" where
  "set_attributes new_attributes s = s\<lparr>attributes := new_attributes\<rparr>"

definition set_labels :: "array2 option \<Rightarrow> LogRegression \<Rightarrow> LogRegression" where
  "set_labels new_labels s = s\<lparr>labels := new_labels\<rparr>"

text \<open>
  The states an object can be in: the one \<open>__init__\<close> builds, and every state a method
  leaves behind, whatever the operator types and whatever the library answers.
\<close>

inductive reachable :: "LogRegression \<Rightarrow> bool" where
  reach_init: "reachable (init a l)"
| reach_set_attributes: "reachable s \<Longrightarrow> reachable (set_attributes a s)"
| reach_set_labels: "reachable s \<Longrightarrow> reachable (set_labels l s)"
| reach_run: "reachable (self w) \<Longrightarrow> reachable (self (snd (run sk w)))"
| reach_predict: "reachable (self w) \<Longrightarrow> reachable (self (snd (predict sk x w)))"

section \<open>The specification's side\<close>

text \<open>
  The dataset invariant of the specification: attributes and labels are both present
  and have the same number of rows.
\<close>

definition valid_dataset :: "LogRegression \<Rightarrow> bool" where
  "valid_dataset s =
     (case attributes s of
        None \<Rightarrow> False
      | Some a \<Rightarrow> (case labels s of None \<Rightarrow> False | Some l \<Rightarrow> length a = length l))"

text \<open>
  What the specification expects of the library's cross-validation: one score for each
  fold, the number of folds being the one asked for, or the library's own default when
  none is given.
\<close>

definition kfold_contract :: "sklearn \<Rightarrow> nat \<Rightarrow> bool" where
  "kfold_contract sk default_folds =
     (\<forall>m X y k scores.
        cross_val_score sk m X y k = Inr scores \<longrightarrow>
        int (length scores) = (case k of None \<Rightarrow> int default_folds | Some n \<Rightarrow> n))"

text \<open>The events a call of a method adds to the trace.\<close>

definition issued :: "world \<Rightarrow> world \<Rightarrow> event list" where
  "issued w w' = drop (length (trace w)) (trace w')"

section \<open>A small collaborator for evaluating concrete sessions\<close>

text \<open>
  A stand-in for the library with the faults the real one has where the sessions below
  need them: the split rejects a test fraction outside \<open>(0, 1)\<close> and holds out the last
  two rows, fitting needs two classes, an unfitted estimator cannot predict, the ROC-AUC
  score needs exactly two classes among its first argument, and k-fold cross-validation
  needs at least two folds.
\<close>

definition stub_train_test_split ::
  "array2 option \<Rightarrow> array2 option \<Rightarrow> pyfloat option \<Rightarrow>
   exn + (array2 \<times> array2 \<times> array2 \<times> array2)" where
  "stub_train_test_split X y ts =
     (case (X, y, ts) of
        (Some a, Some l, Some (Finite f)) \<Rightarrow>
          if 0 < f \<and> f < 1 \<and> length a = length l \<and> 4 \<le> length a then
            Inr (take (length a - 2) a, drop (length a - 2) a,
                 take (length l - 2) l, drop (length l - 2) l)
          else Inl (ValueError ''test_size should be in the (0, 1) range'')
      | _ \<Rightarrow> Inl (TypeError ''Expected sequence or array-like''))"

definition stub_fit :: "hyperparams \<Rightarrow> array2 \<Rightarrow> array1 \<Rightarrow> exn + learned" where
  "stub_fit h X y =
     (if X = [] \<or> length X \<noteq> length y then
        Inl (ValueError ''Found input variables with inconsistent numbers of samples'')
      else
        (case remdups y of
           c0 # c1 # _ \<Rightarrow>
             Inr \<lparr>est_classes = remdups y, est_coef = [[1]], est_intercept = [0],
                  est_n_iter = [1]\<rparr>
         | _ \<Rightarrow> Inl (ValueError ''This solver needs samples of at least 2 classes'')))"

definition stub_predict :: "estimator \<Rightarrow> array2 option \<Rightarrow> exn + array1" where
  "stub_predict m X =
     (case fitted m of
        None \<Rightarrow> Inl (NotFittedError ''This LogisticRegression instance is not fitted yet'')
      | Some l \<Rightarrow>
          (case X of
             None \<Rightarrow> Inl (ValueError ''Expected 2D array, got scalar array instead'')
           | Some t \<Rightarrow>
               (case est_classes l of
                  c0 # c1 # _ \<Rightarrow>
                    Inr (map (\<lambda>row. case row of [] \<Rightarrow> c0
                                     | x # _ \<Rightarrow> if 0 < x then c1 else c0) t)
                | _ \<Rightarrow> Inl (ValueError ''fewer than two classes''))))"

definition stub_predict_proba :: "estimator \<Rightarrow> array2 \<Rightarrow> exn + array2" where
  "stub_predict_proba m X =
     (case fitted m of
        None \<Rightarrow> Inl (NotFittedError ''This LogisticRegression instance is not fitted yet'')
      | Some l \<Rightarrow>
          Inr (map (\<lambda>row. case row of [] \<Rightarrow> [1 / 2, 1 / 2]
                           | x # _ \<Rightarrow> if 0 < x then [1 / 5, 4 / 5] else [7 / 10, 3 / 10]) X))"

definition stub_accuracy_score :: "array1 \<Rightarrow> array2 \<Rightarrow> exn + rat" where
  "stub_accuracy_score p t =
     (if p = [] \<or> length p \<noteq> length (ravel t) then
        Inl (ValueError ''Found input variables with inconsistent numbers of samples'')
      else Inr (of_nat (length (filter (\<lambda>(a, b). a = b) (zip p (ravel t)))) /
                of_nat (length p)))"

definition stub_roc_auc_score :: "array1 \<Rightarrow> array1 \<Rightarrow> exn + rat" where
  "stub_roc_auc_score y scores =
     (if length (remdups y) = 2 \<and> length y = length scores then Inr 1
      else Inl (ValueError (''Only one class present in y_true. ROC AUC score is not '' @
                            ''defined in that case.'')))"

definition stub_cross_val_score ::
  "estimator \<Rightarrow> array2 option \<Rightarrow> array2 option \<Rightarrow> int option \<Rightarrow> exn + array1" where
  "stub_cross_val_score m X y k =
     (case (X, y) of
        (Some a, Some l) \<Rightarrow>
          (case k of
             None \<Rightarrow> Inr (replicate 5 1)
           | Some n \<Rightarrow>
               if 2 \<le> n \<and> n \<le> int (length a) then Inr (replicate (nat n) 1)
               else Inl (ValueError ''k-fold cross-validation requires at least one split''))
      | _ \<Rightarrow> Inl (TypeError ''Expected sequence or array-like''))"

definition stub_sklearn :: sklearn where
  "stub_sklearn =
     \<lparr>default_params = local_defaults,
      train_test_split = stub_train_test_split,
      fit = stub_fit,
      predict_est = stub_predict,
      predict_proba = stub_predict_proba,
      accuracy_score = stub_accuracy_score,
      roc_auc_score = stub_roc_auc_score,
      cross_val_score = stub_cross_val_score\<rparr>"

text \<open>A dataset of four samples with one feature and a label each.\<close>

definition four_samples :: LogRegression where
  "four_samples = init (Some [[- 1], [1], [- 2], [2]]) (Some [[0], [1], [0], [1]])"

definition session :: "LogRegression \<Rightarrow> string list \<Rightarrow> world" where
  "session s answers = \<lparr>self = s, stdin = answers, trace = []\<rparr>"

text \<open>An estimator as the stand-in's \<open>fit\<close> leaves it.\<close>

definition fitted_stub :: estimator where
  "fitted_stub =
     \<lparr>params = local_defaults,
      fitted = Some \<lparr>est_classes = [0, 1], est_coef = [[1]], est_intercept = [0],
                     est_n_iter = [1]\<rparr>\<rparr>"

text \<open>The object without the two fields the parameter collection assigns.\<close>

definition forget_config :: "LogRegression \<Rightarrow> LogRegression" where
  "forget_config s = s\<lparr>test_size := None, cv := None\<rparr>"

text \<open>The world after the operator has answered the prompt \<open>p\<close>, \<open>rest\<close> being the lines left.\<close>

definition answered :: "prompt \<Rightarrow> string list \<Rightarrow> world \<Rightarrow> world" where
  "answered p rest w = (emit (Ask p) w)\<lparr>stdin := rest\<rparr>"

text \<open>
  A session that declines the defaults, chooses the elastic-net penalty, declines the
  intercept, gives a mixing ratio and answers every other prompt with the enter key.
\<close>

definition elasticnet_session :: world where
  "elasticnet_session =
     session four_samples
       [''n'', '''', '''', ''3'', '''', '''', '''', ''n'', '''', '''', '''', '''', '''', '''',
        '''', '''', ''0.5'', '''']"

text \<open>
  A dataset whose labels are all of one class: fitting it faults. The session accepts
  the default parameters and presses a key at the closing prompt.
\<close>

definition one_class_samples :: LogRegression where
  "one_class_samples = init (Some [[- 1], [1], [- 2], [2]]) (Some [[0], [0], [0], [0]])"

definition one_class_session :: world where
  "one_class_session = session one_class_samples [''y'', '''']"

text \<open>
  A dataset on which the stand-in predicts the two held-out samples wrongly, so that the
  predicted labels \<open>[1, 0]\<close> differ from the true ones \<open>[0, 1]\<close>; a session on it that
  accepts the defaults, and one that asks for two folds and then quits.
\<close>

definition crossed_samples :: LogRegression where
  "crossed_samples = init (Some [[- 1], [1], [2], [- 2]]) (Some [[0], [1], [0], [1]])"

definition crossed_session :: world where
  "crossed_session = session crossed_samples [''y'', '''']"

definition two_fold_session :: world where
  "two_fold_session = session crossed_samples [''n'', '''', ''2'', ''q'', '''']"

definition stub_learned :: learned where
  "stub_learned =
     \<lparr>est_classes = [0, 1], est_coef = [[1]], est_intercept = [0], est_n_iter = [1]\<rparr>"

text \<open>
  A session that declines the defaults, asks for a test fraction of 5 and then quits.
\<close>

definition bad_fraction_session :: world where
  "bad_fraction_session = session four_samples [''n'', ''5'', ''q'', '''']"

text \<open>
  The dialogue of a call: the prompts it issued, in order, each with the line that
  answered it. Every prompt that is answered takes exactly one line of the input, so the
  prompts are paired with the lines as they stood when the call began; a prompt that met
  the end of the input has no partner.
\<close>

fun prompts :: "event list \<Rightarrow> prompt list" where
  "prompts [] = []"
| "prompts (Ask p # evs) = p # prompts evs"
| "prompts (Print x # evs) = prompts evs"
| "prompts (Call c # evs) = prompts evs"

definition asked :: "world \<Rightarrow> world \<Rightarrow> prompt list" where
  "asked w w' = prompts (issued w w')"

definition dialogue :: "world \<Rightarrow> world \<Rightarrow> (prompt \<times> string) list" where
  "dialogue w w' = zip (asked w w') (stdin w)"

text \<open>
  A session that declines the defaults, chooses the elastic-net penalty and quits at the
  next prompt.
\<close>

definition quit_after_penalty_session :: world where
  "quit_after_penalty_session = session four_samples [''n'', '''', '''', ''3'', ''q'', '''']"

section \<open>Basic facts about the trace\<close>

lemma emit_frame [simp]:
  "self (emit ev w) = self w" "stdin (emit ev w) = stdin w" "trace (emit ev w) = trace w @ [ev]"
  by (simp_all add: emit_def)

lemma say_frame [simp]:
  "self (say t w) = self w" "stdin (say t w) = stdin w"
  "trace (say t w) = trace w @ [Print [Str t]]"
  by (simp_all add: say_def)

lemma input_frame:
  "input p w = (r, w') \<Longrightarrow> self w' = self w \<and> trace w' = trace w @ [Ask p]"
  by (auto simp: input_def split: list.splits)

section \<open>Validation of the dataset\<close>

lemma check_inputs_valid: "fst (check_inputs w) = valid_dataset (self w)"
  by (simp add: check_inputs_def valid_dataset_def split: option.splits)

lemma check_inputs_rejects:
  "\<not> valid_dataset (self w) \<Longrightarrow> \<exists>d. check_inputs w = (False, emit (Print d) w)"
  by (auto simp: check_inputs_def valid_dataset_def split: option.splits)

lemma check_inputs_accepts: "valid_dataset (self w) \<Longrightarrow> check_inputs w = (True, w)"
  by (auto simp: check_inputs_def valid_dataset_def split: option.splits)

text \<open>
  C1. When the attributes or the labels are absent, or their row counts differ,
  \<open>run\<close> returns normally after printing one diagnostic: the object, and with it the
  model handle \<open>regression\<close>, is as it was, no answer is read, and no routine of the
  library is called (no construction of a model, no split, no fit).
\<close>

theorem run_rejects_invalid_dataset:
  assumes "\<not> valid_dataset (self w)"
  shows "fst (run sk w) = Inr () \<and>
         self (snd (run sk w)) = self w \<and>
         regression (self (snd (run sk w))) = regression (self w) \<and>
         stdin (snd (run sk w)) = stdin w \<and>
         (\<exists>d. trace (snd (run sk w)) = trace w @ [Print d]) \<and>
         \<not> list_ex is_call (issued w (snd (run sk w)))"
proof -
  from assms obtain d where d: "check_inputs w = (False, emit (Print d) w)"
    using check_inputs_rejects by blast
  then have r: "run sk w = (Inr (), emit (Print d) w)"
    by (simp add: run_def)
  show ?thesis
    by (simp add: r issued_def is_call_def)
qed

theorem run_rejects_invalid_dataset_witness:
  "\<not> valid_dataset (init (Some [[1], [2]]) (Some [[0]])) \<and>
   fst (run stub_sklearn (session (init (Some [[1], [2]]) (Some [[0]])) [])) = Inr () \<and>
   regression (self (snd (run stub_sklearn
     (session (init (Some [[1], [2]]) (Some [[0]])) [])))) = None \<and>
   \<not> list_ex is_call (trace (snd (run stub_sklearn
     (session (init (Some [[1], [2]]) (Some [[0]])) []))))"
  using run_rejects_invalid_dataset
    [of "session (init (Some [[1], [2]]) (Some [[0]])) []" stub_sklearn]
  by (simp add: valid_dataset_def init_def session_def issued_def)

section \<open>Prediction\<close>

text \<open>
  C9. Called while the model handle is absent, \<open>predict\<close> prints a diagnostic and
  returns no result without calling the library. With a handle present it calls the
  library's prediction once and returns the predicted labels after printing them, or,
  when that call faults, prints a diagnostic with the fault and returns no result. The
  object is never changed.
\<close>

theorem predict_needs_model:
  "(regression (self w) = None \<longrightarrow>
      fst (predict sk X w) = Inr None \<and>
      (\<exists>d. trace (snd (predict sk X w)) = trace w @ [Print d]) \<and>
      \<not> list_ex is_call (issued w (snd (predict sk X w)))) \<and>
   (\<forall>m. regression (self w) = Some m \<longrightarrow>
      (\<forall>y. predict_est sk m X = Inr y \<longrightarrow>
         fst (predict sk X w) = Inr (Some y) \<and>
         issued w (snd (predict sk X w)) =
           [Call (Call_predict m X),
            Print [Str ''\<newline>Predictions:\<newline>'', Arr1 y, Str ''\<newline>'']]) \<and>
      (\<forall>e. predict_est sk m X = Inl e \<longrightarrow>
         fst (predict sk X w) = Inr None \<and>
         (\<exists>d. issued w (snd (predict sk X w)) =
           [Call (Call_predict m X), Print d, Print [Str ''Here is the exception message:''],
            Print [Exn e]]))) \<and>
   self (snd (predict sk X w)) = self w"
  by (auto simp: predict_def issued_def is_call_def Let_def split: option.splits sum.splits)

theorem predict_needs_model_witness:
  "fst (predict stub_sklearn (Some [[3]]) (session four_samples [])) = Inr None \<and>
   \<not> list_ex is_call (issued (session four_samples [])
        (snd (predict stub_sklearn (Some [[3]]) (session four_samples [])))) \<and>
   fst (predict stub_sklearn (Some [[3], [- 3]])
         (session (four_samples\<lparr>regression := Some fitted_stub\<rparr>) [])) = Inr (Some [1, 0]) \<and>
   fst (predict stub_sklearn None
         (session (four_samples\<lparr>regression := Some fitted_stub\<rparr>) [])) = Inr None"
  using predict_needs_model [of "session four_samples []" stub_sklearn "Some [[3]]"]
    predict_needs_model [of "session (four_samples\<lparr>regression := Some fitted_stub\<rparr>) []"
      stub_sklearn "Some [[3], [- 3]]"]
    predict_needs_model [of "session (four_samples\<lparr>regression := Some fitted_stub\<rparr>) []"
      stub_sklearn None]
  by (simp add: session_def four_samples_def init_def fitted_stub_def stub_sklearn_def
      stub_predict_def)

section \<open>Facts about the parameter collection\<close>

subsection \<open>The loop leaves the object alone, but for \<open>test_size\<close> and \<open>cv\<close>\<close>

lemma from_l1_ratio_self:
  "from_l1_ratio h w = (r, w') \<Longrightarrow>
   self w' = self w"
  unfolding from_l1_ratio_def Let_def
  by (auto split: if_splits prod.splits sum.splits option.splits  dest!: input_frame)

lemma from_n_jobs_self:
  "from_n_jobs h w = (r, w') \<Longrightarrow>
   self w' = self w"
  unfolding from_n_jobs_def Let_def
  by (auto split: if_splits prod.splits sum.splits option.splits  dest!: input_frame from_l1_ratio_self)

lemma from_warm_start_self:
  "from_warm_start h w = (r, w') \<Longrightarrow>
   self w' = self w"
  unfolding from_warm_start_def Let_def
  by (auto split: if_splits prod.splits sum.splits option.splits  dest!: input_frame from_n_jobs_self)

lemma from_verbose_self:
  "from_verbose h w = (r, w') \<Longrightarrow>
   self w' = self w"
  unfolding from_verbose_def Let_def
  by (auto split: if_splits prod.splits sum.splits option.splits  dest!: input_frame from_warm_start_self)

lemma from_multi_class_self:
  "from_multi_class h w = (r, w') \<Longrightarrow>
   self w' = self w"
  unfolding from_multi_class_def Let_def
  by (auto split: if_splits prod.splits sum.splits option.splits  dest!: input_frame from_verbose_self)

lemma from_max_iter_self:
  "from_max_iter h w = (r, w') \<Longrightarrow>
   self w' = self w"
  unfolding from_max_iter_def Let_def
  by (auto split: if_splits prod.splits sum.splits option.splits  dest!: input_frame from_multi_class_self)

lemma from_solver_self:
  "from_solver h w = (r, w') \<Longrightarrow>
   self w' = self w"
  unfolding from_solver_def Let_def
  by (auto split: if_splits prod.splits sum.splits option.splits  dest!: input_frame from_max_iter_self)

lemma from_random_state_self:
  "from_random_state h w = (r, w') \<Longrightarrow>
   self w' = self w"
  unfolding from_random_state_def Let_def
  by (auto split: if_splits prod.splits sum.splits option.splits  dest!: input_frame from_solver_self)

lemma from_class_weight_self:
  "from_class_weight h w = (r, w') \<Longrightarrow>
   self w' = self w"
  unfolding from_class_weight_def Let_def
  by (auto split: if_splits prod.splits sum.splits option.splits  dest!: input_frame from_random_state_self)

lemma from_intercept_scaling_self:
  "from_intercept_scaling h w = (r, w') \<Longrightarrow>
   self w' = self w"
  unfolding from_intercept_scaling_def Let_def
  by (auto split: if_splits prod.splits sum.splits option.splits  dest!: input_frame from_class_weight_self)

lemma from_fit_intercept_self:
  "from_fit_intercept h w = (r, w') \<Longrightarrow>
   self w' = self w"
  unfolding from_fit_intercept_def Let_def
  by (auto split: if_splits prod.splits sum.splits option.splits  dest!: input_frame from_intercept_scaling_self)

lemma from_C_self:
  "from_C h w = (r, w') \<Longrightarrow>
   self w' = self w"
  unfolding from_C_def Let_def
  by (auto split: if_splits prod.splits sum.splits option.splits  dest!: input_frame from_fit_intercept_self)

lemma from_tol_self:
  "from_tol h w = (r, w') \<Longrightarrow>
   self w' = self w"
  unfolding from_tol_def Let_def
  by (auto split: if_splits prod.splits sum.splits option.splits  dest!: input_frame from_C_self)

lemma from_dual_self:
  "from_dual h w = (r, w') \<Longrightarrow>
   self w' = self w"
  unfolding from_dual_def Let_def
  by (auto split: if_splits prod.splits sum.splits option.splits  dest!: input_frame from_tol_self)

lemma from_penalty_self:
  "from_penalty h w = (r, w') \<Longrightarrow>
   self w' = self w"
  unfolding from_penalty_def Let_def
  by (auto split: if_splits prod.splits sum.splits option.splits  dest!: input_frame from_dual_self)

lemma from_cv_self:
  "from_cv h w = (r, w') \<Longrightarrow>
   forget_config (self w') = forget_config (self w)"
  unfolding from_cv_def Let_def
  by (auto split: if_splits prod.splits sum.splits option.splits simp: set_cv_def forget_config_def dest!: input_frame from_penalty_self)

lemma from_test_size_self:
  "from_test_size h w = (r, w') \<Longrightarrow>
   forget_config (self w') = forget_config (self w)"
  unfolding from_test_size_def Let_def
  by (auto split: if_splits prod.splits sum.splits option.splits simp: set_test_size_def forget_config_def dest!: input_frame from_cv_self)

subsection \<open>The prompt for the intercept scaling\<close>

lemma from_l1_ratio_silent:
  "from_l1_ratio h w = (r, w') \<Longrightarrow>
   \<exists>new. trace w' = trace w @ new \<and> Ask Ask_intercept_scaling \<notin> set new"
  unfolding from_l1_ratio_def Let_def
  by (auto split: if_splits prod.splits sum.splits option.splits  dest!: input_frame)

lemma from_n_jobs_silent:
  "from_n_jobs h w = (r, w') \<Longrightarrow>
   \<exists>new. trace w' = trace w @ new \<and> Ask Ask_intercept_scaling \<notin> set new"
  unfolding from_n_jobs_def Let_def
  by (auto split: if_splits prod.splits sum.splits option.splits  dest!: input_frame from_l1_ratio_silent)

lemma from_warm_start_silent:
  "from_warm_start h w = (r, w') \<Longrightarrow>
   \<exists>new. trace w' = trace w @ new \<and> Ask Ask_intercept_scaling \<notin> set new"
  unfolding from_warm_start_def Let_def
  by (auto split: if_splits prod.splits sum.splits option.splits  dest!: input_frame from_n_jobs_silent)

lemma from_verbose_silent:
  "from_verbose h w = (r, w') \<Longrightarrow>
   \<exists>new. trace w' = trace w @ new \<and> Ask Ask_intercept_scaling \<notin> set new"
  unfolding from_verbose_def Let_def
  by (auto split: if_splits prod.splits sum.splits option.splits  dest!: input_frame from_warm_start_silent)

lemma from_multi_class_silent:
  "from_multi_class h w = (r, w') \<Longrightarrow>
   \<exists>new. trace w' = trace w @ new \<and> Ask Ask_intercept_scaling \<notin> set new"
  unfolding from_multi_class_def Let_def
  by (auto split: if_splits prod.splits sum.splits option.splits  dest!: input_frame from_verbose_silent)

lemma from_max_iter_silent:
  "from_max_iter h w = (r, w') \<Longrightarrow>
   \<exists>new. trace w' = trace w @ new \<and> Ask Ask_intercept_scaling \<notin> set new"
  unfolding from_max_iter_def Let_def
  by (auto split: if_splits prod.splits sum.splits option.splits  dest!: input_frame from_multi_class_silent)

lemma from_solver_silent:
  "from_solver h w = (r, w') \<Longrightarrow>
   \<exists>new. trace w' = trace w @ new \<and> Ask Ask_intercept_scaling \<notin> set new"
  unfolding from_solver_def Let_def
  by (auto split: if_splits prod.splits sum.splits option.splits  dest!: input_frame from_max_iter_silent)

lemma from_random_state_silent:
  "from_random_state h w = (r, w') \<Longrightarrow>
   \<exists>new. trace w' = trace w @ new \<and> Ask Ask_intercept_scaling \<notin> set new"
  unfolding from_random_state_def Let_def
  by (auto split: if_splits prod.splits sum.splits option.splits  dest!: input_frame from_solver_silent)

lemma from_class_weight_silent:
  "from_class_weight h w = (r, w') \<Longrightarrow>
   \<exists>new. trace w' = trace w @ new \<and> Ask Ask_intercept_scaling \<notin> set new"
  unfolding from_class_weight_def Let_def
  by (auto split: if_splits prod.splits sum.splits option.splits  dest!: input_frame from_random_state_silent)

lemma from_l1_ratio_scaling:
  "from_l1_ratio h w = (Inr h', w') \<Longrightarrow>
   \<exists>new. trace w' = trace w @ new \<and> Ask Ask_intercept_scaling \<notin> set new \<and>
     fit_intercept h' = fit_intercept h \<and> intercept_scaling h' = intercept_scaling h"
  unfolding from_l1_ratio_def Let_def
  by (auto split: if_splits prod.splits sum.splits option.splits  dest!: input_frame)

lemma from_n_jobs_scaling:
  "from_n_jobs h w = (Inr h', w') \<Longrightarrow>
   \<exists>new. trace w' = trace w @ new \<and> Ask Ask_intercept_scaling \<notin> set new \<and>
     fit_intercept h' = fit_intercept h \<and> intercept_scaling h' = intercept_scaling h"
  unfolding from_n_jobs_def Let_def
  by (auto split: if_splits prod.splits sum.splits option.splits  dest!: input_frame from_l1_ratio_scaling)

lemma from_warm_start_scaling:
  "from_warm_start h w = (Inr h', w') \<Longrightarrow>
   \<exists>new. trace w' = trace w @ new \<and> Ask Ask_intercept_scaling \<notin> set new \<and>
     fit_intercept h' = fit_intercept h \<and> intercept_scaling h' = intercept_scaling h"
  unfolding from_warm_start_def Let_def
  by (auto split: if_splits prod.splits sum.splits option.splits  dest!: input_frame from_n_jobs_scaling)

lemma from_verbose_scaling:
  "from_verbose h w = (Inr h', w') \<Longrightarrow>
   \<exists>new. trace w' = trace w @ new \<and> Ask Ask_intercept_scaling \<notin> set new \<and>
     fit_intercept h' = fit_intercept h \<and> intercept_scaling h' = intercept_scaling h"
  unfolding from_verbose_def Let_def
  by (auto split: if_splits prod.splits sum.splits option.splits  dest!: input_frame from_warm_start_scaling)

lemma from_multi_class_scaling:
  "from_multi_class h w = (Inr h', w') \<Longrightarrow>
   \<exists>new. trace w' = trace w @ new \<and> Ask Ask_intercept_scaling \<notin> set new \<and>
     fit_intercept h' = fit_intercept h \<and> intercept_scaling h' = intercept_scaling h"
  unfolding from_multi_class_def Let_def
  by (auto split: if_splits prod.splits sum.splits option.splits  dest!: input_frame from_verbose_scaling)

lemma from_max_iter_scaling:
  "from_max_iter h w = (Inr h', w') \<Longrightarrow>
   \<exists>new. trace w' = trace w @ new \<and> Ask Ask_intercept_scaling \<notin> set new \<and>
     fit_intercept h' = fit_intercept h \<and> intercept_scaling h' = intercept_scaling h"
  unfolding from_max_iter_def Let_def
  by (auto split: if_splits prod.splits sum.splits option.splits  dest!: input_frame from_multi_class_scaling)

lemma from_solver_scaling:
  "from_solver h w = (Inr h', w') \<Longrightarrow>
   \<exists>new. trace w' = trace w @ new \<and> Ask Ask_intercept_scaling \<notin> set new \<and>
     fit_intercept h' = fit_intercept h \<and> intercept_scaling h' = intercept_scaling h"
  unfolding from_solver_def Let_def
  by (auto split: if_splits prod.splits sum.splits option.splits  dest!: input_frame from_max_iter_scaling)

lemma from_random_state_scaling:
  "from_random_state h w = (Inr h', w') \<Longrightarrow>
   \<exists>new. trace w' = trace w @ new \<and> Ask Ask_intercept_scaling \<notin> set new \<and>
     fit_intercept h' = fit_intercept h \<and> intercept_scaling h' = intercept_scaling h"
  unfolding from_random_state_def Let_def
  by (auto split: if_splits prod.splits sum.splits option.splits  dest!: input_frame from_solver_scaling)

lemma from_class_weight_scaling:
  "from_class_weight h w = (Inr h', w') \<Longrightarrow>
   \<exists>new. trace w' = trace w @ new \<and> Ask Ask_intercept_scaling \<notin> set new \<and>
     fit_intercept h' = fit_intercept h \<and> intercept_scaling h' = intercept_scaling h"
  unfolding from_class_weight_def Let_def
  by (auto split: if_splits prod.splits sum.splits option.splits  dest!: input_frame from_random_state_scaling)

lemma from_intercept_scaling_gate:
  "from_intercept_scaling h w = (r, w') \<Longrightarrow>
   \<exists>new. trace w' = trace w @ new \<and>
     (Ask Ask_intercept_scaling \<in> set new \<longleftrightarrow> fit_intercept h)"
  unfolding from_intercept_scaling_def Let_def
  by (auto split: if_splits prod.splits sum.splits option.splits  dest!: input_frame from_class_weight_silent)

lemma from_intercept_scaling_scaling:
  "from_intercept_scaling h w = (Inr h', w') \<Longrightarrow>
   \<exists>new. trace w' = trace w @ new \<and>
     (Ask Ask_intercept_scaling \<in> set new \<longleftrightarrow> fit_intercept h) \<and>
     fit_intercept h' = fit_intercept h \<and>
     (\<not> fit_intercept h \<longrightarrow> intercept_scaling h' = intercept_scaling h)"
  unfolding from_intercept_scaling_def Let_def
  by (auto split: if_splits prod.splits sum.splits option.splits  dest!: input_frame from_class_weight_scaling)

lemma from_fit_intercept_scaling:
  "from_fit_intercept h w = (Inr h', w') \<Longrightarrow>
   \<exists>new. trace w' = trace w @ new \<and>
     (Ask Ask_intercept_scaling \<in> set new \<longrightarrow> fit_intercept h') \<and>
     (\<not> fit_intercept h' \<longrightarrow>
        intercept_scaling h' = intercept_scaling h \<and> Ask Ask_intercept_scaling \<notin> set new)"
  unfolding from_fit_intercept_def Let_def
  by (auto split: if_splits prod.splits sum.splits option.splits  dest!: input_frame from_intercept_scaling_scaling)

lemma from_C_scaling:
  "from_C h w = (Inr h', w') \<Longrightarrow>
   \<exists>new. trace w' = trace w @ new \<and>
     (Ask Ask_intercept_scaling \<in> set new \<longrightarrow> fit_intercept h') \<and>
     (\<not> fit_intercept h' \<longrightarrow>
        intercept_scaling h' = intercept_scaling h \<and> Ask Ask_intercept_scaling \<notin> set new)"
  unfolding from_C_def Let_def
  by (auto split: if_splits prod.splits sum.splits option.splits  dest!: input_frame from_fit_intercept_scaling)

lemma from_tol_scaling:
  "from_tol h w = (Inr h', w') \<Longrightarrow>
   \<exists>new. trace w' = trace w @ new \<and>
     (Ask Ask_intercept_scaling \<in> set new \<longrightarrow> fit_intercept h') \<and>
     (\<not> fit_intercept h' \<longrightarrow>
        intercept_scaling h' = intercept_scaling h \<and> Ask Ask_intercept_scaling \<notin> set new)"
  unfolding from_tol_def Let_def
  by (auto split: if_splits prod.splits sum.splits option.splits  dest!: input_frame from_C_scaling)

lemma from_dual_scaling:
  "from_dual h w = (Inr h', w') \<Longrightarrow>
   \<exists>new. trace w' = trace w @ new \<and>
     (Ask Ask_intercept_scaling \<in> set new \<longrightarrow> fit_intercept h') \<and>
     (\<not> fit_intercept h' \<longrightarrow>
        intercept_scaling h' = intercept_scaling h \<and> Ask Ask_intercept_scaling \<notin> set new)"
  unfolding from_dual_def Let_def
  by (auto split: if_splits prod.splits sum.splits option.splits  dest!: input_frame from_tol_scaling)

lemma from_penalty_scaling:
  "from_penalty h w = (Inr h', w') \<Longrightarrow>
   \<exists>new. trace w' = trace w @ new \<and>
     (Ask Ask_intercept_scaling \<in> set new \<longrightarrow> fit_intercept h') \<and>
     (\<not> fit_intercept h' \<longrightarrow>
        intercept_scaling h' = intercept_scaling h \<and> Ask Ask_intercept_scaling \<notin> set new)"
  unfolding from_penalty_def Let_def
  by (auto split: if_splits prod.splits sum.splits option.splits  dest!: input_frame from_dual_scaling)

lemma from_cv_scaling:
  "from_cv h w = (Inr h', w') \<Longrightarrow>
   \<exists>new. trace w' = trace w @ new \<and>
     (Ask Ask_intercept_scaling \<in> set new \<longrightarrow> fit_intercept h') \<and>
     (\<not> fit_intercept h' \<longrightarrow>
        intercept_scaling h' = intercept_scaling h \<and> Ask Ask_intercept_scaling \<notin> set new)"
  unfolding from_cv_def Let_def
  by (auto split: if_splits prod.splits sum.splits option.splits simp: set_cv_def set_test_size_def dest!: input_frame from_penalty_scaling)

lemma from_test_size_scaling:
  "from_test_size h w = (Inr h', w') \<Longrightarrow>
   \<exists>new. trace w' = trace w @ new \<and>
     (Ask Ask_intercept_scaling \<in> set new \<longrightarrow> fit_intercept h') \<and>
     (\<not> fit_intercept h' \<longrightarrow>
        intercept_scaling h' = intercept_scaling h \<and> Ask Ask_intercept_scaling \<notin> set new)"
  unfolding from_test_size_def Let_def
  by (auto split: if_splits prod.splits sum.splits option.splits simp: set_cv_def set_test_size_def dest!: input_frame from_cv_scaling)

subsection \<open>The prompt for the elastic-net mixing ratio\<close>

lemma from_l1_ratio_gate:
  "from_l1_ratio h w = (r, w') \<Longrightarrow>
   \<exists>new. trace w' = trace w @ new \<and>
     (Ask Ask_l1_ratio \<in> set new \<longleftrightarrow> penalty h = ''elasticnet'')"
  unfolding from_l1_ratio_def Let_def
  by (auto split: if_splits prod.splits sum.splits option.splits  dest!: input_frame)

lemma from_l1_ratio_mixing:
  "from_l1_ratio h w = (Inr h', w') \<Longrightarrow>
   \<exists>new. trace w' = trace w @ new \<and>
     (Ask Ask_l1_ratio \<in> set new \<longrightarrow> penalty h = ''elasticnet'') \<and>
     penalty h' = penalty h \<and>
     (penalty h \<noteq> ''elasticnet'' \<longrightarrow> l1_ratio h' = l1_ratio h)"
  unfolding from_l1_ratio_def Let_def
  by (auto split: if_splits prod.splits sum.splits option.splits  dest!: input_frame)

lemma from_n_jobs_mixing:
  "from_n_jobs h w = (Inr h', w') \<Longrightarrow>
   \<exists>new. trace w' = trace w @ new \<and>
     (Ask Ask_l1_ratio \<in> set new \<longrightarrow> penalty h = ''elasticnet'') \<and>
     penalty h' = penalty h \<and>
     (penalty h \<noteq> ''elasticnet'' \<longrightarrow> l1_ratio h' = l1_ratio h)"
  unfolding from_n_jobs_def Let_def
  by (auto split: if_splits prod.splits sum.splits option.splits  dest!: input_frame from_l1_ratio_mixing)

lemma from_warm_start_mixing:
  "from_warm_start h w = (Inr h', w') \<Longrightarrow>
   \<exists>new. trace w' = trace w @ new \<and>
     (Ask Ask_l1_ratio \<in> set new \<longrightarrow> penalty h = ''elasticnet'') \<and>
     penalty h' = penalty h \<and>
     (penalty h \<noteq> ''elasticnet'' \<longrightarrow> l1_ratio h' = l1_ratio h)"
  unfolding from_warm_start_def Let_def
  by (auto split: if_splits prod.splits sum.splits option.splits  dest!: input_frame from_n_jobs_mixing)

lemma from_verbose_mixing:
  "from_verbose h w = (Inr h', w') \<Longrightarrow>
   \<exists>new. trace w' = trace w @ new \<and>
     (Ask Ask_l1_ratio \<in> set new \<longrightarrow> penalty h = ''elasticnet'') \<and>
     penalty h' = penalty h \<and>
     (penalty h \<noteq> ''elasticnet'' \<longrightarrow> l1_ratio h' = l1_ratio h)"
  unfolding from_verbose_def Let_def
  by (auto split: if_splits prod.splits sum.splits option.splits  dest!: input_frame from_warm_start_mixing)

lemma from_multi_class_mixing:
  "from_multi_class h w = (Inr h', w') \<Longrightarrow>
   \<exists>new. trace w' = trace w @ new \<and>
     (Ask Ask_l1_ratio \<in> set new \<longrightarrow> penalty h = ''elasticnet'') \<and>
     penalty h' = penalty h \<and>
     (penalty h \<noteq> ''elasticnet'' \<longrightarrow> l1_ratio h' = l1_ratio h)"
  unfolding from_multi_class_def Let_def
  by (auto split: if_splits prod.splits sum.splits option.splits  dest!: input_frame from_verbose_mixing)

lemma from_max_iter_mixing:
  "from_max_iter h w = (Inr h', w') \<Longrightarrow>
   \<exists>new. trace w' = trace w @ new \<and>
     (Ask Ask_l1_ratio \<in> set new \<longrightarrow> penalty h = ''elasticnet'') \<and>
     penalty h' = penalty h \<and>
     (penalty h \<noteq> ''elasticnet'' \<longrightarrow> l1_ratio h' = l1_ratio h)"
  unfolding from_max_iter_def Let_def
  by (auto split: if_splits prod.splits sum.splits option.splits  dest!: input_frame from_multi_class_mixing)

lemma from_solver_mixing:
  "from_solver h w = (Inr h', w') \<Longrightarrow>
   \<exists>new. trace w' = trace w @ new \<and>
     (Ask Ask_l1_ratio \<in> set new \<longrightarrow> penalty h = ''elasticnet'') \<and>
     penalty h' = penalty h \<and>
     (penalty h \<noteq> ''elasticnet'' \<longrightarrow> l1_ratio h' = l1_ratio h)"
  unfolding from_solver_def Let_def
  by (auto split: if_splits prod.splits sum.splits option.splits  dest!: input_frame from_max_iter_mixing)

lemma from_random_state_mixing:
  "from_random_state h w = (Inr h', w') \<Longrightarrow>
   \<exists>new. trace w' = trace w @ new \<and>
     (Ask Ask_l1_ratio \<in> set new \<longrightarrow> penalty h = ''elasticnet'') \<and>
     penalty h' = penalty h \<and>
     (penalty h \<noteq> ''elasticnet'' \<longrightarrow> l1_ratio h' = l1_ratio h)"
  unfolding from_random_state_def Let_def
  by (auto split: if_splits prod.splits sum.splits option.splits  dest!: input_frame from_solver_mixing)

lemma from_class_weight_mixing:
  "from_class_weight h w = (Inr h', w') \<Longrightarrow>
   \<exists>new. trace w' = trace w @ new \<and>
     (Ask Ask_l1_ratio \<in> set new \<longrightarrow> penalty h = ''elasticnet'') \<and>
     penalty h' = penalty h \<and>
     (penalty h \<noteq> ''elasticnet'' \<longrightarrow> l1_ratio h' = l1_ratio h)"
  unfolding from_class_weight_def Let_def
  by (auto split: if_splits prod.splits sum.splits option.splits  dest!: input_frame from_random_state_mixing)

lemma from_intercept_scaling_mixing:
  "from_intercept_scaling h w = (Inr h', w') \<Longrightarrow>
   \<exists>new. trace w' = trace w @ new \<and>
     (Ask Ask_l1_ratio \<in> set new \<longrightarrow> penalty h = ''elasticnet'') \<and>
     penalty h' = penalty h \<and>
     (penalty h \<noteq> ''elasticnet'' \<longrightarrow> l1_ratio h' = l1_ratio h)"
  unfolding from_intercept_scaling_def Let_def
  by (auto split: if_splits prod.splits sum.splits option.splits  dest!: input_frame from_class_weight_mixing)

lemma from_fit_intercept_mixing:
  "from_fit_intercept h w = (Inr h', w') \<Longrightarrow>
   \<exists>new. trace w' = trace w @ new \<and>
     (Ask Ask_l1_ratio \<in> set new \<longrightarrow> penalty h = ''elasticnet'') \<and>
     penalty h' = penalty h \<and>
     (penalty h \<noteq> ''elasticnet'' \<longrightarrow> l1_ratio h' = l1_ratio h)"
  unfolding from_fit_intercept_def Let_def
  by (auto split: if_splits prod.splits sum.splits option.splits  dest!: input_frame from_intercept_scaling_mixing)

lemma from_C_mixing:
  "from_C h w = (Inr h', w') \<Longrightarrow>
   \<exists>new. trace w' = trace w @ new \<and>
     (Ask Ask_l1_ratio \<in> set new \<longrightarrow> penalty h = ''elasticnet'') \<and>
     penalty h' = penalty h \<and>
     (penalty h \<noteq> ''elasticnet'' \<longrightarrow> l1_ratio h' = l1_ratio h)"
  unfolding from_C_def Let_def
  by (auto split: if_splits prod.splits sum.splits option.splits  dest!: input_frame from_fit_intercept_mixing)

lemma from_tol_mixing:
  "from_tol h w = (Inr h', w') \<Longrightarrow>
   \<exists>new. trace w' = trace w @ new \<and>
     (Ask Ask_l1_ratio \<in> set new \<longrightarrow> penalty h = ''elasticnet'') \<and>
     penalty h' = penalty h \<and>
     (penalty h \<noteq> ''elasticnet'' \<longrightarrow> l1_ratio h' = l1_ratio h)"
  unfolding from_tol_def Let_def
  by (auto split: if_splits prod.splits sum.splits option.splits  dest!: input_frame from_C_mixing)

lemma from_dual_mixing:
  "from_dual h w = (Inr h', w') \<Longrightarrow>
   \<exists>new. trace w' = trace w @ new \<and>
     (Ask Ask_l1_ratio \<in> set new \<longrightarrow> penalty h = ''elasticnet'') \<and>
     penalty h' = penalty h \<and>
     (penalty h \<noteq> ''elasticnet'' \<longrightarrow> l1_ratio h' = l1_ratio h)"
  unfolding from_dual_def Let_def
  by (auto split: if_splits prod.splits sum.splits option.splits  dest!: input_frame from_tol_mixing)

lemma from_penalty_mixing:
  "from_penalty h w = (Inr h', w') \<Longrightarrow>
   \<exists>new. trace w' = trace w @ new \<and>
     (Ask Ask_l1_ratio \<in> set new \<longrightarrow> penalty h' = ''elasticnet'') \<and>
     (penalty h' \<noteq> ''elasticnet'' \<longrightarrow>
        l1_ratio h' = l1_ratio h \<and> Ask Ask_l1_ratio \<notin> set new)"
  unfolding from_penalty_def Let_def
  by (auto split: if_splits prod.splits sum.splits option.splits  dest!: input_frame from_dual_mixing)

lemma from_cv_mixing:
  "from_cv h w = (Inr h', w') \<Longrightarrow>
   \<exists>new. trace w' = trace w @ new \<and>
     (Ask Ask_l1_ratio \<in> set new \<longrightarrow> penalty h' = ''elasticnet'') \<and>
     (penalty h' \<noteq> ''elasticnet'' \<longrightarrow>
        l1_ratio h' = l1_ratio h \<and> Ask Ask_l1_ratio \<notin> set new)"
  unfolding from_cv_def Let_def
  by (auto split: if_splits prod.splits sum.splits option.splits simp: set_cv_def set_test_size_def dest!: input_frame from_penalty_mixing)

lemma from_test_size_mixing:
  "from_test_size h w = (Inr h', w') \<Longrightarrow>
   \<exists>new. trace w' = trace w @ new \<and>
     (Ask Ask_l1_ratio \<in> set new \<longrightarrow> penalty h' = ''elasticnet'') \<and>
     (penalty h' \<noteq> ''elasticnet'' \<longrightarrow>
        l1_ratio h' = l1_ratio h \<and> Ask Ask_l1_ratio \<notin> set new)"
  unfolding from_test_size_def Let_def
  by (auto split: if_splits prod.splits sum.splits option.splits simp: set_cv_def set_test_size_def dest!: input_frame from_cv_mixing)

section \<open>The quit sentinel and answers that do not parse\<close>

lemma lower_char_q: "lower_char c = CHR ''q'' \<Longrightarrow> c = CHR ''q'' \<or> c = CHR ''Q''"
  by (auto simp: lower_char_def split: if_splits)

lemma lower_q: "lower u = ''q'' \<Longrightarrow> u = ''q'' \<or> u = ''Q''"
  by (cases u) (auto simp: lower_def dest: lower_char_q)

lemma float_q: "lower u = ''q'' \<Longrightarrow> float u = None"
proof -
  have "float ''q'' = None" "float ''Q'' = None"
    by (simp_all add: float_def strip_def is_space_def lower_def lower_char_def number_def
        is_digit_def)
  moreover assume "lower u = ''q''"
  ultimately show ?thesis
    using lower_q by blast
qed

lemma py_int_q: "lower u = ''q'' \<Longrightarrow> py_int u = None"
proof -
  have "py_int ''q'' = None" "py_int ''Q'' = None"
    by (simp_all add: py_int_def strip_def is_space_def is_digit_def)
  moreover assume "lower u = ''q''"
  ultimately show ?thesis
    using lower_q by blast
qed

text \<open>
  C5. The operator declines the defaults, answers the first prompt of the loop (the test
  fraction) with \<open>q\<close> or \<open>Q\<close>, and presses a key at the closing prompt. The
  estimator is then built with the default of every parameter, the test fraction is 0.25
  and the fold count is absent; no other parameter has been asked for.
\<close>

theorem quit_at_first_prompt_gives_defaults:
  assumes "stdin w = a # q # k # rest" and "lower a = ''n''" and "lower q = ''q''"
  shows "\<exists>w'. create_model sk w =
           (Inr \<lparr>params =
                   \<lparr>penalty = ''l2'', dual = False, tol = Finite (1 / 10000), C = Finite 1,
                    fit_intercept = True, intercept_scaling = Finite 1, class_weight = None,
                    random_state = None, solver = ''lbfgs'', max_iter = 100,
                    multi_class = ''auto'', verbose = 0, warm_start = False, n_jobs = None,
                    l1_ratio = None\<rparr>,
                 fitted = None\<rparr>, w') \<and>
         test_size (self w') = Some (Finite (1 / 4)) \<and> cv (self w') = None \<and>
         stdin w' = rest \<and>
         [p. Ask p \<leftarrow> issued w w'] = [Use_defaults, Ask_test_size, End_of_inputs_nl]"
  using assms
  by (simp add: create_model_def input_def from_test_size_def float_q set_cv_def
      set_test_size_def new_LogisticRegression_def local_defaults_def issued_def)

theorem quit_at_first_prompt_gives_defaults_witness:
  "fst (create_model stub_sklearn (session four_samples [''N'', ''Q'', ''''])) =
     Inr \<lparr>params = local_defaults, fitted = None\<rparr> \<and>
   test_size (self (snd (create_model stub_sklearn (session four_samples [''N'', ''Q'', ''''])))) =
     Some (Finite (1 / 4)) \<and>
   cv (self (snd (create_model stub_sklearn (session four_samples [''N'', ''Q'', ''''])))) = None"
  using quit_at_first_prompt_gives_defaults
    [of "session four_samples [''N'', ''Q'', '''']" "''N''" "''Q''" "''''" "[]" stub_sklearn]
  by (auto simp: session_def lower_def lower_char_def local_defaults_def)

section \<open>An answer that does not parse\<close>

lemma from_test_size_unparsed:
  "stdin w = u # rest \<Longrightarrow> lower u \<noteq> ''q'' \<Longrightarrow> float u = None \<Longrightarrow>
   from_test_size h w =
     from_cv h (answered Ask_test_size rest w)"
  by (simp add: from_test_size_def input_def answered_def Let_def say_def emit_def)

lemma from_cv_unparsed:
  "stdin w = u # rest \<Longrightarrow> lower u \<noteq> ''q'' \<Longrightarrow> py_int u = None \<Longrightarrow>
   from_cv h w =
     from_penalty h (answered Ask_cv rest w)"
  by (simp add: from_cv_def input_def answered_def Let_def say_def emit_def)

lemma from_penalty_unparsed:
  "stdin w = u # rest \<Longrightarrow> lower u \<noteq> ''q'' \<Longrightarrow> u \<notin> {''1'', ''3'', ''4''} \<Longrightarrow>
   from_penalty h w =
     from_dual h (answered Ask_penalty rest
                         (say ''Which norm should be used in penalization?'' w))"
  by (simp add: from_penalty_def input_def answered_def Let_def say_def emit_def)

lemma from_dual_unparsed:
  "stdin w = u # rest \<Longrightarrow> lower u \<noteq> ''q'' \<Longrightarrow> lower u \<noteq> ''y'' \<Longrightarrow>
   from_dual h w =
     from_tol h (answered Ask_dual rest w)"
  by (simp add: from_dual_def input_def answered_def Let_def say_def emit_def)

lemma from_tol_unparsed:
  "stdin w = u # rest \<Longrightarrow> lower u \<noteq> ''q'' \<Longrightarrow> float u = None \<Longrightarrow>
   from_tol h w =
     from_C h (answered Ask_tol rest w)"
  by (simp add: from_tol_def input_def answered_def Let_def say_def emit_def)

lemma from_C_unparsed:
  "stdin w = u # rest \<Longrightarrow> lower u \<noteq> ''q'' \<Longrightarrow> float u = None \<Longrightarrow>
   from_C h w =
     from_fit_intercept h (answered Ask_C rest w)"
  by (simp add: from_C_def input_def answered_def Let_def say_def emit_def)

lemma from_fit_intercept_unparsed:
  "stdin w = u # rest \<Longrightarrow> lower u \<noteq> ''q'' \<Longrightarrow> lower u \<noteq> ''n'' \<Longrightarrow>
   from_fit_intercept h w =
     from_intercept_scaling h (answered Ask_fit_intercept rest w)"
  by (simp add: from_fit_intercept_def input_def answered_def Let_def say_def emit_def)

lemma from_intercept_scaling_unparsed:
  "stdin w = u # rest \<Longrightarrow> lower u \<noteq> ''q'' \<Longrightarrow> fit_intercept h \<and> float u = None \<Longrightarrow>
   from_intercept_scaling h w =
     from_class_weight h (answered Ask_intercept_scaling rest w)"
  by (simp add: from_intercept_scaling_def input_def answered_def Let_def say_def emit_def)

lemma from_class_weight_unparsed:
  "stdin w = u # rest \<Longrightarrow> lower u \<noteq> ''q'' \<Longrightarrow> lower u \<noteq> ''y'' \<Longrightarrow>
   from_class_weight h w =
     from_random_state h
            (say (''To set manual weights, call get_regression().set_params() '' @
                  ''to set the class_weight parameter.'')
               (answered Ask_class_weight rest w))"
  by (simp add: from_class_weight_def input_def answered_def Let_def say_def emit_def)

lemma from_random_state_unparsed:
  "stdin w = u # rest \<Longrightarrow> lower u \<noteq> ''q'' \<Longrightarrow> py_int u = None \<Longrightarrow>
   from_random_state h w =
     from_solver h (answered Ask_random_state rest w)"
  by (simp add: from_random_state_def input_def answered_def Let_def say_def emit_def)

lemma from_solver_unparsed:
  "stdin w = u # rest \<Longrightarrow> lower u \<noteq> ''q'' \<Longrightarrow> u \<notin> {''1'', ''3'', ''4'', ''5''} \<Longrightarrow>
   from_solver h w =
     from_max_iter h
            (answered Ask_solver rest
               (say ''Which algorithm should be used in the optimization problem?'' w))"
  by (simp add: from_solver_def input_def answered_def Let_def say_def emit_def)

lemma from_max_iter_unparsed:
  "stdin w = u # rest \<Longrightarrow> lower u \<noteq> ''q'' \<Longrightarrow> py_int u = None \<Longrightarrow>
   from_max_iter h w =
     from_multi_class h (answered Ask_max_iter rest w)"
  by (simp add: from_max_iter_def input_def answered_def Let_def say_def emit_def)

lemma from_multi_class_unparsed:
  "stdin w = u # rest \<Longrightarrow> lower u \<noteq> ''q'' \<Longrightarrow> u \<notin> {''1'', ''2''} \<Longrightarrow>
   from_multi_class h w =
     from_verbose h (answered Ask_multi_class rest
                            (say ''Please choose a multiclass scheme.'' w))"
  by (simp add: from_multi_class_def input_def answered_def Let_def say_def emit_def)

lemma from_verbose_unparsed:
  "stdin w = u # rest \<Longrightarrow> lower u \<noteq> ''q'' \<Longrightarrow> lower u \<noteq> ''y'' \<Longrightarrow>
   from_verbose h w =
     from_warm_start h (answered Ask_verbose rest w)"
  by (simp add: from_verbose_def input_def answered_def Let_def say_def emit_def)

lemma from_warm_start_unparsed:
  "stdin w = u # rest \<Longrightarrow> lower u \<noteq> ''q'' \<Longrightarrow> lower u \<noteq> ''y'' \<Longrightarrow>
   from_warm_start h w =
     from_n_jobs h (answered Ask_warm_start rest w)"
  by (simp add: from_warm_start_def input_def answered_def Let_def say_def emit_def)

lemma from_n_jobs_unparsed:
  "stdin w = u # rest \<Longrightarrow> lower u \<noteq> ''q'' \<Longrightarrow> py_int u = None \<Longrightarrow>
   from_n_jobs h w =
     from_l1_ratio h (answered Ask_n_jobs rest w)"
  by (simp add: from_n_jobs_def input_def answered_def Let_def say_def emit_def)

lemma from_l1_ratio_unparsed:
  "stdin w = u # rest \<Longrightarrow> lower u \<noteq> ''q'' \<Longrightarrow> penalty h = ''elasticnet'' \<and> float u = None \<Longrightarrow>
   from_l1_ratio h w =
     (Inr h, answered Ask_l1_ratio rest w)"
  by (simp add: from_l1_ratio_def input_def answered_def Let_def say_def emit_def)

text \<open>
  C6. At every prompt of the loop, an answer that is not the quit sentinel and that the
  prompt cannot use (no float, no integer, not the letter or none of the digits asked
  for) changes nothing: no exception is raised, the local variables and the object stay
  as they are, and the collection goes on exactly as the next prompt would from there.
  At the last prompt, the elastic-net mixing ratio, the loop ends with the variables
  unchanged.
\<close>

theorem unparsed_answer_keeps_value:
  assumes "stdin w = u # rest" and "lower u \<noteq> ''q''"
  shows
    "(float u = None \<longrightarrow>
        from_test_size h w =
          from_cv h (answered Ask_test_size rest w)) \<and>
     (py_int u = None \<longrightarrow>
        from_cv h w =
          from_penalty h (answered Ask_cv rest w)) \<and>
     (u \<notin> {''1'', ''3'', ''4''} \<longrightarrow>
        from_penalty h w =
          from_dual h (answered Ask_penalty rest
                         (say ''Which norm should be used in penalization?'' w))) \<and>
     (lower u \<noteq> ''y'' \<longrightarrow>
        from_dual h w =
          from_tol h (answered Ask_dual rest w)) \<and>
     (float u = None \<longrightarrow>
        from_tol h w =
          from_C h (answered Ask_tol rest w)) \<and>
     (float u = None \<longrightarrow>
        from_C h w =
          from_fit_intercept h (answered Ask_C rest w)) \<and>
     (lower u \<noteq> ''n'' \<longrightarrow>
        from_fit_intercept h w =
          from_intercept_scaling h (answered Ask_fit_intercept rest w)) \<and>
     (fit_intercept h \<and> float u = None \<longrightarrow>
        from_intercept_scaling h w =
          from_class_weight h (answered Ask_intercept_scaling rest w)) \<and>
     (lower u \<noteq> ''y'' \<longrightarrow>
        from_class_weight h w =
          from_random_state h
            (say (''To set manual weights, call get_regression().set_params() '' @
                  ''to set the class_weight parameter.'')
               (answered Ask_class_weight rest w))) \<and>
     (py_int u = None \<longrightarrow>
        from_random_state h w =
          from_solver h (answered Ask_random_state rest w)) \<and>
     (u \<notin> {''1'', ''3'', ''4'', ''5''} \<longrightarrow>
        from_solver h w =
          from_max_iter h
            (answered Ask_solver rest
               (say ''Which algorithm should be used in the optimization problem?'' w))) \<and>
     (py_int u = None \<longrightarrow>
        from_max_iter h w =
          from_multi_class h (answered Ask_max_iter rest w)) \<and>
     (u \<notin> {''1'', ''2''} \<longrightarrow>
        from_multi_class h w =
          from_verbose h (answered Ask_multi_class rest
                            (say ''Please choose a multiclass scheme.'' w))) \<and>
     (lower u \<noteq> ''y'' \<longrightarrow>
        from_verbose h w =
          from_warm_start h (answered Ask_verbose rest w)) \<and>
     (lower u \<noteq> ''y'' \<longrightarrow>
        from_warm_start h w =
          from_n_jobs h (answered Ask_warm_start rest w)) \<and>
     (py_int u = None \<longrightarrow>
        from_n_jobs h w =
          from_l1_ratio h (answered Ask_n_jobs rest w)) \<and>
     (penalty h = ''elasticnet'' \<and> float u = None \<longrightarrow>
        from_l1_ratio h w =
          (Inr h, answered Ask_l1_ratio rest w))"
  using assms
  by (intro conjI impI)
    (simp_all add: from_test_size_unparsed
       from_cv_unparsed
       from_penalty_unparsed
       from_dual_unparsed
       from_tol_unparsed
       from_C_unparsed
       from_fit_intercept_unparsed
       from_intercept_scaling_unparsed
       from_class_weight_unparsed
       from_random_state_unparsed
       from_solver_unparsed
       from_max_iter_unparsed
       from_multi_class_unparsed
       from_verbose_unparsed
       from_warm_start_unparsed
       from_n_jobs_unparsed
       from_l1_ratio_unparsed)

theorem unparsed_answer_keeps_value_witness:
  "lower ''abc'' \<noteq> ''q'' \<and> float ''abc'' = None \<and> py_int ''abc'' = None \<and>
   from_test_size (local_defaults\<lparr>penalty := ''elasticnet''\<rparr>) (session four_samples [''abc'']) =
     from_cv (local_defaults\<lparr>penalty := ''elasticnet''\<rparr>)
       (answered Ask_test_size [] (session four_samples [''abc''])) \<and>
   from_penalty (local_defaults\<lparr>penalty := ''elasticnet''\<rparr>) (session four_samples [''abc'']) =
     from_dual (local_defaults\<lparr>penalty := ''elasticnet''\<rparr>)
       (answered Ask_penalty []
          (say ''Which norm should be used in penalization?'' (session four_samples [''abc'']))) \<and>
   from_fit_intercept (local_defaults\<lparr>penalty := ''elasticnet''\<rparr>)
       (session four_samples [''abc'']) =
     from_intercept_scaling (local_defaults\<lparr>penalty := ''elasticnet''\<rparr>)
       (answered Ask_fit_intercept [] (session four_samples [''abc''])) \<and>
   from_n_jobs (local_defaults\<lparr>penalty := ''elasticnet''\<rparr>) (session four_samples [''abc'']) =
     from_l1_ratio (local_defaults\<lparr>penalty := ''elasticnet''\<rparr>)
       (answered Ask_n_jobs [] (session four_samples [''abc''])) \<and>
   from_l1_ratio (local_defaults\<lparr>penalty := ''elasticnet''\<rparr>) (session four_samples [''abc'']) =
     (Inr (local_defaults\<lparr>penalty := ''elasticnet''\<rparr>),
      answered Ask_l1_ratio [] (session four_samples [''abc'']))"
proof -
  have a: "lower ''abc'' \<noteq> ''q''"
    by (simp add: lower_def)
  have b: "float ''abc'' = None"
    by (simp add: float_def strip_def is_space_def lower_def lower_char_def number_def
        is_digit_def)
  have c: "py_int ''abc'' = None"
    by (simp add: py_int_def strip_def is_space_def is_digit_def)
  have d: "stdin (session four_samples [''abc'']) = ''abc'' # []"
    by (simp add: session_def)
  have e: "lower ''abc'' \<noteq> ''n''" "lower ''abc'' \<noteq> ''y''"
    by (simp_all add: lower_def)
  show ?thesis
    using unparsed_answer_keeps_value
      [OF d a, of "local_defaults\<lparr>penalty := ''elasticnet''\<rparr>"] a b c e
    by (simp add: local_defaults_def)
qed

section \<open>Gated prompts\<close>

lemmas step_defs = from_test_size_def from_cv_def from_penalty_def from_dual_def from_tol_def
  from_C_def from_fit_intercept_def from_intercept_scaling_def from_class_weight_def
  from_random_state_def from_solver_def from_max_iter_def from_multi_class_def
  from_verbose_def from_warm_start_def from_n_jobs_def from_l1_ratio_def

lemma issued_new: "trace w' = trace w @ new \<Longrightarrow> issued w w' = new"
  by (simp add: issued_def)

subsection \<open>The dialogue of the loop\<close>

lemma prompts_append [simp]: "prompts (xs @ ys) = prompts xs @ prompts ys"
  by (induction xs rule: prompts.induct) simp_all

lemma prompts_member [simp]: "p \<in> set (prompts evs) \<longleftrightarrow> Ask p \<in> set evs"
  by (induction evs rule: prompts.induct) auto

lemma zip_prompts_member: "(p, u) \<in> set (zip (prompts new) zs) \<Longrightarrow> Ask p \<in> set new"
  by (auto dest: set_zip_leftD)

lemma input_eof:
  "input p w = (Inl e, w') \<Longrightarrow> trace w' = trace w @ [Ask p] \<and> stdin w = []"
  by (auto simp: input_def split: list.splits)

lemma input_line:
  "input p w = (Inr u, w') \<Longrightarrow> trace w' = trace w @ [Ask p] \<and> stdin w = u # stdin w'"
  by (auto simp: input_def split: list.splits)

lemma parsed_int_not_q: "py_int u = Some n \<Longrightarrow> lower u \<noteq> ''q''"
  using py_int_q by fastforce

lemma parsed_float_not_q: "float u = Some x \<Longrightarrow> lower u \<noteq> ''q''"
  using float_q by fastforce

lemma from_l1_ratio_past_gate:
  "from_l1_ratio h w = (r, w') \<Longrightarrow>
   \<exists>new. trace w' = trace w @ new \<and>
     Ask Ask_intercept_scaling \<notin> set new \<and> Ask Ask_fit_intercept \<notin> set new"
  unfolding from_l1_ratio_def Let_def
  by (auto split: if_splits prod.splits sum.splits option.splits  dest: zip_prompts_member parsed_int_not_q dest!: input_eof input_line)

lemma from_n_jobs_past_gate:
  "from_n_jobs h w = (r, w') \<Longrightarrow>
   \<exists>new. trace w' = trace w @ new \<and>
     Ask Ask_intercept_scaling \<notin> set new \<and> Ask Ask_fit_intercept \<notin> set new"
  unfolding from_n_jobs_def Let_def
  by (auto split: if_splits prod.splits sum.splits option.splits  dest: zip_prompts_member parsed_int_not_q dest!: input_eof input_line from_l1_ratio_past_gate)

lemma from_warm_start_past_gate:
  "from_warm_start h w = (r, w') \<Longrightarrow>
   \<exists>new. trace w' = trace w @ new \<and>
     Ask Ask_intercept_scaling \<notin> set new \<and> Ask Ask_fit_intercept \<notin> set new"
  unfolding from_warm_start_def Let_def
  by (auto split: if_splits prod.splits sum.splits option.splits  dest: zip_prompts_member parsed_int_not_q dest!: input_eof input_line from_n_jobs_past_gate)

lemma from_verbose_past_gate:
  "from_verbose h w = (r, w') \<Longrightarrow>
   \<exists>new. trace w' = trace w @ new \<and>
     Ask Ask_intercept_scaling \<notin> set new \<and> Ask Ask_fit_intercept \<notin> set new"
  unfolding from_verbose_def Let_def
  by (auto split: if_splits prod.splits sum.splits option.splits  dest: zip_prompts_member parsed_int_not_q dest!: input_eof input_line from_warm_start_past_gate)

lemma from_multi_class_past_gate:
  "from_multi_class h w = (r, w') \<Longrightarrow>
   \<exists>new. trace w' = trace w @ new \<and>
     Ask Ask_intercept_scaling \<notin> set new \<and> Ask Ask_fit_intercept \<notin> set new"
  unfolding from_multi_class_def Let_def
  by (auto split: if_splits prod.splits sum.splits option.splits  dest: zip_prompts_member parsed_int_not_q dest!: input_eof input_line from_verbose_past_gate)

lemma from_max_iter_past_gate:
  "from_max_iter h w = (r, w') \<Longrightarrow>
   \<exists>new. trace w' = trace w @ new \<and>
     Ask Ask_intercept_scaling \<notin> set new \<and> Ask Ask_fit_intercept \<notin> set new"
  unfolding from_max_iter_def Let_def
  by (auto split: if_splits prod.splits sum.splits option.splits  dest: zip_prompts_member parsed_int_not_q dest!: input_eof input_line from_multi_class_past_gate)

lemma from_solver_past_gate:
  "from_solver h w = (r, w') \<Longrightarrow>
   \<exists>new. trace w' = trace w @ new \<and>
     Ask Ask_intercept_scaling \<notin> set new \<and> Ask Ask_fit_intercept \<notin> set new"
  unfolding from_solver_def Let_def
  by (auto split: if_splits prod.splits sum.splits option.splits  dest: zip_prompts_member parsed_int_not_q dest!: input_eof input_line from_max_iter_past_gate)

lemma from_random_state_past_gate:
  "from_random_state h w = (r, w') \<Longrightarrow>
   \<exists>new. trace w' = trace w @ new \<and>
     Ask Ask_intercept_scaling \<notin> set new \<and> Ask Ask_fit_intercept \<notin> set new"
  unfolding from_random_state_def Let_def
  by (auto split: if_splits prod.splits sum.splits option.splits  dest: zip_prompts_member parsed_int_not_q dest!: input_eof input_line from_solver_past_gate)

lemma from_class_weight_past_gate:
  "from_class_weight h w = (r, w') \<Longrightarrow>
   \<exists>new. trace w' = trace w @ new \<and>
     Ask Ask_intercept_scaling \<notin> set new \<and> Ask Ask_fit_intercept \<notin> set new"
  unfolding from_class_weight_def Let_def
  by (auto split: if_splits prod.splits sum.splits option.splits  dest: zip_prompts_member parsed_int_not_q dest!: input_eof input_line from_random_state_past_gate)

lemma from_intercept_scaling_at_gate:
  "from_intercept_scaling h w = (r, w') \<Longrightarrow>
   \<exists>new. trace w' = trace w @ new \<and> Ask Ask_fit_intercept \<notin> set new \<and>
     (Ask Ask_intercept_scaling \<in> set new \<longleftrightarrow> fit_intercept h)"
  unfolding from_intercept_scaling_def Let_def
  by (auto split: if_splits prod.splits sum.splits option.splits  dest: zip_prompts_member parsed_int_not_q dest!: input_eof input_line from_class_weight_past_gate)

lemma from_fit_intercept_dialogue_scaling:
  "from_fit_intercept h w = (r, w') \<Longrightarrow> fit_intercept h \<Longrightarrow>
   \<exists>new. trace w' = trace w @ new \<and>
     (Ask Ask_intercept_scaling \<in> set new \<longleftrightarrow>
        (\<exists>u. (Ask_fit_intercept, u) \<in> set (zip (prompts new) (stdin w)) \<and>
             lower u \<noteq> ''q'' \<and> lower u \<noteq> ''n''))"
  unfolding from_fit_intercept_def Let_def
  by (auto split: if_splits prod.splits sum.splits option.splits  dest: zip_prompts_member parsed_int_not_q dest!: input_eof input_line from_intercept_scaling_at_gate)

lemma from_C_dialogue_scaling:
  "from_C h w = (r, w') \<Longrightarrow> fit_intercept h \<Longrightarrow>
   \<exists>new. trace w' = trace w @ new \<and>
     (Ask Ask_intercept_scaling \<in> set new \<longleftrightarrow>
        (\<exists>u. (Ask_fit_intercept, u) \<in> set (zip (prompts new) (stdin w)) \<and>
             lower u \<noteq> ''q'' \<and> lower u \<noteq> ''n''))"
  unfolding from_C_def Let_def
  by (auto split: if_splits prod.splits sum.splits option.splits  dest: zip_prompts_member parsed_int_not_q dest!: input_eof input_line from_fit_intercept_dialogue_scaling)

lemma from_tol_dialogue_scaling:
  "from_tol h w = (r, w') \<Longrightarrow> fit_intercept h \<Longrightarrow>
   \<exists>new. trace w' = trace w @ new \<and>
     (Ask Ask_intercept_scaling \<in> set new \<longleftrightarrow>
        (\<exists>u. (Ask_fit_intercept, u) \<in> set (zip (prompts new) (stdin w)) \<and>
             lower u \<noteq> ''q'' \<and> lower u \<noteq> ''n''))"
  unfolding from_tol_def Let_def
  by (auto split: if_splits prod.splits sum.splits option.splits  dest: zip_prompts_member parsed_int_not_q dest!: input_eof input_line from_C_dialogue_scaling)

lemma from_dual_dialogue_scaling:
  "from_dual h w = (r, w') \<Longrightarrow> fit_intercept h \<Longrightarrow>
   \<exists>new. trace w' = trace w @ new \<and>
     (Ask Ask_intercept_scaling \<in> set new \<longleftrightarrow>
        (\<exists>u. (Ask_fit_intercept, u) \<in> set (zip (prompts new) (stdin w)) \<and>
             lower u \<noteq> ''q'' \<and> lower u \<noteq> ''n''))"
  unfolding from_dual_def Let_def
  by (auto split: if_splits prod.splits sum.splits option.splits  dest: zip_prompts_member parsed_int_not_q dest!: input_eof input_line from_tol_dialogue_scaling)

lemma from_penalty_dialogue_scaling:
  "from_penalty h w = (r, w') \<Longrightarrow> fit_intercept h \<Longrightarrow>
   \<exists>new. trace w' = trace w @ new \<and>
     (Ask Ask_intercept_scaling \<in> set new \<longleftrightarrow>
        (\<exists>u. (Ask_fit_intercept, u) \<in> set (zip (prompts new) (stdin w)) \<and>
             lower u \<noteq> ''q'' \<and> lower u \<noteq> ''n''))"
  unfolding from_penalty_def Let_def
  by (auto split: if_splits prod.splits sum.splits option.splits  dest: zip_prompts_member parsed_int_not_q dest!: input_eof input_line from_dual_dialogue_scaling)

lemma from_cv_dialogue_scaling:
  "from_cv h w = (r, w') \<Longrightarrow> fit_intercept h \<Longrightarrow>
   \<exists>new. trace w' = trace w @ new \<and>
     (Ask Ask_intercept_scaling \<in> set new \<longleftrightarrow>
        (\<exists>u. (Ask_fit_intercept, u) \<in> set (zip (prompts new) (stdin w)) \<and>
             lower u \<noteq> ''q'' \<and> lower u \<noteq> ''n''))"
  unfolding from_cv_def Let_def
  by (auto split: if_splits prod.splits sum.splits option.splits simp: set_cv_def set_test_size_def dest: zip_prompts_member parsed_int_not_q dest!: input_eof input_line from_penalty_dialogue_scaling)

lemma from_test_size_dialogue_scaling:
  "from_test_size h w = (r, w') \<Longrightarrow> fit_intercept h \<Longrightarrow>
   \<exists>new. trace w' = trace w @ new \<and>
     (Ask Ask_intercept_scaling \<in> set new \<longleftrightarrow>
        (\<exists>u. (Ask_fit_intercept, u) \<in> set (zip (prompts new) (stdin w)) \<and>
             lower u \<noteq> ''q'' \<and> lower u \<noteq> ''n''))"
  unfolding from_test_size_def Let_def
  by (auto split: if_splits prod.splits sum.splits option.splits simp: set_cv_def set_test_size_def dest: zip_prompts_member parsed_int_not_q dest!: input_eof input_line from_cv_dialogue_scaling)

lemma from_l1_ratio_at_gate:
  "from_l1_ratio h w = (r, w') \<Longrightarrow>
   \<exists>new. trace w' = trace w @ new \<and> Ask Ask_penalty \<notin> set new \<and>
     (Ask Ask_l1_ratio \<in> set new \<longleftrightarrow> penalty h = ''elasticnet'')"
  unfolding from_l1_ratio_def Let_def
  by (auto split: if_splits prod.splits sum.splits option.splits  dest: zip_prompts_member parsed_int_not_q dest!: input_eof input_line)

lemma from_n_jobs_dialogue_mixing:
  "from_n_jobs h w = (r, w') \<Longrightarrow>
   \<exists>new. trace w' = trace w @ new \<and> Ask Ask_penalty \<notin> set new \<and>
     (Ask Ask_l1_ratio \<in> set new \<longleftrightarrow>
        penalty h = ''elasticnet'' \<and>
        (\<exists>u. (Ask_n_jobs, u) \<in> set (zip (prompts new) (stdin w)) \<and> lower u \<noteq> ''q''))"
  unfolding from_n_jobs_def Let_def
  by (auto split: if_splits prod.splits sum.splits option.splits  dest: zip_prompts_member parsed_int_not_q dest!: input_eof input_line from_l1_ratio_at_gate)

lemma from_warm_start_dialogue_mixing:
  "from_warm_start h w = (r, w') \<Longrightarrow>
   \<exists>new. trace w' = trace w @ new \<and> Ask Ask_penalty \<notin> set new \<and>
     (Ask Ask_l1_ratio \<in> set new \<longleftrightarrow>
        penalty h = ''elasticnet'' \<and>
        (\<exists>u. (Ask_n_jobs, u) \<in> set (zip (prompts new) (stdin w)) \<and> lower u \<noteq> ''q''))"
  unfolding from_warm_start_def Let_def
  by (auto split: if_splits prod.splits sum.splits option.splits  dest: zip_prompts_member parsed_int_not_q dest!: input_eof input_line from_n_jobs_dialogue_mixing)

lemma from_verbose_dialogue_mixing:
  "from_verbose h w = (r, w') \<Longrightarrow>
   \<exists>new. trace w' = trace w @ new \<and> Ask Ask_penalty \<notin> set new \<and>
     (Ask Ask_l1_ratio \<in> set new \<longleftrightarrow>
        penalty h = ''elasticnet'' \<and>
        (\<exists>u. (Ask_n_jobs, u) \<in> set (zip (prompts new) (stdin w)) \<and> lower u \<noteq> ''q''))"
  unfolding from_verbose_def Let_def
  by (auto split: if_splits prod.splits sum.splits option.splits  dest: zip_prompts_member parsed_int_not_q dest!: input_eof input_line from_warm_start_dialogue_mixing)

lemma from_multi_class_dialogue_mixing:
  "from_multi_class h w = (r, w') \<Longrightarrow>
   \<exists>new. trace w' = trace w @ new \<and> Ask Ask_penalty \<notin> set new \<and>
     (Ask Ask_l1_ratio \<in> set new \<longleftrightarrow>
        penalty h = ''elasticnet'' \<and>
        (\<exists>u. (Ask_n_jobs, u) \<in> set (zip (prompts new) (stdin w)) \<and> lower u \<noteq> ''q''))"
  unfolding from_multi_class_def Let_def
  by (auto split: if_splits prod.splits sum.splits option.splits  dest: zip_prompts_member parsed_int_not_q dest!: input_eof input_line from_verbose_dialogue_mixing)

lemma from_max_iter_dialogue_mixing:
  "from_max_iter h w = (r, w') \<Longrightarrow>
   \<exists>new. trace w' = trace w @ new \<and> Ask Ask_penalty \<notin> set new \<and>
     (Ask Ask_l1_ratio \<in> set new \<longleftrightarrow>
        penalty h = ''elasticnet'' \<and>
        (\<exists>u. (Ask_n_jobs, u) \<in> set (zip (prompts new) (stdin w)) \<and> lower u \<noteq> ''q''))"
  unfolding from_max_iter_def Let_def
  by (auto split: if_splits prod.splits sum.splits option.splits  dest: zip_prompts_member parsed_int_not_q dest!: input_eof input_line from_multi_class_dialogue_mixing)

lemma from_solver_dialogue_mixing:
  "from_solver h w = (r, w') \<Longrightarrow>
   \<exists>new. trace w' = trace w @ new \<and> Ask Ask_penalty \<notin> set new \<and>
     (Ask Ask_l1_ratio \<in> set new \<longleftrightarrow>
        penalty h = ''elasticnet'' \<and>
        (\<exists>u. (Ask_n_jobs, u) \<in> set (zip (prompts new) (stdin w)) \<and> lower u \<noteq> ''q''))"
  unfolding from_solver_def Let_def
  by (auto split: if_splits prod.splits sum.splits option.splits  dest: zip_prompts_member parsed_int_not_q dest!: input_eof input_line from_max_iter_dialogue_mixing)

lemma from_random_state_dialogue_mixing:
  "from_random_state h w = (r, w') \<Longrightarrow>
   \<exists>new. trace w' = trace w @ new \<and> Ask Ask_penalty \<notin> set new \<and>
     (Ask Ask_l1_ratio \<in> set new \<longleftrightarrow>
        penalty h = ''elasticnet'' \<and>
        (\<exists>u. (Ask_n_jobs, u) \<in> set (zip (prompts new) (stdin w)) \<and> lower u \<noteq> ''q''))"
  unfolding from_random_state_def Let_def
  by (auto split: if_splits prod.splits sum.splits option.splits  dest: zip_prompts_member parsed_int_not_q dest!: input_eof input_line from_solver_dialogue_mixing)

lemma from_class_weight_dialogue_mixing:
  "from_class_weight h w = (r, w') \<Longrightarrow>
   \<exists>new. trace w' = trace w @ new \<and> Ask Ask_penalty \<notin> set new \<and>
     (Ask Ask_l1_ratio \<in> set new \<longleftrightarrow>
        penalty h = ''elasticnet'' \<and>
        (\<exists>u. (Ask_n_jobs, u) \<in> set (zip (prompts new) (stdin w)) \<and> lower u \<noteq> ''q''))"
  unfolding from_class_weight_def Let_def
  by (auto split: if_splits prod.splits sum.splits option.splits  dest: zip_prompts_member parsed_int_not_q dest!: input_eof input_line from_random_state_dialogue_mixing)

lemma from_intercept_scaling_dialogue_mixing:
  "from_intercept_scaling h w = (r, w') \<Longrightarrow>
   \<exists>new. trace w' = trace w @ new \<and> Ask Ask_penalty \<notin> set new \<and>
     (Ask Ask_l1_ratio \<in> set new \<longleftrightarrow>
        penalty h = ''elasticnet'' \<and>
        (\<exists>u. (Ask_n_jobs, u) \<in> set (zip (prompts new) (stdin w)) \<and> lower u \<noteq> ''q''))"
  unfolding from_intercept_scaling_def Let_def
  by (auto split: if_splits prod.splits sum.splits option.splits  dest: zip_prompts_member parsed_int_not_q dest!: input_eof input_line from_class_weight_dialogue_mixing)

lemma from_fit_intercept_dialogue_mixing:
  "from_fit_intercept h w = (r, w') \<Longrightarrow>
   \<exists>new. trace w' = trace w @ new \<and> Ask Ask_penalty \<notin> set new \<and>
     (Ask Ask_l1_ratio \<in> set new \<longleftrightarrow>
        penalty h = ''elasticnet'' \<and>
        (\<exists>u. (Ask_n_jobs, u) \<in> set (zip (prompts new) (stdin w)) \<and> lower u \<noteq> ''q''))"
  unfolding from_fit_intercept_def Let_def
  by (auto split: if_splits prod.splits sum.splits option.splits  dest: zip_prompts_member parsed_int_not_q dest!: input_eof input_line from_intercept_scaling_dialogue_mixing)

lemma from_C_dialogue_mixing:
  "from_C h w = (r, w') \<Longrightarrow>
   \<exists>new. trace w' = trace w @ new \<and> Ask Ask_penalty \<notin> set new \<and>
     (Ask Ask_l1_ratio \<in> set new \<longleftrightarrow>
        penalty h = ''elasticnet'' \<and>
        (\<exists>u. (Ask_n_jobs, u) \<in> set (zip (prompts new) (stdin w)) \<and> lower u \<noteq> ''q''))"
  unfolding from_C_def Let_def
  by (auto split: if_splits prod.splits sum.splits option.splits  dest: zip_prompts_member parsed_int_not_q dest!: input_eof input_line from_fit_intercept_dialogue_mixing)

lemma from_tol_dialogue_mixing:
  "from_tol h w = (r, w') \<Longrightarrow>
   \<exists>new. trace w' = trace w @ new \<and> Ask Ask_penalty \<notin> set new \<and>
     (Ask Ask_l1_ratio \<in> set new \<longleftrightarrow>
        penalty h = ''elasticnet'' \<and>
        (\<exists>u. (Ask_n_jobs, u) \<in> set (zip (prompts new) (stdin w)) \<and> lower u \<noteq> ''q''))"
  unfolding from_tol_def Let_def
  by (auto split: if_splits prod.splits sum.splits option.splits  dest: zip_prompts_member parsed_int_not_q dest!: input_eof input_line from_C_dialogue_mixing)

lemma from_dual_dialogue_mixing:
  "from_dual h w = (r, w') \<Longrightarrow>
   \<exists>new. trace w' = trace w @ new \<and> Ask Ask_penalty \<notin> set new \<and>
     (Ask Ask_l1_ratio \<in> set new \<longleftrightarrow>
        penalty h = ''elasticnet'' \<and>
        (\<exists>u. (Ask_n_jobs, u) \<in> set (zip (prompts new) (stdin w)) \<and> lower u \<noteq> ''q''))"
  unfolding from_dual_def Let_def
  by (auto split: if_splits prod.splits sum.splits option.splits  dest: zip_prompts_member parsed_int_not_q dest!: input_eof input_line from_tol_dialogue_mixing)

lemma from_penalty_dialogue_mixing:
  "from_penalty h w = (r, w') \<Longrightarrow> penalty h \<noteq> ''elasticnet'' \<Longrightarrow>
   \<exists>new. trace w' = trace w @ new \<and>
     (Ask Ask_l1_ratio \<in> set new \<longleftrightarrow>
        (Ask_penalty, ''3'') \<in> set (zip (prompts new) (stdin w)) \<and>
        (\<exists>u. (Ask_n_jobs, u) \<in> set (zip (prompts new) (stdin w)) \<and> lower u \<noteq> ''q''))"
  unfolding from_penalty_def Let_def
  by (auto split: if_splits prod.splits sum.splits option.splits  dest: zip_prompts_member parsed_int_not_q dest!: input_eof input_line from_dual_dialogue_mixing)

lemma from_cv_dialogue_mixing:
  "from_cv h w = (r, w') \<Longrightarrow> penalty h \<noteq> ''elasticnet'' \<Longrightarrow>
   \<exists>new. trace w' = trace w @ new \<and>
     (Ask Ask_l1_ratio \<in> set new \<longleftrightarrow>
        (Ask_penalty, ''3'') \<in> set (zip (prompts new) (stdin w)) \<and>
        (\<exists>u. (Ask_n_jobs, u) \<in> set (zip (prompts new) (stdin w)) \<and> lower u \<noteq> ''q''))"
  unfolding from_cv_def Let_def
  by (auto split: if_splits prod.splits sum.splits option.splits simp: set_cv_def set_test_size_def dest: zip_prompts_member parsed_int_not_q dest!: input_eof input_line from_penalty_dialogue_mixing)

lemma from_test_size_dialogue_mixing:
  "from_test_size h w = (r, w') \<Longrightarrow> penalty h \<noteq> ''elasticnet'' \<Longrightarrow>
   \<exists>new. trace w' = trace w @ new \<and>
     (Ask Ask_l1_ratio \<in> set new \<longleftrightarrow>
        (Ask_penalty, ''3'') \<in> set (zip (prompts new) (stdin w)) \<and>
        (\<exists>u. (Ask_n_jobs, u) \<in> set (zip (prompts new) (stdin w)) \<and> lower u \<noteq> ''q''))"
  unfolding from_test_size_def Let_def
  by (auto split: if_splits prod.splits sum.splits option.splits simp: set_cv_def set_test_size_def dest: zip_prompts_member parsed_int_not_q dest!: input_eof input_line from_cv_dialogue_mixing)

subsection \<open>The dialogue of a whole session\<close>

lemma zip_append_absent:
  "p \<notin> set ys \<Longrightarrow> (p, u) \<in> set (zip (xs @ ys) zs) \<longleftrightarrow> (p, u) \<in> set (zip xs zs)"
proof (induction xs arbitrary: zs)
  case Nil
  then show ?case
    by (auto dest: set_zip_leftD)
next
  case (Cons x xs)
  then show ?case
    by (cases zs) auto
qed

lemma create_model_declined_dialogue:
  assumes "stdin w = a # rest" and "lower a = ''n''" and "create_model sk w = (rr, w')"
  shows "\<exists>w1 r w2 pre post.
           from_test_size local_defaults w1 = (r, w2) \<and>
           trace w1 = trace w @ pre \<and> prompts pre = [Use_defaults] \<and> stdin w1 = rest \<and>
           trace w' = trace w2 @ post \<and>
           (\<forall>p. Ask p \<in> set post \<longrightarrow> p = End_of_inputs_nl) \<and>
           (\<forall>m. rr = Inr m \<longrightarrow> r = Inr (params m))"
  using assms
  unfolding create_model_def
  by (auto simp: input_def set_cv_def set_test_size_def new_LogisticRegression_def
      split: prod.splits sum.splits list.splits) fastforce+

lemma create_model_accepted:
  assumes "stdin w = [] \<or> (\<exists>a rest. stdin w = a # rest \<and> lower a \<noteq> ''n'')"
    and "create_model sk w = (rr, w')"
  shows "\<exists>new. trace w' = trace w @ new \<and>
           (\<forall>p. Ask p \<in> set new \<longrightarrow> p = Use_defaults \<or> p = End_of_inputs)"
  using assms
  unfolding create_model_def
  by (auto simp: input_def set_cv_def set_test_size_def new_LogisticRegression_def
      split: prod.splits sum.splits list.splits)

subsection \<open>Every answered prompt takes one line\<close>

text \<open>
  The lines taken from the input are as many as the prompts issued, or one fewer when
  the last prompt met the end of the input; so \<open>dialogue\<close> pairs each prompt with the
  line that answered it.
\<close>

lemma input_eof_lines:
  "input p w = (Inl e, w') \<Longrightarrow>
   trace w' = trace w @ [Ask p] \<and> stdin w = [] \<and> stdin w' = []"
  by (auto simp: input_def emit_def split: list.splits)

lemma from_l1_ratio_lines:
  "from_l1_ratio h w = (r, w') \<Longrightarrow>
   \<exists>new. trace w' = trace w @ new \<and>
     stdin w' = drop (length (prompts new)) (stdin w) \<and>
     length (prompts new) \<le> Suc (length (stdin w)) \<and>
     (isl r \<or> length (prompts new) \<le> length (stdin w))"
  unfolding from_l1_ratio_def Let_def
  by (auto split: if_splits prod.splits sum.splits option.splits  dest!: input_eof_lines input_line)

lemma from_n_jobs_lines:
  "from_n_jobs h w = (r, w') \<Longrightarrow>
   \<exists>new. trace w' = trace w @ new \<and>
     stdin w' = drop (length (prompts new)) (stdin w) \<and>
     length (prompts new) \<le> Suc (length (stdin w)) \<and>
     (isl r \<or> length (prompts new) \<le> length (stdin w))"
  unfolding from_n_jobs_def Let_def
  by (auto split: if_splits prod.splits sum.splits option.splits  dest!: input_eof_lines input_line from_l1_ratio_lines)

lemma from_warm_start_lines:
  "from_warm_start h w = (r, w') \<Longrightarrow>
   \<exists>new. trace w' = trace w @ new \<and>
     stdin w' = drop (length (prompts new)) (stdin w) \<and>
     length (prompts new) \<le> Suc (length (stdin w)) \<and>
     (isl r \<or> length (prompts new) \<le> length (stdin w))"
  unfolding from_warm_start_def Let_def
  by (auto split: if_splits prod.splits sum.splits option.splits  dest!: input_eof_lines input_line from_n_jobs_lines)

lemma from_verbose_lines:
  "from_verbose h w = (r, w') \<Longrightarrow>
   \<exists>new. trace w' = trace w @ new \<and>
     stdin w' = drop (length (prompts new)) (stdin w) \<and>
     length (prompts new) \<le> Suc (length (stdin w)) \<and>
     (isl r \<or> length (prompts new) \<le> length (stdin w))"
  unfolding from_verbose_def Let_def
  by (auto split: if_splits prod.splits sum.splits option.splits  dest!: input_eof_lines input_line from_warm_start_lines)

lemma from_multi_class_lines:
  "from_multi_class h w = (r, w') \<Longrightarrow>
   \<exists>new. trace w' = trace w @ new \<and>
     stdin w' = drop (length (prompts new)) (stdin w) \<and>
     length (prompts new) \<le> Suc (length (stdin w)) \<and>
     (isl r \<or> length (prompts new) \<le> length (stdin w))"
  unfolding from_multi_class_def Let_def
  by (auto split: if_splits prod.splits sum.splits option.splits  dest!: input_eof_lines input_line from_verbose_lines)

lemma from_max_iter_lines:
  "from_max_iter h w = (r, w') \<Longrightarrow>
   \<exists>new. trace w' = trace w @ new \<and>
     stdin w' = drop (length (prompts new)) (stdin w) \<and>
     length (prompts new) \<le> Suc (length (stdin w)) \<and>
     (isl r \<or> length (prompts new) \<le> length (stdin w))"
  unfolding from_max_iter_def Let_def
  by (auto split: if_splits prod.splits sum.splits option.splits  dest!: input_eof_lines input_line from_multi_class_lines)

lemma from_solver_lines:
  "from_solver h w = (r, w') \<Longrightarrow>
   \<exists>new. trace w' = trace w @ new \<and>
     stdin w' = drop (length (prompts new)) (stdin w) \<and>
     length (prompts new) \<le> Suc (length (stdin w)) \<and>
     (isl r \<or> length (prompts new) \<le> length (stdin w))"
  unfolding from_solver_def Let_def
  by (auto split: if_splits prod.splits sum.splits option.splits  dest!: input_eof_lines input_line from_max_iter_lines)

lemma from_random_state_lines:
  "from_random_state h w = (r, w') \<Longrightarrow>
   \<exists>new. trace w' = trace w @ new \<and>
     stdin w' = drop (length (prompts new)) (stdin w) \<and>
     length (prompts new) \<le> Suc (length (stdin w)) \<and>
     (isl r \<or> length (prompts new) \<le> length (stdin w))"
  unfolding from_random_state_def Let_def
  by (auto split: if_splits prod.splits sum.splits option.splits  dest!: input_eof_lines input_line from_solver_lines)

lemma from_class_weight_lines:
  "from_class_weight h w = (r, w') \<Longrightarrow>
   \<exists>new. trace w' = trace w @ new \<and>
     stdin w' = drop (length (prompts new)) (stdin w) \<and>
     length (prompts new) \<le> Suc (length (stdin w)) \<and>
     (isl r \<or> length (prompts new) \<le> length (stdin w))"
  unfolding from_class_weight_def Let_def
  by (auto split: if_splits prod.splits sum.splits option.splits  dest!: input_eof_lines input_line from_random_state_lines)

lemma from_intercept_scaling_lines:
  "from_intercept_scaling h w = (r, w') \<Longrightarrow>
   \<exists>new. trace w' = trace w @ new \<and>
     stdin w' = drop (length (prompts new)) (stdin w) \<and>
     length (prompts new) \<le> Suc (length (stdin w)) \<and>
     (isl r \<or> length (prompts new) \<le> length (stdin w))"
  unfolding from_intercept_scaling_def Let_def
  by (auto split: if_splits prod.splits sum.splits option.splits  dest!: input_eof_lines input_line from_class_weight_lines)

lemma from_fit_intercept_lines:
  "from_fit_intercept h w = (r, w') \<Longrightarrow>
   \<exists>new. trace w' = trace w @ new \<and>
     stdin w' = drop (length (prompts new)) (stdin w) \<and>
     length (prompts new) \<le> Suc (length (stdin w)) \<and>
     (isl r \<or> length (prompts new) \<le> length (stdin w))"
  unfolding from_fit_intercept_def Let_def
  by (auto split: if_splits prod.splits sum.splits option.splits  dest!: input_eof_lines input_line from_intercept_scaling_lines)

lemma from_C_lines:
  "from_C h w = (r, w') \<Longrightarrow>
   \<exists>new. trace w' = trace w @ new \<and>
     stdin w' = drop (length (prompts new)) (stdin w) \<and>
     length (prompts new) \<le> Suc (length (stdin w)) \<and>
     (isl r \<or> length (prompts new) \<le> length (stdin w))"
  unfolding from_C_def Let_def
  by (auto split: if_splits prod.splits sum.splits option.splits  dest!: input_eof_lines input_line from_fit_intercept_lines)

lemma from_tol_lines:
  "from_tol h w = (r, w') \<Longrightarrow>
   \<exists>new. trace w' = trace w @ new \<and>
     stdin w' = drop (length (prompts new)) (stdin w) \<and>
     length (prompts new) \<le> Suc (length (stdin w)) \<and>
     (isl r \<or> length (prompts new) \<le> length (stdin w))"
  unfolding from_tol_def Let_def
  by (auto split: if_splits prod.splits sum.splits option.splits  dest!: input_eof_lines input_line from_C_lines)

lemma from_dual_lines:
  "from_dual h w = (r, w') \<Longrightarrow>
   \<exists>new. trace w' = trace w @ new \<and>
     stdin w' = drop (length (prompts new)) (stdin w) \<and>
     length (prompts new) \<le> Suc (length (stdin w)) \<and>
     (isl r \<or> length (prompts new) \<le> length (stdin w))"
  unfolding from_dual_def Let_def
  by (auto split: if_splits prod.splits sum.splits option.splits  dest!: input_eof_lines input_line from_tol_lines)

lemma from_penalty_lines:
  "from_penalty h w = (r, w') \<Longrightarrow>
   \<exists>new. trace w' = trace w @ new \<and>
     stdin w' = drop (length (prompts new)) (stdin w) \<and>
     length (prompts new) \<le> Suc (length (stdin w)) \<and>
     (isl r \<or> length (prompts new) \<le> length (stdin w))"
  unfolding from_penalty_def Let_def
  by (auto split: if_splits prod.splits sum.splits option.splits  dest!: input_eof_lines input_line from_dual_lines)

lemma from_cv_lines:
  "from_cv h w = (r, w') \<Longrightarrow>
   \<exists>new. trace w' = trace w @ new \<and>
     stdin w' = drop (length (prompts new)) (stdin w) \<and>
     length (prompts new) \<le> Suc (length (stdin w)) \<and>
     (isl r \<or> length (prompts new) \<le> length (stdin w))"
  unfolding from_cv_def Let_def
  by (auto split: if_splits prod.splits sum.splits option.splits simp: set_cv_def set_test_size_def dest!: input_eof_lines input_line from_penalty_lines)

lemma from_test_size_lines:
  "from_test_size h w = (r, w') \<Longrightarrow>
   \<exists>new. trace w' = trace w @ new \<and>
     stdin w' = drop (length (prompts new)) (stdin w) \<and>
     length (prompts new) \<le> Suc (length (stdin w)) \<and>
     (isl r \<or> length (prompts new) \<le> length (stdin w))"
  unfolding from_test_size_def Let_def
  by (auto split: if_splits prod.splits sum.splits option.splits simp: set_cv_def set_test_size_def dest!: input_eof_lines input_line from_cv_lines)

lemma drop_eq_ConsD: "drop n xs = y # ys \<Longrightarrow> drop (Suc n) xs = ys \<and> n < length xs"
proof (induction xs arbitrary: n)
  case Nil
  then show ?case
    by simp
next
  case (Cons x xs)
  then show ?case
    by (cases n) auto
qed

lemma create_model_lines:
  assumes "create_model sk w = (r, w')"
  shows "stdin w' = drop (length (asked w w')) (stdin w) \<and>
         length (asked w w') \<le> Suc (length (stdin w)) \<and>
         (isl r \<or> length (asked w w') \<le> length (stdin w)) \<and>
         length (dialogue w w') = min (length (asked w w')) (length (stdin w))"
proof -
  from assms have "\<exists>new. trace w' = trace w @ new \<and>
     stdin w' = drop (length (prompts new)) (stdin w) \<and>
     length (prompts new) \<le> Suc (length (stdin w)) \<and>
     (isl r \<or> length (prompts new) \<le> length (stdin w))"
    unfolding create_model_def
    by (auto simp: set_cv_def set_test_size_def new_LogisticRegression_def emit_def
        split: if_splits prod.splits sum.splits
        dest!: input_eof_lines input_line from_test_size_lines)
      (auto dest!: drop_eq_ConsD)
  then show ?thesis
    by (auto simp: asked_def dialogue_def issued_def)
qed

subsection \<open>The gated prompts of a session\<close>

text \<open>
  C7. In every session of the parameter collection, whatever its outcome: the prompt for
  the intercept scaling is issued if and only if the prompt for fitting the intercept
  was answered, with an answer that is neither the quit sentinel nor \<open>n\<close>, that is, the
  session came to the scaling with the intercept being fitted; the prompt for the mixing
  ratio is issued if and only if the penalty prompt was answered \<open>3\<close> (\<open>elasticnet\<close>) and
  the prompt that stands before the mixing ratio, the number of jobs, was answered with
  something other than the quit sentinel, that is, the session came to the mixing ratio
  with the penalty \<open>elasticnet\<close>. In a session that declined the defaults and ended
  with an estimator, a gated prompt was issued only if its condition holds of the
  estimator's parameters, and a parameter whose condition fails has its default
  (\<open>intercept_scaling\<close> 1, \<open>l1_ratio\<close> absent).
\<close>

theorem gated_prompts_by_answers:
  "(Ask_intercept_scaling \<in> set (asked w (snd (create_model sk w))) \<longleftrightarrow>
      (\<exists>u. (Ask_fit_intercept, u) \<in> set (dialogue w (snd (create_model sk w))) \<and>
           lower u \<noteq> ''q'' \<and> lower u \<noteq> ''n'')) \<and>
   (Ask_l1_ratio \<in> set (asked w (snd (create_model sk w))) \<longleftrightarrow>
      (Ask_penalty, ''3'') \<in> set (dialogue w (snd (create_model sk w))) \<and>
      (\<exists>u. (Ask_n_jobs, u) \<in> set (dialogue w (snd (create_model sk w))) \<and>
           lower u \<noteq> ''q'')) \<and>
   (\<forall>a rest m.
      stdin w = a # rest \<and> lower a = ''n'' \<and> fst (create_model sk w) = Inr m \<longrightarrow>
      (Ask_intercept_scaling \<in> set (asked w (snd (create_model sk w))) \<longrightarrow>
         fit_intercept (params m)) \<and>
      (\<not> fit_intercept (params m) \<longrightarrow> intercept_scaling (params m) = Finite 1) \<and>
      (Ask_l1_ratio \<in> set (asked w (snd (create_model sk w))) \<longrightarrow>
         penalty (params m) = ''elasticnet'') \<and>
      (penalty (params m) \<noteq> ''elasticnet'' \<longrightarrow> l1_ratio (params m) = None))"
proof -
  obtain rr w' where c: "create_model sk w = (rr, w')"
    by (cases "create_model sk w")
  have sn: "snd (create_model sk w) = w'" "fst (create_model sk w) = rr"
    using c by simp_all
  consider (declined) a rest where "stdin w = a # rest" "lower a = ''n''"
    | (accepted) "stdin w = [] \<or> (\<exists>a rest. stdin w = a # rest \<and> lower a \<noteq> ''n'')"
    by (cases "stdin w") auto
  then have "(Ask_intercept_scaling \<in> set (asked w w') \<longleftrightarrow>
      (\<exists>u. (Ask_fit_intercept, u) \<in> set (dialogue w w') \<and>
           lower u \<noteq> ''q'' \<and> lower u \<noteq> ''n'')) \<and>
   (Ask_l1_ratio \<in> set (asked w w') \<longleftrightarrow>
      (Ask_penalty, ''3'') \<in> set (dialogue w w') \<and>
      (\<exists>u. (Ask_n_jobs, u) \<in> set (dialogue w w') \<and> lower u \<noteq> ''q'')) \<and>
   (\<forall>a rest m.
      stdin w = a # rest \<and> lower a = ''n'' \<and> rr = Inr m \<longrightarrow>
      (Ask_intercept_scaling \<in> set (asked w w') \<longrightarrow> fit_intercept (params m)) \<and>
      (\<not> fit_intercept (params m) \<longrightarrow> intercept_scaling (params m) = Finite 1) \<and>
      (Ask_l1_ratio \<in> set (asked w w') \<longrightarrow> penalty (params m) = ''elasticnet'') \<and>
      (penalty (params m) \<noteq> ''elasticnet'' \<longrightarrow> l1_ratio (params m) = None))"
  proof cases
    case accepted
    from create_model_accepted [OF accepted c] obtain new where
      n: "trace w' = trace w @ new"
      and only: "\<forall>p. Ask p \<in> set new \<longrightarrow> p = Use_defaults \<or> p = End_of_inputs"
      by blast
    have i: "issued w w' = new"
      using n by (rule issued_new)
    have no: "Ask_intercept_scaling \<notin> set (asked w w')" "Ask_l1_ratio \<notin> set (asked w w')"
      using only by (auto simp: asked_def i)
    have nd: "\<And>u. (Ask_fit_intercept, u) \<notin> set (dialogue w w')"
      "\<And>u. (Ask_penalty, u) \<notin> set (dialogue w w')"
      using only by (auto simp: dialogue_def asked_def i dest: zip_prompts_member)
    have na: "\<not> (\<exists>a rest. stdin w = a # rest \<and> lower a = ''n'')"
      using accepted by auto
    show ?thesis
      using no nd na by blast
  next
    case declined
    from create_model_declined_dialogue [OF declined c]
    obtain w1 r w2 pre post where
      f: "from_test_size local_defaults w1 = (r, w2)"
      and t1: "trace w1 = trace w @ pre" and pp: "prompts pre = [Use_defaults]"
      and s1: "stdin w1 = rest" and t2: "trace w' = trace w2 @ post"
      and post: "\<forall>p. Ask p \<in> set post \<longrightarrow> p = End_of_inputs_nl"
      and rm: "\<forall>m. rr = Inr m \<longrightarrow> r = Inr (params m)"
      by blast
    have ld: "fit_intercept local_defaults" "penalty local_defaults \<noteq> ''elasticnet''"
      "intercept_scaling local_defaults = Finite 1" "l1_ratio local_defaults = None"
      by (simp_all add: local_defaults_def)
    from from_test_size_dialogue_scaling [OF f ld(1)] obtain new where
      n: "trace w2 = trace w1 @ new"
      and F: "Ask Ask_intercept_scaling \<in> set new \<longleftrightarrow>
        (\<exists>u. (Ask_fit_intercept, u) \<in> set (zip (prompts new) (stdin w1)) \<and>
             lower u \<noteq> ''q'' \<and> lower u \<noteq> ''n'')"
      by blast
    from from_test_size_dialogue_mixing [OF f ld(2)] obtain new' where
      n': "trace w2 = trace w1 @ new'"
      and P: "Ask Ask_l1_ratio \<in> set new' \<longleftrightarrow>
        (Ask_penalty, ''3'') \<in> set (zip (prompts new') (stdin w1)) \<and>
        (\<exists>u. (Ask_n_jobs, u) \<in> set (zip (prompts new') (stdin w1)) \<and> lower u \<noteq> ''q'')"
      by blast
    have same: "new' = new"
      using n n' by simp
    have i: "issued w w' = pre @ new @ post"
      using t1 t2 n by (simp add: issued_def)
    have a: "asked w w' = Use_defaults # prompts new @ prompts post"
      using pp by (simp add: asked_def i)
    have d: "dialogue w w' = (Use_defaults, a) # zip (prompts new @ prompts post) rest"
      by (simp add: dialogue_def a declined(1))
    have absent: "Ask_fit_intercept \<notin> set (prompts post)" "Ask_penalty \<notin> set (prompts post)"
      "Ask_n_jobs \<notin> set (prompts post)" "Ask_intercept_scaling \<notin> set (prompts post)"
      "Ask_l1_ratio \<notin> set (prompts post)"
      using post by auto
    have z: "\<And>u. (Ask_fit_intercept, u) \<in> set (dialogue w w') \<longleftrightarrow>
          (Ask_fit_intercept, u) \<in> set (zip (prompts new) (stdin w1))"
      "\<And>u. (Ask_penalty, u) \<in> set (dialogue w w') \<longleftrightarrow>
          (Ask_penalty, u) \<in> set (zip (prompts new) (stdin w1))"
      "\<And>u. (Ask_n_jobs, u) \<in> set (dialogue w w') \<longleftrightarrow>
          (Ask_n_jobs, u) \<in> set (zip (prompts new) (stdin w1))"
      by (simp_all add: d s1 zip_append_absent [OF absent(1)] zip_append_absent [OF absent(2)]
          zip_append_absent [OF absent(3)])
    have q: "Ask_intercept_scaling \<in> set (asked w w') \<longleftrightarrow> Ask Ask_intercept_scaling \<in> set new"
      "Ask_l1_ratio \<in> set (asked w w') \<longleftrightarrow> Ask Ask_l1_ratio \<in> set new"
      using absent(4,5) by (simp_all add: a)
    have iff1: "Ask_intercept_scaling \<in> set (asked w w') \<longleftrightarrow>
      (\<exists>u. (Ask_fit_intercept, u) \<in> set (dialogue w w') \<and>
           lower u \<noteq> ''q'' \<and> lower u \<noteq> ''n'')"
      unfolding q z by (rule F)
    have iff2: "Ask_l1_ratio \<in> set (asked w w') \<longleftrightarrow>
      (Ask_penalty, ''3'') \<in> set (dialogue w w') \<and>
      (\<exists>u. (Ask_n_jobs, u) \<in> set (dialogue w w') \<and> lower u \<noteq> ''q'')"
      unfolding q z using P by (simp only: same)
    have fin: "(Ask_intercept_scaling \<in> set (asked w w') \<longrightarrow> fit_intercept (params m)) \<and>
      (\<not> fit_intercept (params m) \<longrightarrow> intercept_scaling (params m) = Finite 1) \<and>
      (Ask_l1_ratio \<in> set (asked w w') \<longrightarrow> penalty (params m) = ''elasticnet'') \<and>
      (penalty (params m) \<noteq> ''elasticnet'' \<longrightarrow> l1_ratio (params m) = None)"
      if "rr = Inr m" for m
    proof -
      have l: "from_test_size local_defaults w1 = (Inr (params m), w2)"
        using f rm that by simp
      from from_test_size_scaling [OF l] obtain e where
        e: "trace w2 = trace w1 @ e"
        and e1: "Ask Ask_intercept_scaling \<in> set e \<longrightarrow> fit_intercept (params m)"
        and e2: "\<not> fit_intercept (params m) \<longrightarrow>
          intercept_scaling (params m) = intercept_scaling local_defaults \<and>
          Ask Ask_intercept_scaling \<notin> set e"
        by blast
      from from_test_size_mixing [OF l] obtain e' where
        e': "trace w2 = trace w1 @ e'"
        and e3: "Ask Ask_l1_ratio \<in> set e' \<longrightarrow> penalty (params m) = ''elasticnet''"
        and e4: "penalty (params m) \<noteq> ''elasticnet'' \<longrightarrow>
          l1_ratio (params m) = l1_ratio local_defaults \<and> Ask Ask_l1_ratio \<notin> set e'"
        by blast
      have "e = new" "e' = new"
        using e e' n by simp_all
      then show ?thesis
        using e1 e2 e3 e4 by (simp add: q ld)
    qed
    show ?thesis
      using iff1 iff2 fin by blast
  qed
  then show ?thesis
    unfolding sn .
qed

theorem gated_prompts_by_answers_witness:
  "stdin elasticnet_session =
     ''n'' # ['''', '''', ''3'', '''', '''', '''', ''n'', '''', '''', '''', '''', '''', '''',
              '''', '''', ''0.5'', ''''] \<and>
   lower ''n'' = ''n'' \<and>
   fst (create_model stub_sklearn elasticnet_session) =
     Inr \<lparr>params = local_defaults\<lparr>penalty := ''elasticnet'', fit_intercept := False,
                                     l1_ratio := Some (Finite (1 / 2))\<rparr>,
          fitted = None\<rparr> \<and>
   dialogue elasticnet_session (snd (create_model stub_sklearn elasticnet_session)) =
     [(Use_defaults, ''n''), (Ask_test_size, ''''), (Ask_cv, ''''), (Ask_penalty, ''3''),
      (Ask_dual, ''''), (Ask_tol, ''''), (Ask_C, ''''), (Ask_fit_intercept, ''n''),
      (Ask_class_weight, ''''), (Ask_random_state, ''''), (Ask_solver, ''''),
      (Ask_max_iter, ''''), (Ask_multi_class, ''''), (Ask_verbose, ''''),
      (Ask_warm_start, ''''), (Ask_n_jobs, ''''), (Ask_l1_ratio, ''0.5''),
      (End_of_inputs_nl, '''')] \<and>
   Ask_intercept_scaling \<notin>
     set (asked elasticnet_session (snd (create_model stub_sklearn elasticnet_session))) \<and>
   Ask_l1_ratio \<in>
     set (asked elasticnet_session (snd (create_model stub_sklearn elasticnet_session))) \<and>
   intercept_scaling (local_defaults\<lparr>penalty := ''elasticnet'', fit_intercept := False,
                                       l1_ratio := Some (Finite (1 / 2))\<rparr>) = Finite 1"
proof -
  define W where "W = snd (create_model stub_sklearn elasticnet_session)"
  have m: "fst (create_model stub_sklearn elasticnet_session) =
     Inr \<lparr>params = local_defaults\<lparr>penalty := ''elasticnet'', fit_intercept := False,
                                     l1_ratio := Some (Finite (1 / 2))\<rparr>,
          fitted = None\<rparr>"
    by (simp add: elasticnet_session_def session_def create_model_def input_def step_defs
        set_cv_def set_test_size_def new_LogisticRegression_def lower_def lower_char_def
        float_def py_int_def strip_def is_space_def number_def exponent_def is_digit_def
        digit_val_def Let_def local_defaults_def)
  have s: "stdin elasticnet_session =
     ''n'' # ['''', '''', ''3'', '''', '''', '''', ''n'', '''', '''', '''', '''', '''', '''',
              '''', '''', ''0.5'', '''']"
    by (simp add: elasticnet_session_def session_def)
  have l: "lower ''n'' = ''n''"
    by (simp add: lower_def lower_char_def)
  have a: "asked elasticnet_session W =
     [Use_defaults, Ask_test_size, Ask_cv, Ask_penalty, Ask_dual, Ask_tol, Ask_C,
      Ask_fit_intercept, Ask_class_weight, Ask_random_state, Ask_solver, Ask_max_iter,
      Ask_multi_class, Ask_verbose, Ask_warm_start, Ask_n_jobs, Ask_l1_ratio,
      End_of_inputs_nl]"
    unfolding W_def asked_def issued_def
    by (simp add: elasticnet_session_def session_def create_model_def input_def step_defs
        set_cv_def set_test_size_def new_LogisticRegression_def lower_def lower_char_def
        float_def py_int_def strip_def is_space_def number_def exponent_def is_digit_def
        digit_val_def Let_def local_defaults_def say_def emit_def)
  have d: "dialogue elasticnet_session W =
     [(Use_defaults, ''n''), (Ask_test_size, ''''), (Ask_cv, ''''), (Ask_penalty, ''3''),
      (Ask_dual, ''''), (Ask_tol, ''''), (Ask_C, ''''), (Ask_fit_intercept, ''n''),
      (Ask_class_weight, ''''), (Ask_random_state, ''''), (Ask_solver, ''''),
      (Ask_max_iter, ''''), (Ask_multi_class, ''''), (Ask_verbose, ''''),
      (Ask_warm_start, ''''), (Ask_n_jobs, ''''), (Ask_l1_ratio, ''0.5''),
      (End_of_inputs_nl, '''')]"
    unfolding dialogue_def a s by simp
  note g = gated_prompts_by_answers [of elasticnet_session stub_sklearn, folded W_def]
  have q: "lower '''' \<noteq> ''q''"
    by (simp add: lower_def)
  have no_scaling: "Ask_intercept_scaling \<notin> set (asked elasticnet_session W)"
    using g [THEN conjunct1] unfolding d by (simp add: l)
  have mixing: "Ask_l1_ratio \<in> set (asked elasticnet_session W)"
    using g [THEN conjunct2, THEN conjunct1] q unfolding d by simp
  have default: "intercept_scaling (local_defaults\<lparr>penalty := ''elasticnet'',
      fit_intercept := False, l1_ratio := Some (Finite (1 / 2))\<rparr>) = Finite 1"
    using g [THEN conjunct2, THEN conjunct2, rule_format, OF conjI [OF s conjI [OF l m]]]
    by simp
  show ?thesis
    using s l m d no_scaling mixing default unfolding W_def by blast
qed

text \<open>
  The session that chooses the elastic-net penalty and quits at the next prompt ends with
  an estimator whose penalty is \<open>elasticnet\<close>, and the prompt for the mixing ratio was
  never issued: the loop was left before it came to that prompt.
\<close>

theorem elasticnet_without_mixing_prompt:
  "fst (create_model stub_sklearn quit_after_penalty_session) =
     Inr \<lparr>params = local_defaults\<lparr>penalty := ''elasticnet''\<rparr>, fitted = None\<rparr> \<and>
   penalty (local_defaults\<lparr>penalty := ''elasticnet''\<rparr>) = ''elasticnet'' \<and>
   asked quit_after_penalty_session
     (snd (create_model stub_sklearn quit_after_penalty_session)) =
     [Use_defaults, Ask_test_size, Ask_cv, Ask_penalty, Ask_dual, End_of_inputs_nl] \<and>
   Ask Ask_l1_ratio \<notin>
     set (issued quit_after_penalty_session
            (snd (create_model stub_sklearn quit_after_penalty_session)))"
proof -
  have m: "fst (create_model stub_sklearn quit_after_penalty_session) =
     Inr \<lparr>params = local_defaults\<lparr>penalty := ''elasticnet''\<rparr>, fitted = None\<rparr>"
    by (simp add: quit_after_penalty_session_def session_def create_model_def input_def
        step_defs set_cv_def set_test_size_def new_LogisticRegression_def lower_def
        lower_char_def float_def py_int_def strip_def is_space_def number_def exponent_def
        is_digit_def digit_val_def Let_def local_defaults_def)
  have a: "asked quit_after_penalty_session
     (snd (create_model stub_sklearn quit_after_penalty_session)) =
     [Use_defaults, Ask_test_size, Ask_cv, Ask_penalty, Ask_dual, End_of_inputs_nl]"
    unfolding asked_def issued_def
    by (simp add: quit_after_penalty_session_def session_def create_model_def input_def
        step_defs set_cv_def set_test_size_def new_LogisticRegression_def lower_def
        lower_char_def float_def py_int_def strip_def is_space_def number_def exponent_def
        is_digit_def digit_val_def Let_def local_defaults_def say_def emit_def)
  have n: "Ask Ask_l1_ratio \<notin>
     set (issued quit_after_penalty_session
            (snd (create_model stub_sklearn quit_after_penalty_session)))"
    using a by (simp add: asked_def flip: prompts_member)
  have p: "penalty (local_defaults\<lparr>penalty := ''elasticnet''\<rparr>) = ''elasticnet''"
    by simp
  show ?thesis
    using m a n p by blast
qed

section \<open>The wrapper \<open>run\<close>\<close>

lemma create_model_self:
  "create_model sk w = (r, w') \<Longrightarrow> forget_config (self w') = forget_config (self w)"
  unfolding create_model_def new_LogisticRegression_def
  by (auto simp: set_cv_def set_test_size_def forget_config_def
      split: if_splits prod.splits sum.splits dest!: input_frame from_test_size_self)

lemma forget_config_fields:
  assumes "forget_config s' = forget_config s"
  shows "attributes s' = attributes s" "labels s' = labels s" "regression s' = regression s"
    "classes_' s' = classes_' s" "coef_' s' = coef_' s" "intercept_' s' = intercept_' s"
    "n_iter_' s' = n_iter_' s" "accuracy s' = accuracy s" "precision s' = precision s"
    "recall s' = recall s" "roc_auc s' = roc_auc s" "cross_val_scores s' = cross_val_scores s"
    "coefficients s' = coefficients s" "intercept s' = intercept s"
  using assms by (cases s; cases s'; simp add: forget_config_def)+

lemma update_self_frame [simp]:
  "self (update_self f w) = f (self w)" "stdin (update_self f w) = stdin w"
  "trace (update_self f w) = trace w"
  by (simp_all add: update_self_def)

text \<open>
  C3. When the dataset is valid, the parameters have been collected and the split has
  succeeded, a fault of \<open>fit\<close> makes \<open>run\<close> return normally: after the model was
  built it has called the split and \<open>fit\<close> once each and printed the diagnostic, the
  line announcing the message, and the fault itself; the model handle is absent, and the
  learned attributes and the three scores are what they were before the call (absent
  on an object that has not yet run successfully).
\<close>

theorem fit_fault_resets_model:
  assumes "valid_dataset (self w)"
    and "create_model sk w = (Inr m, w2)"
    and "train_test_split sk (attributes (self w)) (labels (self w)) (test_size (self w2)) =
           Inr (X_train, X_test, y_train, y_test)"
    and "fit sk (params m) X_train (ravel y_train) = Inl e"
  shows "fst (run sk w) = Inr () \<and>
         regression (self (snd (run sk w))) = None \<and>
         trace (snd (run sk w)) =
           trace w2 @
           [Call (Call_train_test_split (attributes (self w)) (labels (self w))
                    (test_size (self w2))),
            Call (Call_fit m X_train (ravel y_train)),
            Print [Str (''An exception occurred while training the logistic regression '' @
                        ''model. Check your inputs and try again.'')],
            Print [Str ''Here is the exception message:''],
            Print [Exn e]] \<and>
         classes_' (self (snd (run sk w))) = classes_' (self w) \<and>
         coefficients (self (snd (run sk w))) = coefficients (self w) \<and>
         intercept (self (snd (run sk w))) = intercept (self w) \<and>
         n_iter_' (self (snd (run sk w))) = n_iter_' (self w) \<and>
         accuracy (self (snd (run sk w))) = accuracy (self w) \<and>
         roc_auc (self (snd (run sk w))) = roc_auc (self w) \<and>
         cross_val_scores (self (snd (run sk w))) = cross_val_scores (self w)"
proof -
  note f = forget_config_fields [OF create_model_self [OF assms(2)]]
  have "run sk w =
      (Inr (),
       update_self (\<lambda>s. s\<lparr>regression := None\<rparr>)
         (emit (Print [Exn e])
           (say ''Here is the exception message:''
             (say (''An exception occurred while training the logistic regression '' @
                   ''model. Check your inputs and try again.'')
               (emit (Call (Call_fit m X_train (ravel y_train)))
                 (emit (Call (Call_train_test_split (attributes (self w)) (labels (self w))
                          (test_size (self w2))))
                   (update_self (\<lambda>s. s\<lparr>regression := Some m\<rparr>) w2)))))))"
    using assms by (simp add: run_def check_inputs_accepts run_train_def f Let_def)
  then show ?thesis
    by (simp add: f)
qed

lemma create_model_accepting_defaults:
  "stdin w = a # k # rest \<Longrightarrow> lower a \<noteq> ''n'' \<Longrightarrow>
   create_model sk w =
     (Inr \<lparr>params = default_params sk, fitted = None\<rparr>,
      w\<lparr>self := (self w)\<lparr>test_size := Some (Finite (1 / 4)), cv := None\<rparr>,
        stdin := rest,
        trace := trace w @
          [Print [Str ''\<newline>======================================''],
           Print [Str ''= Parameter inputs for LogRegression =''],
           Print [Str ''======================================\<newline>''],
           Ask Use_defaults,
           Print [Str ''\<newline>=======================================================''],
           Print [Str ''= End of parameter inputs; press any key to continue. =''],
           Ask End_of_inputs,
           Call (New_LogisticRegression None)]\<rparr>)"
  by (simp add: create_model_def input_def new_LogisticRegression_def set_cv_def
      set_test_size_def say_def emit_def)

theorem fit_fault_resets_model_witness:
  "valid_dataset (self one_class_session) \<and>
   fst (create_model stub_sklearn one_class_session) =
     Inr \<lparr>params = local_defaults, fitted = None\<rparr> \<and>
   fit stub_sklearn local_defaults [[- 1], [1]] (ravel [[0], [0]]) =
     Inl (ValueError ''This solver needs samples of at least 2 classes'') \<and>
   fst (run stub_sklearn one_class_session) = Inr () \<and>
   regression (self (snd (run stub_sklearn one_class_session))) = None \<and>
   accuracy (self (snd (run stub_sklearn one_class_session))) = None \<and>
   coefficients (self (snd (run stub_sklearn one_class_session))) = None"
proof -
  have i: "stdin one_class_session = ''y'' # '''' # []" "lower ''y'' \<noteq> ''n''"
    "attributes (self one_class_session) = Some [[- 1], [1], [- 2], [2]]"
    "labels (self one_class_session) = Some [[0], [0], [0], [0]]"
    "accuracy (self one_class_session) = None"
    "coefficients (self one_class_session) = None"
    by (simp_all add: one_class_session_def session_def one_class_samples_def init_def
        lower_def lower_char_def)
  note c0 = create_model_accepting_defaults [of one_class_session _ _ _ stub_sklearn, OF i(1,2)]
  have d: "default_params stub_sklearn = local_defaults"
    by (simp add: stub_sklearn_def)
  have c: "create_model stub_sklearn one_class_session =
      (Inr \<lparr>params = local_defaults, fitted = None\<rparr>,
       snd (create_model stub_sklearn one_class_session))"
    by (simp add: c0 d)
  have t: "test_size (self (snd (create_model stub_sklearn one_class_session))) =
      Some (Finite (1 / 4))"
    by (simp add: c0)
  have v: "valid_dataset (self one_class_session)"
    by (simp add: valid_dataset_def i)
  have s: "train_test_split stub_sklearn (attributes (self one_class_session))
      (labels (self one_class_session))
      (test_size (self (snd (create_model stub_sklearn one_class_session)))) =
      Inr ([[- 1], [1]], [[- 2], [2]], [[0], [0]], [[0], [0]])"
    unfolding t i by (simp add: stub_sklearn_def stub_train_test_split_def)
  have f: "fit stub_sklearn (params \<lparr>params = local_defaults, fitted = None\<rparr>) [[- 1], [1]]
      (ravel [[0], [0]]) = Inl (ValueError ''This solver needs samples of at least 2 classes'')"
    by (simp add: stub_sklearn_def stub_fit_def ravel_def)
  have m: "fst (create_model stub_sklearn one_class_session) =
     Inr \<lparr>params = local_defaults, fitted = None\<rparr>"
    by (subst c) simp
  show ?thesis
    using fit_fault_resets_model [OF v c s f] v f m i by simp
qed

section \<open>A run that succeeds\<close>

lemma output_results_ok:
  assumes "coefficients (self w) \<noteq> None" and "intercept (self w) \<noteq> None"
    and "accuracy (self w) \<noteq> None" and "roc_auc (self w) \<noteq> None"
  shows "fst (output_results w) = Inr ()"
    and "self (snd (output_results w)) = self w"
    and "stdin (snd (output_results w)) = stdin w"
    and "trace (snd (output_results w)) = trace w @ issued w (snd (output_results w))"
    and "\<not> list_ex is_call (issued w (snd (output_results w)))"
  using assms
  by (auto simp: output_results_def Let_def issued_def is_call_def)

text \<open>
  The state and the trace after a run in which validation, parameter collection and
  every call of the library succeed. The events after the last call are the report.
\<close>

lemma run_success:
  assumes "valid_dataset (self w)"
    and "create_model sk w = (Inr m, w2)"
    and "train_test_split sk (attributes (self w)) (labels (self w)) (test_size (self w2)) =
           Inr (X_train, X_test, y_train, y_test)"
    and "fit sk (params m) X_train (ravel y_train) = Inr l"
    and "predict_est sk (m\<lparr>fitted := Some l\<rparr>) (Some X_test) = Inr y_prediction"
    and "predict_proba sk (m\<lparr>fitted := Some l\<rparr>) X_test = Inr probas"
    and "column1 probas = Inr y_pred_probas"
    and "accuracy_score sk y_prediction y_test = Inr a"
    and "roc_auc_score sk y_prediction y_pred_probas = Inr r"
    and "cross_val_score sk (m\<lparr>fitted := Some l\<rparr>) (attributes (self w)) (labels (self w))
           (cv (self w2)) = Inr scores"
  shows "fst (run sk w) = Inr ()"
    and "self (snd (run sk w)) =
           (self w2)
             \<lparr>regression := Some (m\<lparr>fitted := Some l\<rparr>),
              classes_' := Some (est_classes l),
              coefficients := Some (est_coef l),
              intercept := Some (est_intercept l),
              n_iter_' := Some (est_n_iter l),
              accuracy := Some a,
              roc_auc := Some r,
              cross_val_scores := Some scores\<rparr>"
    and "\<exists>report.
           trace (snd (run sk w)) =
             trace w2 @
             [Call (Call_train_test_split (attributes (self w)) (labels (self w))
                      (test_size (self w2))),
              Call (Call_fit m X_train (ravel y_train)),
              Call (Call_predict (m\<lparr>fitted := Some l\<rparr>) (Some X_test)),
              Call (Call_predict_proba (m\<lparr>fitted := Some l\<rparr>) X_test),
              Call (Call_accuracy_score y_prediction y_test),
              Call (Call_roc_auc_score y_prediction y_pred_probas),
              Call (Call_cross_val_score (m\<lparr>fitted := Some l\<rparr>) (attributes (self w))
                      (labels (self w)) (cv (self w2)))] @ report \<and>
           \<not> list_ex is_call report"
proof -
  note f = forget_config_fields [OF create_model_self [OF assms(2)]]
  let ?W =
    "update_self (\<lambda>s. s\<lparr>cross_val_scores := Some scores\<rparr>)
      (emit (Call (Call_cross_val_score (m\<lparr>fitted := Some l\<rparr>) (attributes (self w))
                     (labels (self w)) (cv (self w2))))
        (update_self (\<lambda>s. s\<lparr>roc_auc := Some r\<rparr>)
          (emit (Call (Call_roc_auc_score y_prediction y_pred_probas))
            (update_self (\<lambda>s. s\<lparr>accuracy := Some a\<rparr>)
              (emit (Call (Call_accuracy_score y_prediction y_test))
                (emit (Call (Call_predict_proba (m\<lparr>fitted := Some l\<rparr>) X_test))
                  (emit (Call (Call_predict (m\<lparr>fitted := Some l\<rparr>) (Some X_test)))
                    (update_self
                       (\<lambda>s. s\<lparr>regression := Some (m\<lparr>fitted := Some l\<rparr>),
                               classes_' := Some (est_classes l),
                               coefficients := Some (est_coef l),
                               intercept := Some (est_intercept l),
                               n_iter_' := Some (est_n_iter l)\<rparr>)
                       (emit (Call (Call_fit m X_train (ravel y_train)))
                         (emit (Call (Call_train_test_split (attributes (self w))
                                        (labels (self w)) (test_size (self w2))))
                           (update_self (\<lambda>s. s\<lparr>regression := Some m\<rparr>) w2)))))))))))"
  have r: "run sk w = output_results ?W"
    using assms
    by (simp add: run_def check_inputs_accepts run_train_def run_predictions_def
        run_metrics_def f Let_def)
  have ok: "coefficients (self ?W) \<noteq> None" "intercept (self ?W) \<noteq> None"
    "accuracy (self ?W) \<noteq> None" "roc_auc (self ?W) \<noteq> None"
    by simp_all
  note o = output_results_ok [OF ok]
  show "fst (run sk w) = Inr ()"
    by (simp only: r o(1))
  show "self (snd (run sk w)) =
           (self w2)
             \<lparr>regression := Some (m\<lparr>fitted := Some l\<rparr>),
              classes_' := Some (est_classes l),
              coefficients := Some (est_coef l),
              intercept := Some (est_intercept l),
              n_iter_' := Some (est_n_iter l),
              accuracy := Some a,
              roc_auc := Some r,
              cross_val_scores := Some scores\<rparr>"
    by (simp only: r o(2)) simp
  have "trace (snd (run sk w)) = trace ?W @ issued ?W (snd (output_results ?W))"
    by (simp only: r o(4))
  then have "trace (snd (run sk w)) =
             trace w2 @
             [Call (Call_train_test_split (attributes (self w)) (labels (self w))
                      (test_size (self w2))),
              Call (Call_fit m X_train (ravel y_train)),
              Call (Call_predict (m\<lparr>fitted := Some l\<rparr>) (Some X_test)),
              Call (Call_predict_proba (m\<lparr>fitted := Some l\<rparr>) X_test),
              Call (Call_accuracy_score y_prediction y_test),
              Call (Call_roc_auc_score y_prediction y_pred_probas),
              Call (Call_cross_val_score (m\<lparr>fitted := Some l\<rparr>) (attributes (self w))
                      (labels (self w)) (cv (self w2)))] @
             issued ?W (snd (output_results ?W))"
    by simp
  with o(5) show "\<exists>report.
           trace (snd (run sk w)) =
             trace w2 @
             [Call (Call_train_test_split (attributes (self w)) (labels (self w))
                      (test_size (self w2))),
              Call (Call_fit m X_train (ravel y_train)),
              Call (Call_predict (m\<lparr>fitted := Some l\<rparr>) (Some X_test)),
              Call (Call_predict_proba (m\<lparr>fitted := Some l\<rparr>) X_test),
              Call (Call_accuracy_score y_prediction y_test),
              Call (Call_roc_auc_score y_prediction y_pred_probas),
              Call (Call_cross_val_score (m\<lparr>fitted := Some l\<rparr>) (attributes (self w))
                      (labels (self w)) (cv (self w2)))] @ report \<and>
           \<not> list_ex is_call report"
    by blast
qed

text \<open>What the stand-in answers on the dataset \<open>crossed_samples\<close>.\<close>

lemma stub_on_crossed_samples:
  "train_test_split stub_sklearn (attributes crossed_samples) (labels crossed_samples)
     (Some (Finite (1 / 4))) =
     Inr ([[- 1], [1]], [[2], [- 2]], [[0], [1]], [[0], [1]])"
  "fit stub_sklearn h [[- 1], [1]] (ravel [[0], [1]]) = Inr stub_learned"
  "predict_est stub_sklearn (\<lparr>params = h, fitted = None\<rparr>\<lparr>fitted := Some stub_learned\<rparr>)
     (Some [[2], [- 2]]) = Inr [1, 0]"
  "predict_proba stub_sklearn (\<lparr>params = h, fitted = None\<rparr>\<lparr>fitted := Some stub_learned\<rparr>)
     [[2], [- 2]] = Inr [[1 / 5, 4 / 5], [7 / 10, 3 / 10]]"
  "column1 [[1 / 5, 4 / 5], [7 / 10, 3 / 10]] = Inr [4 / 5, 3 / 10]"
  "accuracy_score stub_sklearn [1, 0] [[0], [1]] = Inr 0"
  "roc_auc_score stub_sklearn [1, 0] [4 / 5, 3 / 10] = Inr 1"
  "cross_val_score stub_sklearn (\<lparr>params = h, fitted = None\<rparr>\<lparr>fitted := Some stub_learned\<rparr>)
     (attributes crossed_samples) (labels crossed_samples) None = Inr [1, 1, 1, 1, 1]"
  "cross_val_score stub_sklearn (\<lparr>params = h, fitted = None\<rparr>\<lparr>fitted := Some stub_learned\<rparr>)
     (attributes crossed_samples) (labels crossed_samples) (Some 2) = Inr [1, 1]"
  by (simp_all add: stub_sklearn_def stub_train_test_split_def stub_fit_def stub_predict_def
      stub_predict_proba_def stub_accuracy_score_def stub_roc_auc_score_def
      stub_cross_val_score_def crossed_samples_def init_def ravel_def stub_learned_def
      column1_def numeral_eq_Suc)

lemma crossed_session_model:
  "create_model stub_sklearn crossed_session =
     (Inr \<lparr>params = local_defaults, fitted = None\<rparr>,
      snd (create_model stub_sklearn crossed_session))"
  "self (snd (create_model stub_sklearn crossed_session)) =
     crossed_samples\<lparr>test_size := Some (Finite (1 / 4)), cv := None\<rparr>"
  "self crossed_session = crossed_samples"
  "valid_dataset crossed_samples"
proof -
  have i: "stdin crossed_session = ''y'' # '''' # []" "lower ''y'' \<noteq> ''n''"
    "self crossed_session = crossed_samples"
    by (simp_all add: crossed_session_def session_def lower_def lower_char_def)
  note c = create_model_accepting_defaults [of crossed_session _ _ _ stub_sklearn, OF i(1,2)]
  have d: "default_params stub_sklearn = local_defaults"
    by (simp add: stub_sklearn_def)
  show "create_model stub_sklearn crossed_session =
     (Inr \<lparr>params = local_defaults, fitted = None\<rparr>,
      snd (create_model stub_sklearn crossed_session))"
    by (simp add: c d)
  show "self (snd (create_model stub_sklearn crossed_session)) =
     crossed_samples\<lparr>test_size := Some (Finite (1 / 4)), cv := None\<rparr>"
    by (simp add: c i)
  show "self crossed_session = crossed_samples"
    by (rule i)
  show "valid_dataset crossed_samples"
    by (simp add: valid_dataset_def crossed_samples_def init_def)
qed

lemma two_fold_session_model:
  "create_model stub_sklearn two_fold_session =
     (Inr \<lparr>params = local_defaults, fitted = None\<rparr>,
      snd (create_model stub_sklearn two_fold_session))"
  "self (snd (create_model stub_sklearn two_fold_session)) =
     crossed_samples\<lparr>test_size := Some (Finite (1 / 4)), cv := Some 2\<rparr>"
  "self two_fold_session = crossed_samples"
proof -
  have e: "create_model stub_sklearn two_fold_session =
     (Inr \<lparr>params = local_defaults, fitted = None\<rparr>,
      snd (create_model stub_sklearn two_fold_session)) \<and>
     self (snd (create_model stub_sklearn two_fold_session)) =
     crossed_samples\<lparr>test_size := Some (Finite (1 / 4)), cv := Some 2\<rparr>"
    by (simp add: two_fold_session_def session_def create_model_def input_def
        from_test_size_def from_cv_def from_penalty_def set_cv_def set_test_size_def
        new_LogisticRegression_def lower_def lower_char_def float_def py_int_def strip_def
        is_space_def number_def is_digit_def digit_val_def Let_def)
  show "create_model stub_sklearn two_fold_session =
     (Inr \<lparr>params = local_defaults, fitted = None\<rparr>,
      snd (create_model stub_sklearn two_fold_session))"
    using e by blast
  show "self (snd (create_model stub_sklearn two_fold_session)) =
     crossed_samples\<lparr>test_size := Some (Finite (1 / 4)), cv := Some 2\<rparr>"
    using e by blast
  show "self two_fold_session = crossed_samples"
    by (simp add: two_fold_session_def session_def)
qed

text \<open>
  The metrics stage, whatever the calls after the accuracy score answer: the report
  prints and calls nothing, the accuracy is stored at once, and the ROC-AUC score is
  stored when its call returns.
\<close>

lemma output_results_self: "self (snd (output_results w)) = self w"
  by (simp add: output_results_def Let_def split: option.splits)

lemma output_results_prints:
  "\<exists>rep. trace (snd (output_results w)) = trace w @ rep \<and> (\<forall>c. Call c \<notin> set rep)"
  by (auto simp: output_results_def Let_def split: option.splits)

lemma run_metrics_scores:
  assumes "accuracy_score sk p t = Inr a"
  shows "accuracy (self (snd (run_metrics sk m p q t w))) = Some a"
    and "roc_auc (self (snd (run_metrics sk m p q t w))) =
           (case roc_auc_score sk p q of Inl e \<Rightarrow> roc_auc (self w) | Inr r \<Rightarrow> Some r)"
  using assms
  by (simp_all add: run_metrics_def Let_def output_results_self split: sum.splits)

lemma run_metrics_calls:
  assumes "accuracy_score sk p t = Inr a"
  shows "\<exists>rest. trace (snd (run_metrics sk m p q t w)) =
           trace w @ [Call (Call_accuracy_score p t), Call (Call_roc_auc_score p q)] @ rest \<and>
           (\<forall>u v. Call (Call_accuracy_score u v) \<notin> set rest) \<and>
           (\<forall>u v. Call (Call_roc_auc_score u v) \<notin> set rest)"
proof (cases "roc_auc_score sk p q")
  case (Inl e)
  then show ?thesis
    using assms by (simp add: run_metrics_def Let_def)
next
  case (Inr r)
  let ?w3 = "update_self (\<lambda>s. s\<lparr>roc_auc := Some r\<rparr>)
      (emit (Call (Call_roc_auc_score p q))
        (update_self (\<lambda>s. s\<lparr>accuracy := Some a\<rparr>) (emit (Call (Call_accuracy_score p t)) w)))"
  let ?c = "Call (Call_cross_val_score m (attributes (self w)) (labels (self w)) (cv (self w)))"
  show ?thesis
  proof (cases "cross_val_score sk m (attributes (self w)) (labels (self w)) (cv (self w))")
    case (Inl e)
    then have "trace (snd (run_metrics sk m p q t w)) =
        trace w @ [Call (Call_accuracy_score p t), Call (Call_roc_auc_score p q)] @ [?c]"
      using assms Inr by (simp add: run_metrics_def Let_def)
    then show ?thesis
      by (intro exI [of _ "[?c]"]) simp
  next
    case scores: (Inr scores)
    let ?w5 = "update_self (\<lambda>s. s\<lparr>cross_val_scores := Some scores\<rparr>) (emit ?c ?w3)"
    have r: "run_metrics sk m p q t w = output_results ?w5"
      using assms Inr scores by (simp add: run_metrics_def Let_def)
    obtain rep where rep: "trace (snd (output_results ?w5)) = trace ?w5 @ rep"
      and no: "\<forall>c. Call c \<notin> set rep"
      using output_results_prints by blast
    have "trace (snd (run_metrics sk m p q t w)) =
        trace w @ [Call (Call_accuracy_score p t), Call (Call_roc_auc_score p q)] @ (?c # rep)"
      by (simp add: r rep)
    then show ?thesis
      using no by (intro exI [of _ "?c # rep"]) simp
  qed
qed

text \<open>
  C4. In a run that comes as far as the accuracy score (the dataset is valid, the
  parameters are collected, the split, the fit and the two predictions succeed, the
  probability matrix has a second column and \<open>accuracy_score\<close> returns), the stored
  accuracy is \<open>accuracy_score\<close> of the labels predicted for the testing partition and
  the held-out true labels. \<open>roc_auc_score\<close> is called once, with the predicted
  labels as first argument and the second column of the predicted probabilities as
  second argument; what it returns is stored as the ROC-AUC score, whatever the
  cross-validation does afterwards, and when it faults the score is what it was before.
\<close>

theorem roc_auc_from_predicted_labels:
  assumes "valid_dataset (self w)"
    and "create_model sk w = (Inr m, w2)"
    and "train_test_split sk (attributes (self w)) (labels (self w)) (test_size (self w2)) =
           Inr (X_train, X_test, y_train, y_test)"
    and "fit sk (params m) X_train (ravel y_train) = Inr l"
    and "predict_est sk (m\<lparr>fitted := Some l\<rparr>) (Some X_test) = Inr y_prediction"
    and "predict_proba sk (m\<lparr>fitted := Some l\<rparr>) X_test = Inr probas"
    and "list_all (\<lambda>row. 1 < length row) probas"
    and "accuracy_score sk y_prediction y_test = Inr a"
  shows "accuracy (self (snd (run sk w))) = Some a \<and>
         roc_auc (self (snd (run sk w))) =
           (case roc_auc_score sk y_prediction (map (\<lambda>row. row ! 1) probas) of
              Inl e \<Rightarrow> roc_auc (self w)
            | Inr r \<Rightarrow> Some r) \<and>
         Call (Call_roc_auc_score y_prediction (map (\<lambda>row. row ! 1) probas))
           \<in> set (issued w2 (snd (run sk w))) \<and>
         Call (Call_accuracy_score y_prediction y_test) \<in> set (issued w2 (snd (run sk w))) \<and>
         (\<forall>u v. Call (Call_roc_auc_score u v) \<in> set (issued w2 (snd (run sk w))) \<longrightarrow>
                u = y_prediction \<and> v = map (\<lambda>row. row ! 1) probas) \<and>
         (\<forall>u v. Call (Call_accuracy_score u v) \<in> set (issued w2 (snd (run sk w))) \<longrightarrow>
                u = y_prediction \<and> v = y_test)"
proof -
  note f = forget_config_fields [OF create_model_self [OF assms(2)]]
  let ?m = "m\<lparr>fitted := Some l\<rparr>"
  let ?q = "map (\<lambda>row. row ! 1) probas"
  let ?W =
    "emit (Call (Call_predict_proba ?m X_test))
      (emit (Call (Call_predict ?m (Some X_test)))
        (update_self
           (\<lambda>s. s\<lparr>regression := Some ?m,
                   classes_' := Some (est_classes l),
                   coefficients := Some (est_coef l),
                   intercept := Some (est_intercept l),
                   n_iter_' := Some (est_n_iter l)\<rparr>)
           (emit (Call (Call_fit m X_train (ravel y_train)))
             (emit (Call (Call_train_test_split (attributes (self w)) (labels (self w))
                            (test_size (self w2))))
               (update_self (\<lambda>s. s\<lparr>regression := Some m\<rparr>) w2)))))"
  have r: "run sk w = run_metrics sk ?m y_prediction ?q y_test ?W"
    using assms
    by (simp add: run_def check_inputs_accepts run_train_def run_predictions_def column1_def
        f Let_def)
  obtain rest where
    t: "trace (snd (run_metrics sk ?m y_prediction ?q y_test ?W)) =
          trace ?W @
          [Call (Call_accuracy_score y_prediction y_test), Call (Call_roc_auc_score y_prediction ?q)]
          @ rest"
    and n: "\<forall>u v. Call (Call_accuracy_score u v) \<notin> set rest"
      "\<forall>u v. Call (Call_roc_auc_score u v) \<notin> set rest"
    using run_metrics_calls [OF assms(8)] by blast
  have tw: "trace ?W =
      trace w2 @
      [Call (Call_train_test_split (attributes (self w)) (labels (self w)) (test_size (self w2))),
       Call (Call_fit m X_train (ravel y_train)),
       Call (Call_predict ?m (Some X_test)),
       Call (Call_predict_proba ?m X_test)]"
    by simp
  have i: "issued w2 (snd (run sk w)) =
      [Call (Call_train_test_split (attributes (self w)) (labels (self w)) (test_size (self w2))),
       Call (Call_fit m X_train (ravel y_train)),
       Call (Call_predict ?m (Some X_test)),
       Call (Call_predict_proba ?m X_test),
       Call (Call_accuracy_score y_prediction y_test),
       Call (Call_roc_auc_score y_prediction ?q)] @ rest"
    unfolding issued_def r t tw by simp
  have s: "roc_auc (self ?W) = roc_auc (self w)"
    by (simp add: f)
  have acc: "accuracy (self (snd (run sk w))) = Some a"
    unfolding r by (rule run_metrics_scores(1) [OF assms(8)])
  have roc: "roc_auc (self (snd (run sk w))) =
           (case roc_auc_score sk y_prediction ?q of
              Inl e \<Rightarrow> roc_auc (self w)
            | Inr r \<Rightarrow> Some r)"
    unfolding r run_metrics_scores(2) [OF assms(8)] s by (rule refl)
  have calls: "Call (Call_roc_auc_score y_prediction ?q) \<in> set (issued w2 (snd (run sk w)))"
    "Call (Call_accuracy_score y_prediction y_test) \<in> set (issued w2 (snd (run sk w)))"
    "\<forall>u v. Call (Call_roc_auc_score u v) \<in> set (issued w2 (snd (run sk w))) \<longrightarrow>
           u = y_prediction \<and> v = ?q"
    "\<forall>u v. Call (Call_accuracy_score u v) \<in> set (issued w2 (snd (run sk w))) \<longrightarrow>
           u = y_prediction \<and> v = y_test"
    unfolding i using n by (simp_all del: One_nat_def)
  show ?thesis
    using acc roc calls by blast
qed

theorem roc_auc_from_predicted_labels_witness:
  "valid_dataset (self crossed_session) \<and>
   fst (create_model stub_sklearn crossed_session) =
     Inr \<lparr>params = local_defaults, fitted = None\<rparr> \<and>
   predict_est stub_sklearn (\<lparr>params = local_defaults, fitted = None\<rparr>
       \<lparr>fitted := Some stub_learned\<rparr>) (Some [[2], [- 2]]) = Inr [1, 0] \<and>
   predict_proba stub_sklearn (\<lparr>params = local_defaults, fitted = None\<rparr>
       \<lparr>fitted := Some stub_learned\<rparr>) [[2], [- 2]] =
     Inr [[1 / 5, 4 / 5], [7 / 10, 3 / 10]] \<and>
   list_all (\<lambda>row. 1 < length row) [[1 / 5, 4 / 5], [7 / 10, 3 / 10 :: rat]] \<and>
   ravel [[0], [1]] \<noteq> [1, 0] \<and>
   roc_auc (self (snd (run stub_sklearn crossed_session))) = Some 1 \<and>
   accuracy (self (snd (run stub_sklearn crossed_session))) = Some 0 \<and>
   Call (Call_roc_auc_score [1, 0] [4 / 5, 3 / 10])
     \<in> set (issued (snd (create_model stub_sklearn crossed_session))
              (snd (run stub_sklearn crossed_session))) \<and>
   Call (Call_accuracy_score [1, 0] [[0], [1]])
     \<in> set (issued (snd (create_model stub_sklearn crossed_session))
              (snd (run stub_sklearn crossed_session)))"
proof -
  note c = crossed_session_model
  note e = stub_on_crossed_samples
  have v: "valid_dataset (self crossed_session)"
    by (simp add: c)
  have p: "params \<lparr>params = local_defaults, fitted = None\<rparr> = local_defaults"
    by simp
  have la: "list_all (\<lambda>row. 1 < length row) [[1 / 5, 4 / 5], [7 / 10, 3 / 10 :: rat]]"
    by simp
  have q: "map (\<lambda>row. row ! 1) [[1 / 5, 4 / 5], [7 / 10, 3 / 10 :: rat]] = [4 / 5, 3 / 10]"
    by simp
  note r = roc_auc_from_predicted_labels
    [of crossed_session stub_sklearn "\<lparr>params = local_defaults, fitted = None\<rparr>"
      "snd (create_model stub_sklearn crossed_session)"
      "[[- 1], [1]]" "[[2], [- 2]]" "[[0], [1]]" "[[0], [1]]" stub_learned "[1, 0]"
      "[[1 / 5, 4 / 5], [7 / 10, 3 / 10]]" 0]
  have "roc_auc (self (snd (run stub_sklearn crossed_session))) = Some 1 \<and>
   accuracy (self (snd (run stub_sklearn crossed_session))) = Some 0 \<and>
   Call (Call_roc_auc_score [1, 0] [4 / 5, 3 / 10])
     \<in> set (issued (snd (create_model stub_sklearn crossed_session))
              (snd (run stub_sklearn crossed_session))) \<and>
   Call (Call_accuracy_score [1, 0] [[0], [1]])
     \<in> set (issued (snd (create_model stub_sklearn crossed_session))
              (snd (run stub_sklearn crossed_session)))"
    using r v c(1) e la by (simp add: c(2) c(3) p q)
  moreover have "fst (create_model stub_sklearn crossed_session) =
     Inr \<lparr>params = local_defaults, fitted = None\<rparr>"
    by (subst c(1)) simp
  ultimately show ?thesis
    using v e(3) e(4) la by (simp add: ravel_def)
qed

text \<open>
  C8. In a run in which every step succeeds, the cross-validation scores stored are
  what the library's \<open>cross_val_score\<close> returns for the fitted estimator, the whole
  \<open>attributes\<close> and \<open>labels\<close> of the object (not the training partition) and the
  fold count \<open>cv\<close> that the parameter collection left in the object; it is the only
  cross-validation call. With a library that returns one score for each fold, the number
  of scores stored is that fold count, or the library's default when it is absent.
\<close>

theorem cross_validation_over_whole_dataset:
  assumes "valid_dataset (self w)"
    and "create_model sk w = (Inr m, w2)"
    and "train_test_split sk (attributes (self w)) (labels (self w)) (test_size (self w2)) =
           Inr (X_train, X_test, y_train, y_test)"
    and "fit sk (params m) X_train (ravel y_train) = Inr l"
    and "predict_est sk (m\<lparr>fitted := Some l\<rparr>) (Some X_test) = Inr y_prediction"
    and "predict_proba sk (m\<lparr>fitted := Some l\<rparr>) X_test = Inr probas"
    and "column1 probas = Inr y_pred_probas"
    and "accuracy_score sk y_prediction y_test = Inr a"
    and "roc_auc_score sk y_prediction y_pred_probas = Inr r"
    and "cross_val_score sk (m\<lparr>fitted := Some l\<rparr>) (attributes (self w)) (labels (self w))
           (cv (self w2)) = Inr scores"
    and "kfold_contract sk default_folds"
  shows "fst (run sk w) = Inr () \<and>
         cross_val_scores (self (snd (run sk w))) = Some scores \<and>
         cv (self (snd (run sk w))) = cv (self w2) \<and>
         attributes (self (snd (run sk w))) = attributes (self w) \<and>
         labels (self (snd (run sk w))) = labels (self w) \<and>
         Call (Call_cross_val_score (m\<lparr>fitted := Some l\<rparr>) (attributes (self w))
                 (labels (self w)) (cv (self w2))) \<in> set (issued w2 (snd (run sk w))) \<and>
         (\<forall>est X y k.
            Call (Call_cross_val_score est X y k) \<in> set (issued w2 (snd (run sk w))) \<longrightarrow>
            X = attributes (self w) \<and> y = labels (self w) \<and> k = cv (self w2)) \<and>
         int (length scores) =
           (case cv (self w2) of None \<Rightarrow> int default_folds | Some n \<Rightarrow> n)"
proof -
  note s = run_success [OF assms(1-10)]
  note f = forget_config_fields [OF create_model_self [OF assms(2)]]
  from s(3) obtain report where
    t: "issued w2 (snd (run sk w)) =
          [Call (Call_train_test_split (attributes (self w)) (labels (self w))
                   (test_size (self w2))),
           Call (Call_fit m X_train (ravel y_train)),
           Call (Call_predict (m\<lparr>fitted := Some l\<rparr>) (Some X_test)),
           Call (Call_predict_proba (m\<lparr>fitted := Some l\<rparr>) X_test),
           Call (Call_accuracy_score y_prediction y_test),
           Call (Call_roc_auc_score y_prediction y_pred_probas),
           Call (Call_cross_val_score (m\<lparr>fitted := Some l\<rparr>) (attributes (self w))
                   (labels (self w)) (cv (self w2)))] @ report"
    and n: "\<not> list_ex is_call report"
    by (auto simp: issued_def)
  have c: "Call x \<notin> set report" for x
    using n by (auto simp: list_ex_iff is_call_def)
  have k: "int (length scores) =
           (case cv (self w2) of None \<Rightarrow> int default_folds | Some n \<Rightarrow> n)"
    using assms(10) assms(11) unfolding kfold_contract_def by blast
  show ?thesis
    by (simp add: s(1) s(2) t c f k)
qed

lemma stub_kfold_contract: "kfold_contract stub_sklearn 5"
  by (auto simp: kfold_contract_def stub_sklearn_def stub_cross_val_score_def
      split: option.splits if_splits)

theorem cross_validation_over_whole_dataset_witness:
  "valid_dataset (self two_fold_session) \<and>
   kfold_contract stub_sklearn 5 \<and>
   cv (self (snd (create_model stub_sklearn two_fold_session))) = Some 2 \<and>
   fst (run stub_sklearn two_fold_session) = Inr () \<and>
   cross_val_scores (self (snd (run stub_sklearn two_fold_session))) = Some [1, 1] \<and>
   Call (Call_cross_val_score
           (\<lparr>params = local_defaults, fitted = None\<rparr>\<lparr>fitted := Some stub_learned\<rparr>)
           (Some [[- 1], [1], [2], [- 2]]) (Some [[0], [1], [0], [1]]) (Some 2))
     \<in> set (issued (snd (create_model stub_sklearn two_fold_session))
              (snd (run stub_sklearn two_fold_session)))"
proof -
  note c = two_fold_session_model
  note e = stub_on_crossed_samples
  have v: "valid_dataset (self two_fold_session)"
    by (simp add: c crossed_session_model)
  have p: "params \<lparr>params = local_defaults, fitted = None\<rparr> = local_defaults"
    by simp
  have a: "attributes crossed_samples = Some [[- 1], [1], [2], [- 2]]"
    "labels crossed_samples = Some [[0], [1], [0], [1]]"
    by (simp_all add: crossed_samples_def init_def)
  note r = cross_validation_over_whole_dataset
    [of two_fold_session stub_sklearn "\<lparr>params = local_defaults, fitted = None\<rparr>"
      "snd (create_model stub_sklearn two_fold_session)"
      "[[- 1], [1]]" "[[2], [- 2]]" "[[0], [1]]" "[[0], [1]]" stub_learned "[1, 0]"
      "[[1 / 5, 4 / 5], [7 / 10, 3 / 10]]" "[4 / 5, 3 / 10]" 0 1 "[1, 1]" 5]
  have "fst (run stub_sklearn two_fold_session) = Inr () \<and>
   cross_val_scores (self (snd (run stub_sklearn two_fold_session))) = Some [1, 1] \<and>
   Call (Call_cross_val_score
           (\<lparr>params = local_defaults, fitted = None\<rparr>\<lparr>fitted := Some stub_learned\<rparr>)
           (attributes crossed_samples) (labels crossed_samples) (Some 2))
     \<in> set (issued (snd (create_model stub_sklearn two_fold_session))
              (snd (run stub_sklearn two_fold_session)))"
    using r v c(1) e stub_kfold_contract by (simp add: c(2) c(3) p)
  then show ?thesis
    using v stub_kfold_contract by (simp add: c(2) a)
qed

section \<open>What the accessors return\<close>

lemma run_metrics_coef:
  "coef_' (self (snd (run_metrics sk m p q t w))) = coef_' (self w)"
  by (simp add: run_metrics_def Let_def output_results_self split: sum.splits)

lemma run_predictions_coef:
  "coef_' (self (snd (run_predictions sk m X t w))) = coef_' (self w)"
  by (simp add: run_predictions_def Let_def run_metrics_coef split: sum.splits)

lemma run_train_coef:
  "coef_' (self (snd (run_train sk m X_train X_test y_train y_test w))) = coef_' (self w)"
  by (simp add: run_train_def Let_def run_predictions_coef split: sum.splits)

lemma check_inputs_self: "self (snd (check_inputs w)) = self w"
  by (simp add: check_inputs_def split: option.splits)

lemma run_coef: "coef_' (self (snd (run sk w))) = coef_' (self w)"
proof (cases "check_inputs w")
  case (Pair ok w1)
  then have w1: "self w1 = self w"
    using check_inputs_self [of w] by simp
  show ?thesis
  proof (cases ok)
    case False
    then show ?thesis
      using Pair w1 by (simp add: run_def)
  next
    case True
    obtain r w2 where c: "create_model sk w1 = (r, w2)"
      by (cases "create_model sk w1")
    have w2: "coef_' (self w2) = coef_' (self w)"
      using forget_config_fields(5) [OF create_model_self [OF c]] w1 by simp
    show ?thesis
      using Pair True c w2
      by (cases r) (simp_all add: run_def Let_def run_train_coef split: sum.splits prod.splits)
  qed
qed

lemma predict_self: "self (snd (predict sk X w)) = self w"
  by (simp add: predict_def Let_def split: option.splits sum.splits)

lemma reachable_coef: "reachable s \<Longrightarrow> coef_' s = None"
proof (induction rule: reachable.induct)
  case (reach_init a l)
  show ?case by (simp add: init_def)
next
  case (reach_set_attributes s a)
  then show ?case by (simp add: set_attributes_def)
next
  case (reach_set_labels s l)
  then show ?case by (simp add: set_labels_def)
next
  case (reach_run w sk)
  then show ?case by (simp add: run_coef)
next
  case (reach_predict w sk x)
  then show ?case by (simp add: predict_self)
qed

lemma get_classes_faults: "get_classes s = Inl (no_attribute ''classes'')"
  by (simp add: get_classes_def getattr_def instance_dict_def created_def
      split: option.splits)

lemma get_coefficents_reads_coef: "get_coefficents s = Inr (py PyTable (coef_' s))"
  by (simp add: get_coefficents_def getattr_def instance_dict_def)

text \<open>
  C10. In every state an object can reach, \<open>get_classes\<close> raises \<open>AttributeError\<close>:
  it reads \<open>classes\<close>, a name no method ever assigns. \<open>get_coefficents\<close> returns
  \<open>None\<close>: it reads \<open>coef_\<close>, which is \<open>None\<close> from \<open>__init__\<close> on. This is so
  also after a run in which every step succeeds, which stores the class labels under
  \<open>classes_\<close> and the coefficient matrix under \<open>coefficients\<close>.
\<close>

theorem accessors_expose_nothing:
  "(reachable s \<longrightarrow>
      get_classes s = Inl (no_attribute ''classes'') \<and> get_coefficents s = Inr PyNone) \<and>
   (reachable (self w) \<and> valid_dataset (self w) \<and>
    create_model sk w = (Inr m, w2) \<and>
    train_test_split sk (attributes (self w)) (labels (self w)) (test_size (self w2)) =
      Inr (X_train, X_test, y_train, y_test) \<and>
    fit sk (params m) X_train (ravel y_train) = Inr l \<and>
    predict_est sk (m\<lparr>fitted := Some l\<rparr>) (Some X_test) = Inr y_prediction \<and>
    predict_proba sk (m\<lparr>fitted := Some l\<rparr>) X_test = Inr probas \<and>
    column1 probas = Inr y_pred_probas \<and>
    accuracy_score sk y_prediction y_test = Inr a \<and>
    roc_auc_score sk y_prediction y_pred_probas = Inr r \<and>
    cross_val_score sk (m\<lparr>fitted := Some l\<rparr>) (attributes (self w)) (labels (self w))
      (cv (self w2)) = Inr scores \<longrightarrow>
      fst (run sk w) = Inr () \<and>
      classes_' (self (snd (run sk w))) = Some (est_classes l) \<and>
      coefficients (self (snd (run sk w))) = Some (est_coef l) \<and>
      get_classes (self (snd (run sk w))) = Inl (no_attribute ''classes'') \<and>
      get_coefficents (self (snd (run sk w))) = Inr PyNone)"
proof (intro conjI impI)
  assume "reachable s"
  then show "get_coefficents s = Inr PyNone"
    by (simp add: get_coefficents_reads_coef reachable_coef py_def)
next
  show "get_classes s = Inl (no_attribute ''classes'')"
    by (rule get_classes_faults)
next
  assume h: "reachable (self w) \<and> valid_dataset (self w) \<and>
    create_model sk w = (Inr m, w2) \<and>
    train_test_split sk (attributes (self w)) (labels (self w)) (test_size (self w2)) =
      Inr (X_train, X_test, y_train, y_test) \<and>
    fit sk (params m) X_train (ravel y_train) = Inr l \<and>
    predict_est sk (m\<lparr>fitted := Some l\<rparr>) (Some X_test) = Inr y_prediction \<and>
    predict_proba sk (m\<lparr>fitted := Some l\<rparr>) X_test = Inr probas \<and>
    column1 probas = Inr y_pred_probas \<and>
    accuracy_score sk y_prediction y_test = Inr a \<and>
    roc_auc_score sk y_prediction y_pred_probas = Inr r \<and>
    cross_val_score sk (m\<lparr>fitted := Some l\<rparr>) (attributes (self w)) (labels (self w))
      (cv (self w2)) = Inr scores"
  then have s: "fst (run sk w) = Inr ()"
    "self (snd (run sk w)) =
           (self w2)
             \<lparr>regression := Some (m\<lparr>fitted := Some l\<rparr>),
              classes_' := Some (est_classes l),
              coefficients := Some (est_coef l),
              intercept := Some (est_intercept l),
              n_iter_' := Some (est_n_iter l),
              accuracy := Some a,
              roc_auc := Some r,
              cross_val_scores := Some scores\<rparr>"
    using run_success(1,2) [of w sk m w2 X_train X_test y_train y_test l y_prediction probas
        y_pred_probas a r scores]
    by blast+
  from h have "reachable (self (snd (run sk w)))"
    using reach_run by blast
  then have g: "get_coefficents (self (snd (run sk w))) = Inr PyNone"
    by (simp add: get_coefficents_reads_coef reachable_coef py_def)
  show "fst (run sk w) = Inr ()"
    by (rule s(1))
  show "classes_' (self (snd (run sk w))) = Some (est_classes l)"
    by (simp add: s(2))
  show "coefficients (self (snd (run sk w))) = Some (est_coef l)"
    by (simp add: s(2))
  show "get_classes (self (snd (run sk w))) = Inl (no_attribute ''classes'')"
    by (rule get_classes_faults)
  show "get_coefficents (self (snd (run sk w))) = Inr PyNone"
    by (rule g)
qed

theorem accessors_expose_nothing_witness:
  "reachable (self crossed_session) \<and>
   valid_dataset (self crossed_session) \<and>
   fst (run stub_sklearn crossed_session) = Inr () \<and>
   classes_' (self (snd (run stub_sklearn crossed_session))) = Some [0, 1] \<and>
   coefficients (self (snd (run stub_sklearn crossed_session))) = Some [[1]] \<and>
   get_classes (self (snd (run stub_sklearn crossed_session))) =
     Inl (no_attribute ''classes'') \<and>
   get_coefficents (self (snd (run stub_sklearn crossed_session))) = Inr PyNone \<and>
   get_classes (self crossed_session) = Inl (no_attribute ''classes'') \<and>
   get_coefficents (self crossed_session) = Inr PyNone"
proof -
  note c = crossed_session_model
  note e = stub_on_crossed_samples
  have v: "valid_dataset (self crossed_session)"
    by (simp add: c)
  have re: "reachable (self crossed_session)"
    unfolding c(3) crossed_samples_def by (rule reach_init)
  have p: "params \<lparr>params = local_defaults, fitted = None\<rparr> = local_defaults"
    by simp
  note r = accessors_expose_nothing
    [of "self crossed_session" crossed_session stub_sklearn
      "\<lparr>params = local_defaults, fitted = None\<rparr>"
      "snd (create_model stub_sklearn crossed_session)"
      "[[- 1], [1]]" "[[2], [- 2]]" "[[0], [1]]" "[[0], [1]]" stub_learned "[1, 0]"
      "[[1 / 5, 4 / 5], [7 / 10, 3 / 10]]" "[4 / 5, 3 / 10]" 0 1 "[1, 1, 1, 1, 1]"]
  have "fst (run stub_sklearn crossed_session) = Inr () \<and>
   classes_' (self (snd (run stub_sklearn crossed_session))) = Some (est_classes stub_learned) \<and>
   coefficients (self (snd (run stub_sklearn crossed_session))) = Some (est_coef stub_learned) \<and>
   get_classes (self (snd (run stub_sklearn crossed_session))) =
     Inl (no_attribute ''classes'') \<and>
   get_coefficents (self (snd (run stub_sklearn crossed_session))) = Inr PyNone \<and>
   get_classes (self crossed_session) = Inl (no_attribute ''classes'') \<and>
   get_coefficents (self crossed_session) = Inr PyNone"
    using r v re c(1) e by (simp add: c(2) c(3) p)
  then show ?thesis
    using v re by (simp add: stub_learned_def)
qed

section \<open>Which faults of the library are caught\<close>

text \<open>
  C2, as the code has it. A fault that \<open>fit\<close> raises during \<open>run\<close> is caught: \<open>run\<close>
  returns normally, having printed a diagnostic and the fault. No fault of the library
  leaves \<open>predict\<close>: it always returns, and when the library's prediction faults it
  returns no result after printing a diagnostic and the fault.
\<close>

theorem handled_faults_are_caught:
  "(valid_dataset (self w) \<and> create_model sk w = (Inr m, w2) \<and>
    train_test_split sk (attributes (self w)) (labels (self w)) (test_size (self w2)) =
      Inr (X_train, X_test, y_train, y_test) \<and>
    fit sk (params m) X_train (ravel y_train) = Inl e \<longrightarrow>
      fst (run sk w) = Inr () \<and>
      (\<exists>d. issued w2 (snd (run sk w)) =
         [Call (Call_train_test_split (attributes (self w)) (labels (self w))
                  (test_size (self w2))),
          Call (Call_fit m X_train (ravel y_train)),
          Print d, Print [Str ''Here is the exception message:''], Print [Exn e]])) \<and>
   (\<exists>v. fst (predict sk X w) = Inr v) \<and>
   (\<forall>m' e'. regression (self w) = Some m' \<and> predict_est sk m' X = Inl e' \<longrightarrow>
      fst (predict sk X w) = Inr None \<and>
      (\<exists>d. issued w (snd (predict sk X w)) =
         [Call (Call_predict m' X), Print d, Print [Str ''Here is the exception message:''],
          Print [Exn e']]))"
proof (intro conjI impI allI)
  assume h: "valid_dataset (self w) \<and> create_model sk w = (Inr m, w2) \<and>
    train_test_split sk (attributes (self w)) (labels (self w)) (test_size (self w2)) =
      Inr (X_train, X_test, y_train, y_test) \<and>
    fit sk (params m) X_train (ravel y_train) = Inl e"
  then have c: "create_model sk w = (Inr m, w2)"
    by blast
  note f = forget_config_fields [OF create_model_self [OF c]]
  have r: "run sk w =
      (Inr (),
       update_self (\<lambda>s. s\<lparr>regression := None\<rparr>)
         (emit (Print [Exn e])
           (say ''Here is the exception message:''
             (say (''An exception occurred while training the logistic regression '' @
                   ''model. Check your inputs and try again.'')
               (emit (Call (Call_fit m X_train (ravel y_train)))
                 (emit (Call (Call_train_test_split (attributes (self w)) (labels (self w))
                          (test_size (self w2))))
                   (update_self (\<lambda>s. s\<lparr>regression := Some m\<rparr>) w2)))))))"
    using h by (simp add: run_def check_inputs_accepts run_train_def f Let_def)
  show "fst (run sk w) = Inr ()"
    by (simp add: r)
  show "\<exists>d. issued w2 (snd (run sk w)) =
         [Call (Call_train_test_split (attributes (self w)) (labels (self w))
                  (test_size (self w2))),
          Call (Call_fit m X_train (ravel y_train)),
          Print d, Print [Str ''Here is the exception message:''], Print [Exn e]]"
    by (simp add: r issued_def)
next
  show "\<exists>v. fst (predict sk X w) = Inr v"
    by (simp add: predict_def Let_def split: option.splits sum.splits)
next
  fix m' e'
  assume "regression (self w) = Some m' \<and> predict_est sk m' X = Inl e'"
  then show "fst (predict sk X w) = Inr None"
    by (simp add: predict_def Let_def)
next
  fix m' e'
  assume "regression (self w) = Some m' \<and> predict_est sk m' X = Inl e'"
  then show "\<exists>d. issued w (snd (predict sk X w)) =
         [Call (Call_predict m' X), Print d, Print [Str ''Here is the exception message:''],
          Print [Exn e']]"
    by (simp add: predict_def Let_def issued_def)
qed

theorem handled_faults_are_caught_witness:
  "valid_dataset (self one_class_session) \<and>
   fit stub_sklearn local_defaults [[- 1], [1]] (ravel [[0], [0]]) =
     Inl (ValueError ''This solver needs samples of at least 2 classes'') \<and>
   fst (run stub_sklearn one_class_session) = Inr () \<and>
   regression (self (session (four_samples\<lparr>regression := Some fitted_stub\<rparr>) [])) =
     Some fitted_stub \<and>
   predict_est stub_sklearn fitted_stub None =
     Inl (ValueError ''Expected 2D array, got scalar array instead'') \<and>
   fst (predict stub_sklearn None
          (session (four_samples\<lparr>regression := Some fitted_stub\<rparr>) [])) = Inr None"
proof -
  have i: "stdin one_class_session = ''y'' # '''' # []" "lower ''y'' \<noteq> ''n''"
    "attributes (self one_class_session) = Some [[- 1], [1], [- 2], [2]]"
    "labels (self one_class_session) = Some [[0], [0], [0], [0]]"
    by (simp_all add: one_class_session_def session_def one_class_samples_def init_def
        lower_def lower_char_def)
  note c0 = create_model_accepting_defaults [of one_class_session _ _ _ stub_sklearn, OF i(1,2)]
  have d: "default_params stub_sklearn = local_defaults"
    by (simp add: stub_sklearn_def)
  have c: "create_model stub_sklearn one_class_session =
      (Inr \<lparr>params = local_defaults, fitted = None\<rparr>,
       snd (create_model stub_sklearn one_class_session))"
    by (simp add: c0 d)
  have t: "test_size (self (snd (create_model stub_sklearn one_class_session))) =
      Some (Finite (1 / 4))"
    by (simp add: c0)
  have v: "valid_dataset (self one_class_session)"
    by (simp add: valid_dataset_def i)
  have s: "train_test_split stub_sklearn (attributes (self one_class_session))
      (labels (self one_class_session))
      (test_size (self (snd (create_model stub_sklearn one_class_session)))) =
      Inr ([[- 1], [1]], [[- 2], [2]], [[0], [0]], [[0], [0]])"
    unfolding t i by (simp add: stub_sklearn_def stub_train_test_split_def)
  have f: "fit stub_sklearn (params \<lparr>params = local_defaults, fitted = None\<rparr>) [[- 1], [1]]
      (ravel [[0], [0]]) = Inl (ValueError ''This solver needs samples of at least 2 classes'')"
    by (simp add: stub_sklearn_def stub_fit_def ravel_def)
  have g: "regression (self (session (four_samples\<lparr>regression := Some fitted_stub\<rparr>) [])) =
     Some fitted_stub"
    by (simp add: session_def)
  have p: "predict_est stub_sklearn fitted_stub None =
     Inl (ValueError ''Expected 2D array, got scalar array instead'')"
    by (simp add: stub_sklearn_def stub_predict_def fitted_stub_def)
  note r1 = handled_faults_are_caught
    [of one_class_session stub_sklearn "\<lparr>params = local_defaults, fitted = None\<rparr>"
      "snd (create_model stub_sklearn one_class_session)"
      "[[- 1], [1]]" "[[- 2], [2]]" "[[0], [0]]" "[[0], [0]]"
      "ValueError ''This solver needs samples of at least 2 classes''",
      THEN conjunct1, rule_format, OF conjI [OF v conjI [OF c conjI [OF s f]]]]
  note r2 = handled_faults_are_caught
    [where sk = stub_sklearn and X = None
      and w = "session (four_samples\<lparr>regression := Some fitted_stub\<rparr>) []",
      THEN conjunct2, THEN conjunct2, rule_format, OF conjI [OF g p]]
  show ?thesis
    using r1 r2 v f g p by simp
qed

text \<open>
  C2, as the claim states it, fails. In this session the operator asks for a test
  fraction of 5; the library's split rejects it, and the fault leaves \<open>run\<close>: the
  call of the split is not inside a \<open>try\<close>.
\<close>

theorem split_fault_propagates:
  "train_test_split stub_sklearn (attributes (self bad_fraction_session))
     (labels (self bad_fraction_session)) (Some (Finite 5)) =
     Inl (ValueError ''test_size should be in the (0, 1) range'') \<and>
   fst (run stub_sklearn bad_fraction_session) =
     Inl (ValueError ''test_size should be in the (0, 1) range'')"
  by (simp add: bad_fraction_session_def session_def four_samples_def init_def run_def
      check_inputs_def create_model_def input_def from_test_size_def from_cv_def
      set_cv_def set_test_size_def new_LogisticRegression_def lower_def lower_char_def
      float_def py_int_def strip_def is_space_def number_def exponent_def is_digit_def
      digit_val_def Let_def stub_sklearn_def stub_train_test_split_def float_q py_int_q)

end
